theory Spec2Isabelle
  imports Complex_Main "HOL-Library.Word"
begin

unbundle bit_operations_syntax

section \<open>Values\<close>

text \<open>
  The interpreter represents Lua values by Python objects: \<^verbatim>\<open>None\<close>, \<^verbatim>\<open>bool\<close>,
  \<^verbatim>\<open>int\<close> (unbounded), \<^verbatim>\<open>float\<close>, \<^verbatim>\<open>str\<close>, and instances of \<^verbatim>\<open>LuaTable\<close>,
  \<^verbatim>\<open>LuaFunction\<close> and \<^verbatim>\<open>BuiltinFunction\<close>. The three classes define no \<^verbatim>\<open>__eq__\<close>, so
  their instances are compared by identity and are modelled by their address in a store.

  A Python float is NaN, an infinity, or a finite double; a finite double is kept as the
  rational number it denotes (the sign of zero is not kept).
\<close>

datatype pyfloat = FNaN | FInf bool | FFin rat

datatype lval =
    VNil
  | VBool bool
  | VInt int
  | VFloat pyfloat
  | VStr string
  | VTable nat
  | VFunction nat
  | VBuiltin nat

text \<open>
  Exceptions are values. \<^verbatim>\<open>LuaSyntaxError\<close> carries its message and line,
  \<^verbatim>\<open>LuaRuntimeError\<close> its message; the other constructors are the Python built-in
  exceptions the modelled code can raise, and the control signals of \<^verbatim>\<open>errors.py\<close>.
\<close>

datatype exn =
    LuaSyntaxError string int
  | LuaRuntimeError string
  | ValueError
  | OverflowError
  | IndexError
  | TypeError
  | ZeroDivisionError
  | BreakSignal
  | ReturnSignal "lval list"

subsection \<open>Python's \<^verbatim>\<open>isinstance\<close> and \<^verbatim>\<open>==\<close>\<close>

text \<open>
  In Python \<^verbatim>\<open>bool\<close> is a subclass of \<^verbatim>\<open>int\<close>: \<^verbatim>\<open>isinstance(True, int)\<close> holds, and
  \<^verbatim>\<open>True\<close> is the integer 1 in arithmetic, in comparisons and as a dictionary key.
\<close>

fun isinstance_int :: "lval \<Rightarrow> bool" where
  "isinstance_int (VInt i) = True"
| "isinstance_int (VBool b) = True"
| "isinstance_int v = False"

fun isinstance_float :: "lval \<Rightarrow> bool" where
  "isinstance_float (VFloat f) = True"
| "isinstance_float v = False"

fun isinstance_str :: "lval \<Rightarrow> bool" where
  "isinstance_str (VStr s) = True"
| "isinstance_str v = False"

fun isinstance_LuaTable :: "lval \<Rightarrow> bool" where
  "isinstance_LuaTable (VTable a) = True"
| "isinstance_LuaTable v = False"

text \<open>The integer a \<^verbatim>\<open>bool\<close> or \<^verbatim>\<open>int\<close> object stands for.\<close>

fun int_of :: "lval \<Rightarrow> int" where
  "int_of (VInt i) = i"
| "int_of (VBool b) = (if b then 1 else 0)"
| "int_of v = 0"

text \<open>
  Python's \<^verbatim>\<open>==\<close> on these objects: numbers (booleans included) are compared by their
  exact numeric value, strings by content, everything else by identity; NaN is equal to
  nothing. \<open>py_canon\<close> picks one representative among the numbers of equal value.
\<close>

fun py_canon :: "lval \<Rightarrow> lval" where
  "py_canon (VBool b) = VInt (if b then 1 else 0)"
| "py_canon (VFloat (FFin q)) = (if of_int \<lfloor>q\<rfloor> = q then VInt \<lfloor>q\<rfloor> else VFloat (FFin q))"
| "py_canon v = v"

definition py_eq :: "lval \<Rightarrow> lval \<Rightarrow> bool" where
  "py_eq a b = (a \<noteq> VFloat FNaN \<and> py_canon a = py_canon b)"

text \<open>\<^verbatim>\<open>int(x)\<close> of a finite float truncates towards zero.\<close>

definition py_trunc :: "rat \<Rightarrow> int" where
  "py_trunc q = (if 0 \<le> q then \<lfloor>q\<rfloor> else \<lceil>q\<rceil>)"

section \<open>Dictionaries\<close>

text \<open>
  A Python \<^verbatim>\<open>dict\<close> keeps its entries in insertion order and finds a key by \<^verbatim>\<open>==\<close>:
  an association list. Storing under a key that is present keeps the entry's place and
  its key object.
\<close>

type_synonym pydict = "(lval \<times> lval) list"

fun dict_get :: "pydict \<Rightarrow> lval \<Rightarrow> lval option" where
  "dict_get [] k = None"
| "dict_get ((k', v) # d) k = (if py_eq k' k then Some v else dict_get d k)"

definition dict_contains :: "pydict \<Rightarrow> lval \<Rightarrow> bool" where
  "dict_contains d k = (dict_get d k \<noteq> None)"

fun dict_setitem :: "pydict \<Rightarrow> lval \<Rightarrow> lval \<Rightarrow> pydict" where
  "dict_setitem [] k v = [(k, v)]"
| "dict_setitem ((k', v') # d) k v =
     (if py_eq k' k then (k', v) # d else (k', v') # dict_setitem d k v)"

fun dict_pop :: "pydict \<Rightarrow> lval \<Rightarrow> pydict" where
  "dict_pop [] k = []"
| "dict_pop ((k', v') # d) k = (if py_eq k' k then dict_pop d k else (k', v') # dict_pop d k)"

section \<open>Tables (\<^verbatim>\<open>lua_table.py\<close>)\<close>

record lua_table =
  data :: pydict
  metatable :: "nat option"
  sequence_hint :: int
  next_keys :: "lval list option"

definition LuaTable_init :: lua_table where
  "LuaTable_init = \<lparr> data = [], metatable = None, sequence_hint = 0, next_keys = None \<rparr>"

definition normalize_key :: "lval \<Rightarrow> exn + lval" where
  "normalize_key key =
     (case key of
        VFloat f \<Rightarrow>
          (case f of
             FNaN \<Rightarrow> Inl (LuaRuntimeError ''table index is NaN'')
           | FInf s \<Rightarrow> Inl OverflowError
           | FFin q \<Rightarrow>
               (let ik = py_trunc q in
                if of_int ik = q then Inr (VInt ik) else Inr key))
      | _ \<Rightarrow> Inr key)"

definition rawget :: "lua_table \<Rightarrow> lval \<Rightarrow> exn + lval" where
  "rawget t key =
     (case normalize_key key of
        Inl e \<Rightarrow> Inl e
      | Inr k \<Rightarrow>
          if k = VNil then Inr VNil
          else Inr (case dict_get (data t) k of None \<Rightarrow> VNil | Some v \<Rightarrow> v))"

text \<open>The loop \<^verbatim>\<open>while (self._sequence_hint + 1) in self._data: self._sequence_hint += 1\<close>.\<close>

function extend_hint :: "pydict \<Rightarrow> int \<Rightarrow> int" where
  "extend_hint d h = (if dict_contains d (VInt (h + 1)) then extend_hint d (h + 1) else h)"
  by pat_completeness auto

definition keys_above :: "pydict \<Rightarrow> int \<Rightarrow> nat" where
  "keys_above d h = length (filter (\<lambda>kv. \<exists>i. h < i \<and> py_canon (fst kv) = VInt i) d)"

lemma dict_get_Some_set:
  "dict_get d k = Some v \<Longrightarrow> \<exists>k'. (k', v) \<in> set d \<and> py_eq k' k"
  by (induction d) (auto split: if_splits)

lemma dict_contains_set:
  "dict_contains d k \<longleftrightarrow> (\<exists>kv \<in> set d. py_eq (fst kv) k)"
  unfolding dict_contains_def
  by (induction d) auto

lemma filter_length_strict:
  assumes "x \<in> set xs" and "Q x" and "\<not> P x" and "\<And>y. P y \<Longrightarrow> Q y"
  shows "length (filter P xs) < length (filter Q xs)"
proof -
  have "filter P xs = filter P (filter Q xs)"
    using assms(4) by (auto intro: filter_cong)
  moreover have "x \<in> set (filter Q xs)"
    using assms(1,2) by simp
  ultimately show ?thesis
    using length_filter_less [of x "filter Q xs" P] assms(3) by simp
qed

lemma keys_above_less:
  assumes "dict_contains d (VInt (h + 1))"
  shows "keys_above d (h + 1) < keys_above d h"
proof -
  from assms obtain kv where kv: "kv \<in> set d" "py_eq (fst kv) (VInt (h + 1))"
    by (auto simp: dict_contains_set)
  then have c: "py_canon (fst kv) = VInt (h + 1)"
    by (simp add: py_eq_def)
  show ?thesis
    unfolding keys_above_def
    by (rule filter_length_strict [OF kv(1)]) (use c in force)+
qed

termination extend_hint
  by (relation "measure (\<lambda>(d, h). keys_above d h)") (auto simp: keys_above_less)

declare extend_hint.simps [simp del]

definition rawset :: "lua_table \<Rightarrow> lval \<Rightarrow> lval \<Rightarrow> exn + lua_table" where
  "rawset t key val =
     (case normalize_key key of
        Inl e \<Rightarrow> Inl e
      | Inr k \<Rightarrow>
          if k = VNil then Inl (LuaRuntimeError ''table index is nil'')
          else
            (let t1 = t\<lparr>next_keys := None\<rparr>;
                 t2 = (if val = VNil then t1\<lparr>data := dict_pop (data t1) k\<rparr>
                       else t1\<lparr>data := dict_setitem (data t1) k val\<rparr>)
             in Inr
               (if isinstance_int k \<and> 1 \<le> int_of k then
                  (if val \<noteq> VNil \<and> int_of k = sequence_hint t2 + 1 then
                     t2\<lparr>sequence_hint := extend_hint (data t2) (int_of k)\<rparr>
                   else if val = VNil \<and> int_of k \<le> sequence_hint t2 then
                     t2\<lparr>sequence_hint := int_of k - 1\<rparr>
                   else t2)
                else t2)))"

text \<open>
  \<^verbatim>\<open>length\<close>: the loop \<^verbatim>\<open>while j in self._data: j *= 2\<close> is entered with \<open>j = 1\<close>; as a
  function of any \<open>j\<close> it need not return (\<open>j = 0\<close> with key 0 present), so its result is
  optional and \<open>None\<close> stands for a loop that never ends.
\<close>

partial_function (option) double_while :: "pydict \<Rightarrow> int \<Rightarrow> int option" where
  "double_while d j = (if dict_contains d (VInt j) then double_while d (j * 2) else Some j)"

declare double_while.simps [code]

function bisect :: "pydict \<Rightarrow> int \<Rightarrow> int \<Rightarrow> int" where
  "bisect d lo hi =
     (if hi - lo > 1 then
        (let mid = (lo + hi) div 2 in
         if dict_contains d (VInt mid) then bisect d mid hi else bisect d lo mid)
      else lo)"
  by pat_completeness auto
termination
  by (relation "measure (\<lambda>(d, lo, hi). nat (hi - lo))") auto

declare bisect.simps [simp del]

definition length_table :: "lua_table \<Rightarrow> (int \<times> lua_table) option" where
  "length_table t =
     (if 0 \<le> sequence_hint t \<and> \<not> dict_contains (data t) (VInt (sequence_hint t + 1))
      then Some (sequence_hint t, t)
      else if \<not> dict_contains (data t) (VInt 1) then Some (0, t)
      else
        (case double_while (data t) 1 of
           None \<Rightarrow> None
         | Some j \<Rightarrow>
             (let lo = bisect (data t) (j div 2) j
              in Some (lo, t\<lparr>sequence_hint := lo\<rparr>))))"

subsection \<open>Presence of keys, the hint invariant, reachable tables\<close>

text \<open>
  \<open>present t i\<close>: the table has a non-nil value under the integer key \<open>i\<close>
  (\<^verbatim>\<open>rawget\<close> does not return \<^verbatim>\<open>None\<close>). \<open>hint_ok\<close> is the invariant of the
  length hint as the specification words it. \<open>reachable\<close> are the states of a
  \<^verbatim>\<open>LuaTable\<close> object: the program creates tables with \<^verbatim>\<open>LuaTable()\<close> and changes
  their data and hint through \<^verbatim>\<open>rawset\<close> and \<^verbatim>\<open>length\<close> only (\<^verbatim>\<open>from_list\<close> and
  \<^verbatim>\<open>from_dict\<close> have no caller). \<open>table_inv\<close> is the inductive strengthening used in
  the proofs: the hint is exactly a border.
\<close>

definition present :: "lua_table \<Rightarrow> int \<Rightarrow> bool" where
  "present t i = (rawget t (VInt i) \<noteq> Inr VNil)"

definition no_nil_values :: "lua_table \<Rightarrow> bool" where
  "no_nil_values t = (VNil \<notin> snd ` set (data t))"

definition hint_ok :: "lua_table \<Rightarrow> bool" where
  "hint_ok t = (sequence_hint t = 0 \<or> present t (sequence_hint t))"

inductive reachable :: "lua_table \<Rightarrow> bool" where
  reach_init: "reachable LuaTable_init"
| reach_rawset: "reachable t \<Longrightarrow> rawset t k v = Inr t' \<Longrightarrow> reachable t'"
| reach_length: "reachable t \<Longrightarrow> length_table t = Some (n, t') \<Longrightarrow> reachable t'"

definition table_inv :: "lua_table \<Rightarrow> bool" where
  "table_inv t =
     (0 \<le> sequence_hint t \<and>
      (\<forall>i. 1 \<le> i \<and> i \<le> sequence_hint t \<longrightarrow> dict_contains (data t) (VInt i)) \<and>
      \<not> dict_contains (data t) (VInt (sequence_hint t + 1)) \<and>
      no_nil_values t)"

text \<open>Two concrete tables for the witnesses.\<close>

definition seq_table :: lua_table where
  "seq_table = \<lparr> data = [(VInt 1, VStr ''a''), (VInt 2, VStr ''b''), (VInt 3, VStr ''c'')],
                  metatable = None, sequence_hint = 0, next_keys = None \<rparr>"

definition one_table :: lua_table where
  "one_table = \<lparr> data = [(VInt 1, VStr ''a'')], metatable = None, sequence_hint = 1,
                  next_keys = None \<rparr>"

section \<open>Python primitives the interpreter relies on\<close>

subsection \<open>Floats\<close>

text \<open>
  Conversions to \<^verbatim>\<open>float\<close> round to the nearest double, ties to even; \<open>round_double\<close>
  does so for any rational. Arithmetic on floats, the formatting of floats and the power
  operator are outside this embedding (floating point): an evaluation that reaches them
  has no result in the model.
\<close>

function bit_length :: "int \<Rightarrow> nat" where
  "bit_length a = (if a \<le> 0 then 0 else Suc (bit_length (a div 2)))"
  by pat_completeness auto
termination
  by (relation "measure nat") auto

declare bit_length.simps [simp del]

definition pow2 :: "int \<Rightarrow> rat" where
  "pow2 e = (if 0 \<le> e then 2 ^ nat e else 1 / 2 ^ nat (- e))"

text \<open>For \<open>a > 0\<close>: the \<open>e\<close> with \<open>2 ^ e \<le> a < 2 ^ (e + 1)\<close>.\<close>

definition floor_log2 :: "rat \<Rightarrow> int" where
  "floor_log2 a =
     (let (p, q) = quotient_of a;
          d = int (bit_length p) - int (bit_length q)
      in if pow2 d \<le> a then d else d - 1)"

definition round_double :: "rat \<Rightarrow> pyfloat" where
  "round_double q =
     (if q = 0 then FFin 0
      else
        (let a = \<bar>q\<bar>;
             e = max (floor_log2 a) (- 1022);
             u = pow2 (e - 52);
             m = a / u;
             f = \<lfloor>m\<rfloor>;
             r = m - of_int f;
             n = (if 1 / 2 < r \<or> (r = 1 / 2 \<and> odd f) then f + 1 else f);
             x = of_int n * u
         in if pow2 1024 \<le> x then FInf (0 < q)
            else FFin (if q < 0 then - x else x)))"

text \<open>
  \<^verbatim>\<open>float(i)\<close> of an integer: exact up to \<open>2 ^ 53\<close>, rounded above, and
  \<^verbatim>\<open>OverflowError\<close> when the result would not be finite.
\<close>

definition py_float_of_int :: "int \<Rightarrow> exn + pyfloat" where
  "py_float_of_int i =
     (if \<bar>i\<bar> \<le> 2 ^ 53 then Inr (FFin (of_int i))
      else (case round_double (of_int i) of
              FInf s \<Rightarrow> Inl OverflowError
            | f \<Rightarrow> Inr f))"

text \<open>\<^verbatim>\<open>float(x)\<close> for a number \<open>x\<close> (\<^verbatim>\<open>bool\<close>, \<^verbatim>\<open>int\<close> or \<^verbatim>\<open>float\<close>).\<close>

fun py_float :: "lval \<Rightarrow> exn + pyfloat" where
  "py_float (VFloat f) = Inr f"
| "py_float (VInt i) = py_float_of_int i"
| "py_float (VBool b) = py_float_of_int (if b then 1 else 0)"
| "py_float v = Inl TypeError"

text \<open>\<^verbatim>\<open>==\<close> and \<^verbatim>\<open><\<close> on floats: NaN is unordered and unequal to everything.\<close>

fun float_eq :: "pyfloat \<Rightarrow> pyfloat \<Rightarrow> bool" where
  "float_eq FNaN y = False"
| "float_eq x FNaN = False"
| "float_eq x y = (x = y)"

fun float_lt :: "pyfloat \<Rightarrow> pyfloat \<Rightarrow> bool" where
  "float_lt FNaN y = False"
| "float_lt x FNaN = False"
| "float_lt (FInf s) (FInf s') = (\<not> s \<and> s')"
| "float_lt (FInf s) (FFin y) = (\<not> s)"
| "float_lt (FFin x) (FInf s') = s'"
| "float_lt (FFin x) (FFin y) = (x < y)"

text \<open>
  Python compares an \<^verbatim>\<open>int\<close> with a \<^verbatim>\<open>float\<close> by exact value. \<open>num_val\<close> is the exact
  value of a number, in the carrier of \<open>pyfloat\<close>.
\<close>

fun isinstance_num :: "lval \<Rightarrow> bool" where
  "isinstance_num (VInt i) = True"
| "isinstance_num (VBool b) = True"
| "isinstance_num (VFloat f) = True"
| "isinstance_num v = False"

fun num_val :: "lval \<Rightarrow> pyfloat" where
  "num_val (VFloat f) = f"
| "num_val v = FFin (of_int (int_of v))"

definition py_lt :: "lval \<Rightarrow> lval \<Rightarrow> bool" where
  "py_lt a b = float_lt (num_val a) (num_val b)"

definition py_le :: "lval \<Rightarrow> lval \<Rightarrow> bool" where
  "py_le a b = (float_lt (num_val a) (num_val b) \<or> float_eq (num_val a) (num_val b))"

subsection \<open>Strings\<close>

text \<open>
  A Python \<^verbatim>\<open>str\<close> is a sequence of code points; the model keeps the code points below
  256, one \<open>char\<close> each. \<open>str_lt\<close> is \<^verbatim>\<open><\<close> on strings (lexicographic by code point),
  \<open>py_strip\<close> is \<^verbatim>\<open>str.strip()\<close>, \<open>str_int\<close> is \<^verbatim>\<open>str(i)\<close> of an integer.
\<close>

fun str_lt :: "string \<Rightarrow> string \<Rightarrow> bool" where
  "str_lt [] [] = False"
| "str_lt [] (y # ys) = True"
| "str_lt (x # xs) [] = False"
| "str_lt (x # xs) (y # ys) =
     (if x = y then str_lt xs ys else (of_char x :: nat) < of_char y)"

definition py_isspace :: "char \<Rightarrow> bool" where
  "py_isspace c = ((of_char c :: nat) \<in> {9, 10, 11, 12, 13, 28, 29, 30, 31, 32, 133, 160})"

definition py_strip :: "string \<Rightarrow> string" where
  "py_strip s = rev (dropWhile py_isspace (rev (dropWhile py_isspace s)))"

definition digit_char :: "nat \<Rightarrow> char" where
  "digit_char d = char_of (48 + d)"

function str_nat :: "nat \<Rightarrow> string" where
  "str_nat n = (if n < 10 then [digit_char n] else str_nat (n div 10) @ [digit_char (n mod 10)])"
  by pat_completeness auto
termination
  by (relation "measure id") auto

declare str_nat.simps [simp del]

definition str_int :: "int \<Rightarrow> string" where
  "str_int i = (if i < 0 then CHR ''-'' # str_nat (nat (- i)) else str_nat (nat i))"

subsection \<open>Parsing numbers: \<^verbatim>\<open>int(s)\<close>, \<^verbatim>\<open>int(s, 16)\<close>, \<^verbatim>\<open>float(s)\<close>, \<^verbatim>\<open>float.fromhex(s)\<close>\<close>

text \<open>
  The grammar of Python's built-ins, for ASCII digits: surrounding whitespace, an
  optional sign, for base 16 an optional \<^verbatim>\<open>0x\<close> prefix, then digits with single
  underscores between them (and one allowed right after the prefix). \<open>None\<close> is
  \<^verbatim>\<open>ValueError\<close>.
\<close>

definition digit_val :: "nat \<Rightarrow> char \<Rightarrow> nat option" where
  "digit_val b c =
     (let n = (of_char c :: nat);
          v = (if 48 \<le> n \<and> n \<le> 57 then n - 48
               else if 97 \<le> n \<and> n \<le> 122 then n - 87
               else if 65 \<le> n \<and> n \<le> 90 then n - 55
               else 36)
      in if v < b then Some v else None)"

text \<open>\<open>parse_digits b acc s\<close>: the rest of a digit string after a digit.\<close>

fun parse_digits :: "nat \<Rightarrow> int \<Rightarrow> string \<Rightarrow> int option" where
  "parse_digits b acc [] = Some acc"
| "parse_digits b acc [c] =
     (case digit_val b c of None \<Rightarrow> None | Some v \<Rightarrow> Some (acc * int b + int v))"
| "parse_digits b acc (c # d # ds) =
     (if c = CHR ''_'' then
        (case digit_val b d of
           None \<Rightarrow> None
         | Some v \<Rightarrow> parse_digits b (acc * int b + int v) ds)
      else
        (case digit_val b c of
           None \<Rightarrow> None
         | Some v \<Rightarrow> parse_digits b (acc * int b + int v) (d # ds)))"

text \<open>A digit string: it starts with a digit (or, after a prefix, with one underscore).\<close>

definition parse_digit_string :: "nat \<Rightarrow> bool \<Rightarrow> string \<Rightarrow> int option" where
  "parse_digit_string b after_prefix s =
     (case (if after_prefix \<and> s \<noteq> [] \<and> hd s = CHR ''_'' then tl s else s) of
        [] \<Rightarrow> None
      | c # cs \<Rightarrow>
          (case digit_val b c of
             None \<Rightarrow> None
           | Some v \<Rightarrow> parse_digits b (int v) cs))"

definition split_sign :: "string \<Rightarrow> bool \<times> string" where
  "split_sign s =
     (case s of
        c # cs \<Rightarrow> (if c = CHR ''-'' then (True, cs) else if c = CHR ''+'' then (False, cs)
                   else (False, s))
      | [] \<Rightarrow> (False, s))"

definition has_hex_prefix :: "string \<Rightarrow> bool" where
  "has_hex_prefix s = (take 2 s = ''0x'' \<or> take 2 s = ''0X'')"

definition py_int :: "string \<Rightarrow> nat \<Rightarrow> int option" where
  "py_int s b =
     (let (neg, body) = split_sign (py_strip s);
          r = (if b = 16 \<and> has_hex_prefix body then parse_digit_string b True (drop 2 body)
               else parse_digit_string b False body)
      in map_option (\<lambda>n. if neg then - n else n) r)"

text \<open>
  \<^verbatim>\<open>float(s)\<close> for a decimal numeral (the spellings of infinity and NaN contain neither
  a dot nor an \<^verbatim>\<open>e\<close>, and the interpreter calls \<^verbatim>\<open>float\<close> only on strings that do):
  digits, an optional fraction, an optional exponent.
\<close>

definition is_digit_or_us :: "char \<Rightarrow> bool" where
  "is_digit_or_us c = (digit_val 10 c \<noteq> None \<or> c = CHR ''_'')"

definition pow10 :: "int \<Rightarrow> rat" where
  "pow10 e = (if 0 \<le> e then 10 ^ nat e else 1 / 10 ^ nat (- e))"

definition count_digits :: "string \<Rightarrow> nat" where
  "count_digits s = length (filter (\<lambda>c. c \<noteq> CHR ''_'') s)"

definition py_float_str :: "string \<Rightarrow> pyfloat option" where
  "py_float_str s =
     (let (neg, body) = split_sign (py_strip s);
          ip = takeWhile is_digit_or_us body;
          r1 = dropWhile is_digit_or_us body;
          (fp, r2) = (case r1 of
                        c # cs \<Rightarrow> (if c = CHR ''.'' then
                                      (takeWhile is_digit_or_us cs, dropWhile is_digit_or_us cs)
                                    else ([], r1))
                      | [] \<Rightarrow> ([], r1));
          iv = (if ip = [] then Some 0 else parse_digit_string 10 False ip);
          fv = (if fp = [] then Some 0 else parse_digit_string 10 False fp);
          ev = (case r2 of
                  [] \<Rightarrow> Some 0
                | c # cs \<Rightarrow>
                    (if c = CHR ''e'' \<or> c = CHR ''E'' then
                       (let (eneg, ds) = split_sign cs
                        in map_option (\<lambda>n. if eneg then - n else n)
                             (parse_digit_string 10 False ds))
                     else None))
      in if ip = [] \<and> fp = [] then None
         else
           (case (iv, fv, ev) of
              (Some i, Some f, Some e) \<Rightarrow>
                (let q = (of_int i + of_int f * pow10 (- int (count_digits fp))) * pow10 e
                 in Some (round_double (if neg then - q else q)))
            | _ \<Rightarrow> None))"

text \<open>
  \<^verbatim>\<open>float.fromhex(s)\<close> for a numeral with the \<^verbatim>\<open>0x\<close> prefix: hexadecimal digits, an
  optional fraction, an optional binary exponent. \<^verbatim>\<open>ValueError\<close> on a malformed
  string, \<^verbatim>\<open>OverflowError\<close> when the value is too large for a double.
\<close>

definition is_hexdigit :: "char \<Rightarrow> bool" where
  "is_hexdigit c = (digit_val 16 c \<noteq> None)"

fun hex_value :: "int \<Rightarrow> string \<Rightarrow> int" where
  "hex_value acc [] = acc"
| "hex_value acc (c # cs) =
     hex_value (acc * 16 + int (case digit_val 16 c of None \<Rightarrow> 0 | Some v \<Rightarrow> v)) cs"

definition py_float_fromhex :: "string \<Rightarrow> exn + pyfloat" where
  "py_float_fromhex s =
     (let (neg, body0) = split_sign (py_strip s);
          body = (if has_hex_prefix body0 then drop 2 body0 else body0);
          ip = takeWhile is_hexdigit body;
          r1 = dropWhile is_hexdigit body;
          (fp, r2) = (case r1 of
                        c # cs \<Rightarrow> (if c = CHR ''.'' then
                                      (takeWhile is_hexdigit cs, dropWhile is_hexdigit cs)
                                    else ([], r1))
                      | [] \<Rightarrow> ([], r1));
          ev = (case r2 of
                  [] \<Rightarrow> Some 0
                | c # cs \<Rightarrow>
                    (if c = CHR ''p'' \<or> c = CHR ''P'' then
                       (let (eneg, ds) = split_sign cs
                        in if ds \<noteq> [] \<and> list_all (\<lambda>d. digit_val 10 d \<noteq> None) ds
                           then map_option (\<lambda>n. if eneg then - n else n)
                                  (parse_digit_string 10 False ds)
                           else None)
                     else None))
      in if ip = [] \<and> fp = [] then Inl ValueError
         else
           (case ev of
              None \<Rightarrow> Inl ValueError
            | Some e \<Rightarrow>
                (let q = of_int (hex_value 0 (ip @ fp)) * pow2 (e - 4 * int (length fp))
                 in case round_double (if neg then - q else q) of
                      FInf sg \<Rightarrow> Inl OverflowError
                    | f \<Rightarrow> Inr f)))"

section \<open>Abstract syntax (\<^verbatim>\<open>ast_nodes.py\<close>)\<close>

text \<open>
  One constructor per node class; the \<^verbatim>\<open>line\<close> field of every node, which neither the
  evaluator nor any claim reads, is left out. A \<^verbatim>\<open>NumberLiteral\<close> holds the \<^verbatim>\<open>int\<close> or
  \<^verbatim>\<open>float\<close> the lexer produced. An absent key of a table field, an absent condition of
  an \<^verbatim>\<open>else\<close> clause and an absent step are \<open>None\<close>.
\<close>

datatype expr =
    NilLiteral
  | TrueLiteral
  | FalseLiteral
  | NumberLiteral lval
  | StringLiteral string
  | VarArg
  | NameRef string
  | IndexExpr expr expr
  | FieldExpr expr string
  | BinOp string expr expr
  | UnaryOp string expr
  | FunctionCallExpr expr "expr list"
  | MethodCallExpr expr string "expr list"
  | FunctionBody "string list" bool block
  | TableConstructor "(expr option \<times> expr) list"
and stmt =
    AssignStatement "expr list" "expr list"
  | LocalStatement "string list" "string option list" "expr list"
  | DoBlock block
  | WhileLoop expr block
  | RepeatLoop block expr
  | IfStatement "(expr option \<times> block) list"
  | NumericFor string expr expr "expr option" block
  | GenericFor "string list" "expr list" block
  | ReturnStatement "expr list"
  | BreakStatement
  | FunctionCallStatement expr
  | GotoStatement string
  | LabelStatement string
and block = Block "stmt list"

section \<open>The interpreter (\<^verbatim>\<open>interpreter.py\<close>)\<close>

subsection \<open>Helpers on values\<close>

text \<open>
  The result of \<^verbatim>\<open>_eval\<close> is one value or a \<^verbatim>\<open>MultiRes\<close> (the values of a call or of
  \<^verbatim>\<open>...\<close>).
\<close>

datatype evalres = Single lval | MultiRes "lval list"

definition is_truthy :: "lval \<Rightarrow> bool" where
  "is_truthy v = (v \<noteq> VNil \<and> v \<noteq> VBool False)"

definition first_list :: "lval list \<Rightarrow> lval" where
  "first_list vs = (case vs of [] \<Rightarrow> VNil | v # _ \<Rightarrow> v)"

fun first :: "evalres \<Rightarrow> lval" where
  "first (MultiRes vs) = first_list vs"
| "first (Single v) = v"

text \<open>\<^verbatim>\<open>xs[i] if i < len(xs) else None\<close>.\<close>

definition nth_or_nil :: "lval list \<Rightarrow> nat \<Rightarrow> lval" where
  "nth_or_nil xs i = (if i < length xs then xs ! i else VNil)"

definition tonum :: "lval \<Rightarrow> lval option" where
  "tonum v =
     (if isinstance_int v \<or> isinstance_float v then Some v
      else
        (case v of
           VStr str \<Rightarrow>
             (let s = py_strip str in
              if CHR ''.'' \<in> set s \<or> CHR ''e'' \<in> set s \<or> CHR ''E'' \<in> set s
              then map_option VFloat (py_float_str s)
              else if has_hex_prefix s then map_option VInt (py_int s 16)
              else map_option VInt (py_int s 10))
         | _ \<Rightarrow> None))"

text \<open>
  \<^verbatim>\<open>_toint\<close>. \<^verbatim>\<open>int(v)\<close> of a float raises \<^verbatim>\<open>ValueError\<close> on NaN and \<^verbatim>\<open>OverflowError\<close>
  on an infinity; the interpreter catches neither.
\<close>

definition toint_num :: "lval \<Rightarrow> exn + lval option" where
  "toint_num v =
     (if isinstance_int v then Inr (Some v)
      else
        (case v of
           VFloat FNaN \<Rightarrow> Inl ValueError
         | VFloat (FInf s) \<Rightarrow> Inl OverflowError
         | VFloat (FFin q) \<Rightarrow>
             (let iv = py_trunc q in
              if of_int iv = q then Inr (Some (VInt iv)) else Inr None)
         | _ \<Rightarrow> Inr None))"

definition toint :: "lval \<Rightarrow> exn + lval option" where
  "toint v =
     (if isinstance_int v \<or> isinstance_float v then toint_num v
      else if isinstance_str v then
        (case tonum v of
           Some n \<Rightarrow> toint_num n
         | None \<Rightarrow> Inr None)
      else Inr None)"

definition lua_type :: "lval \<Rightarrow> string" where
  "lua_type v =
     (case v of
        VNil \<Rightarrow> ''nil''
      | VBool b \<Rightarrow> ''boolean''
      | VInt i \<Rightarrow> ''number''
      | VFloat f \<Rightarrow> ''number''
      | VStr s \<Rightarrow> ''string''
      | VTable a \<Rightarrow> ''table''
      | VFunction a \<Rightarrow> ''function''
      | VBuiltin a \<Rightarrow> ''function'')"

text \<open>
  Python's own truth value of an object, as \<^verbatim>\<open>a or b\<close> tests it: zero and the empty
  string are false.
\<close>

definition py_truthy :: "lval \<Rightarrow> bool" where
  "py_truthy v =
     (case v of
        VNil \<Rightarrow> False
      | VBool b \<Rightarrow> b
      | VInt i \<Rightarrow> i \<noteq> 0
      | VFloat f \<Rightarrow> f \<noteq> FFin 0
      | VStr s \<Rightarrow> s \<noteq> []
      | _ \<Rightarrow> True)"

definition py_or :: "lval \<Rightarrow> lval \<Rightarrow> lval" where
  "py_or a b = (if py_truthy a then a else b)"

text \<open>
  \<^verbatim>\<open>str(v)\<close>. The text of a float and of an object that prints its memory address is
  outside the model (\<open>None\<close>).
\<close>

definition py_str :: "lval \<Rightarrow> string option" where
  "py_str v =
     (case v of
        VNil \<Rightarrow> Some ''None''
      | VBool b \<Rightarrow> Some (if b then ''True'' else ''False'')
      | VInt i \<Rightarrow> Some (str_int i)
      | VStr s \<Rightarrow> Some s
      | _ \<Rightarrow> None)"

subsection \<open>Equality (\<^verbatim>\<open>_raw_equal\<close>)\<close>

definition raw_equal :: "lval \<Rightarrow> lval \<Rightarrow> exn + bool" where
  "raw_equal a b =
     (if a = VNil \<and> b = VNil then Inr True
      else if a = VNil \<or> b = VNil then Inr False
      else if isinstance_num a \<and> isinstance_num b then
        (case py_float a of
           Inl e \<Rightarrow> Inl e
         | Inr x \<Rightarrow>
             (case py_float b of
                Inl e \<Rightarrow> Inl e
              | Inr y \<Rightarrow> Inr (float_eq x y)))
      else Inr (if isinstance_LuaTable a then a = b else py_eq a b))"

subsection \<open>Operators on numbers\<close>

text \<open>
  The operator functions the evaluator passes to \<^verbatim>\<open>_arith\<close> and \<^verbatim>\<open>_bitwise\<close>. Python
  integers are unbounded: \<open>int\<close>. On two integers (booleans count) the arithmetic is
  exact; \<^verbatim>\<open>//\<close> and \<^verbatim>\<open>%\<close> floor, as \<open>div\<close> and \<open>mod\<close> do. With a float operand only
  the zero-divisor branches of \<^verbatim>\<open>_idiv\<close> and \<^verbatim>\<open>_mod\<close> are modelled (their NaN or infinite
  result then meets \<^verbatim>\<open>int(result)\<close> in \<^verbatim>\<open>_arith\<close>, which raises); any other float
  arithmetic is outside the model, \<open>None\<close>.
\<close>

datatype arith_op = OpAdd | OpSub | OpMul | OpIdiv | OpMod

definition py_arith :: "arith_op \<Rightarrow> lval \<Rightarrow> lval \<Rightarrow> (exn + lval) option" where
  "py_arith f a b =
     (if isinstance_int a \<and> isinstance_int b then
        (let x = int_of a; y = int_of b in
         case f of
           OpAdd \<Rightarrow> Some (Inr (VInt (x + y)))
         | OpSub \<Rightarrow> Some (Inr (VInt (x - y)))
         | OpMul \<Rightarrow> Some (Inr (VInt (x * y)))
         | OpIdiv \<Rightarrow> if y = 0 then Some (Inl ZeroDivisionError) else Some (Inr (VInt (x div y)))
         | OpMod \<Rightarrow> if y = 0 then Some (Inl ZeroDivisionError) else Some (Inr (VInt (x mod y))))
      else
        (case f of
           OpIdiv \<Rightarrow>
             if py_eq b (VInt 0)
             then (if py_eq a (VInt 0) then Some (Inl ValueError) else Some (Inl OverflowError))
             else None
         | OpMod \<Rightarrow> if py_eq b (VInt 0) then Some (Inl ValueError) else None
         | _ \<Rightarrow> None))"

text \<open>
  The bitwise operators of Python on \<^verbatim>\<open>int\<close>: two's complement of unbounded width.
  \<^verbatim>\<open>&\<close>, \<^verbatim>\<open>|\<close> and \<^verbatim>\<open>^\<close> of two \<^verbatim>\<open>bool\<close>s are a \<^verbatim>\<open>bool\<close>; a negative shift count raises
  \<^verbatim>\<open>ValueError\<close>.
\<close>

datatype bit_op = OpBand | OpBor | OpBxor | OpShl | OpShr

fun is_VBool :: "lval \<Rightarrow> bool" where
  "is_VBool (VBool b) = True"
| "is_VBool v = False"

definition py_bitop :: "bit_op \<Rightarrow> lval \<Rightarrow> lval \<Rightarrow> exn + lval" where
  "py_bitop f a b =
     (let x = int_of a; y = int_of b; bools = (is_VBool a \<and> is_VBool b) in
      case f of
        OpBand \<Rightarrow> Inr (if bools then VBool (x AND y \<noteq> 0) else VInt (x AND y))
      | OpBor \<Rightarrow> Inr (if bools then VBool (x OR y \<noteq> 0) else VInt (x OR y))
      | OpBxor \<Rightarrow> Inr (if bools then VBool (x XOR y \<noteq> 0) else VInt (x XOR y))
      | OpShl \<Rightarrow> if y < 0 then Inl ValueError else Inr (VInt (push_bit (nat y) x))
      | OpShr \<Rightarrow> if y < 0 then Inl ValueError else Inr (VInt (drop_bit (nat y) x)))"

text \<open>Unary minus of a number; \<^verbatim>\<open>~\<close> of an integer.\<close>

definition py_neg :: "lval \<Rightarrow> lval" where
  "py_neg v =
     (case v of
        VFloat FNaN \<Rightarrow> VFloat FNaN
      | VFloat (FInf s) \<Rightarrow> VFloat (FInf (\<not> s))
      | VFloat (FFin q) \<Rightarrow> VFloat (FFin (- q))
      | _ \<Rightarrow> VInt (- int_of v))"

definition py_invert :: "lval \<Rightarrow> lval" where
  "py_invert v = VInt (NOT (int_of v))"

definition MAX_STRING_LEN :: nat where
  "MAX_STRING_LEN = 10000000"

text \<open>\<^verbatim>\<open>_tostring_concat\<close>; the text of a float is outside the model.\<close>

definition tostring_concat :: "lval \<Rightarrow> string option" where
  "tostring_concat v =
     (case v of
        VStr s \<Rightarrow> Some s
      | VInt i \<Rightarrow> Some (str_int i)
      | VBool b \<Rightarrow> Some (if b then ''True'' else ''False'')
      | _ \<Rightarrow> None)"

subsection \<open>The state\<close>

text \<open>
  Tables, environments, function objects and the counters that the \<^verbatim>\<open>ipairs\<close> closures
  capture are mutable and shared, so they live in a store, addressed by numbers;
  \<open>next_addr\<close> is the next unused address. The other fields are the attributes of
  \<^verbatim>\<open>Interpreter\<close>.

  An \<^verbatim>\<open>Environment\<close> holds its variables and its parent. The entry under the name
  \<^verbatim>\<open>...\<close> is a Python list and not a Lua value, and no identifier spells that name, so
  it is kept in a field of its own.
\<close>

record environment =
  vars :: "string \<Rightarrow> lval option"
  varargs :: "lval list option"
  parent :: "nat option"

record lua_function =
  params :: "string list"
  has_varargs :: bool
  body :: block
  closure :: nat

text \<open>
  The built-in functions that are modelled; \<open>Bother\<close> stands for every other one, and a
  call to it has no result in the model. The iterator that \<^verbatim>\<open>ipairs\<close> returns holds the
  table and the counter of its closure.
\<close>

datatype builtin =
    Bprint | Btype | Btostring | Bassert | Berror | Bpcall
  | Bipairs | Bipairs_iterator nat nat
  | Bselect | Brawget | Brawset | Brawlen | Brawequal
  | Bsetmetatable | Bgetmetatable | Bunpack
  | Btbl_insert | Btbl_unpack | Btbl_pack
  | Bother

record interp =
  tables :: "nat \<Rightarrow> lua_table"
  envs :: "nat \<Rightarrow> environment"
  lfunctions :: "nat \<Rightarrow> lua_function"
  bfunctions :: "nat \<Rightarrow> string \<times> builtin"
  counters :: "nat \<Rightarrow> int"
  next_addr :: nat
  globals :: nat
  call_depth :: int
  max_call_depth :: int
  max_instructions :: int
  max_output_bytes :: int
  instructions :: int
  output_buf :: "string list"
  output_bytes :: int

text \<open>
  An outcome is \<open>None\<close> when the model gives no result (the fuel ran out, or the
  evaluation left the model), and otherwise the value or the exception, with the state
  at that point: a Python exception keeps the side effects made before it.
\<close>

type_synonym 'a outcome = "((exn + 'a) \<times> interp) option"

definition ok :: "'a \<Rightarrow> interp \<Rightarrow> 'a outcome" where
  "ok x s = Some (Inr x, s)"

definition throw :: "exn \<Rightarrow> interp \<Rightarrow> 'a outcome" where
  "throw e s = Some (Inl e, s)"

definition bind :: "'a outcome \<Rightarrow> ('a \<Rightarrow> interp \<Rightarrow> 'b outcome) \<Rightarrow> 'b outcome" where
  "bind m f =
     (case m of
        None \<Rightarrow> None
      | Some (Inl e, s) \<Rightarrow> Some (Inl e, s)
      | Some (Inr x, s) \<Rightarrow> f x s)"

definition lift :: "exn + 'a \<Rightarrow> interp \<Rightarrow> 'a outcome" where
  "lift r s = Some (r, s)"

text \<open>\<^verbatim>\<open>try: ... except BreakSignal: break\<close> around a loop body.\<close>

definition try_break :: "unit outcome \<Rightarrow> (bool \<Rightarrow> interp \<Rightarrow> 'b outcome) \<Rightarrow> 'b outcome" where
  "try_break m f =
     (case m of
        None \<Rightarrow> None
      | Some (Inl e, s) \<Rightarrow> if e = BreakSignal then f True s else Some (Inl e, s)
      | Some (Inr u, s) \<Rightarrow> f False s)"

text \<open>\<^verbatim>\<open>_tick\<close>.\<close>

definition tick :: "interp \<Rightarrow> unit outcome" where
  "tick s =
     (let s' = s\<lparr>instructions := instructions s + 1\<rparr> in
      if max_instructions s' < instructions s'
      then throw (LuaRuntimeError ''execution quota exceeded'') s'
      else ok () s')"

text \<open>Allocation.\<close>

definition new_env :: "nat option \<Rightarrow> interp \<Rightarrow> nat \<times> interp" where
  "new_env p s =
     (next_addr s,
      s\<lparr>envs := (envs s)(next_addr s := \<lparr>vars = Map.empty, varargs = None, parent = p\<rparr>),
        next_addr := Suc (next_addr s)\<rparr>)"

definition new_table :: "interp \<Rightarrow> nat \<times> interp" where
  "new_table s =
     (next_addr s,
      s\<lparr>tables := (tables s)(next_addr s := LuaTable_init), next_addr := Suc (next_addr s)\<rparr>)"

definition new_function :: "lua_function \<Rightarrow> interp \<Rightarrow> nat \<times> interp" where
  "new_function f s =
     (next_addr s,
      s\<lparr>lfunctions := (lfunctions s)(next_addr s := f), next_addr := Suc (next_addr s)\<rparr>)"

definition new_builtin :: "string \<Rightarrow> builtin \<Rightarrow> interp \<Rightarrow> nat \<times> interp" where
  "new_builtin name b s =
     (next_addr s,
      s\<lparr>bfunctions := (bfunctions s)(next_addr s := (name, b)),
        next_addr := Suc (next_addr s)\<rparr>)"

definition new_counter :: "int \<Rightarrow> interp \<Rightarrow> nat \<times> interp" where
  "new_counter i s =
     (next_addr s,
      s\<lparr>counters := (counters s)(next_addr s := i), next_addr := Suc (next_addr s)\<rparr>)"

text \<open>
  \<^verbatim>\<open>Environment.get_local\<close>, \<^verbatim>\<open>set_existing\<close> and \<^verbatim>\<open>define\<close>. An environment is created
  after its parent, so the parent's address is the smaller one; the test \<open>p < a\<close> makes
  the walk along the parents end in any store.
\<close>

function get_local :: "interp \<Rightarrow> nat \<Rightarrow> string \<Rightarrow> lval \<times> bool" where
  "get_local s a name =
     (case vars (envs s a) name of
        Some v \<Rightarrow> (v, True)
      | None \<Rightarrow>
          (case parent (envs s a) of
             Some p \<Rightarrow> if p < a then get_local s p name else (VNil, False)
           | None \<Rightarrow> (VNil, False)))"
  by pat_completeness auto
termination
  by (relation "measure (\<lambda>(s, a, name). a)") auto

declare get_local.simps [simp del]

function get_varargs :: "interp \<Rightarrow> nat \<Rightarrow> lval list option" where
  "get_varargs s a =
     (case varargs (envs s a) of
        Some vs \<Rightarrow> Some vs
      | None \<Rightarrow>
          (case parent (envs s a) of
             Some p \<Rightarrow> if p < a then get_varargs s p else None
           | None \<Rightarrow> None))"
  by pat_completeness auto
termination
  by (relation "measure (\<lambda>(s, a). a)") auto

declare get_varargs.simps [simp del]

function set_existing :: "interp \<Rightarrow> nat \<Rightarrow> string \<Rightarrow> lval \<Rightarrow> interp \<times> bool" where
  "set_existing s a name v =
     (case vars (envs s a) name of
        Some old \<Rightarrow>
          (s\<lparr>envs := (envs s)(a := (envs s a)\<lparr>vars := (vars (envs s a))(name \<mapsto> v)\<rparr>)\<rparr>, True)
      | None \<Rightarrow>
          (case parent (envs s a) of
             Some p \<Rightarrow> if p < a then set_existing s p name v else (s, False)
           | None \<Rightarrow> (s, False)))"
  by pat_completeness auto
termination
  by (relation "measure (\<lambda>(s, a, name, v). a)") auto

declare set_existing.simps [simp del]

definition define_var :: "interp \<Rightarrow> nat \<Rightarrow> string \<Rightarrow> lval \<Rightarrow> interp" where
  "define_var s a name v =
     s\<lparr>envs := (envs s)(a := (envs s a)\<lparr>vars := (vars (envs s a))(name \<mapsto> v)\<rparr>)\<rparr>"

definition define_varargs :: "interp \<Rightarrow> nat \<Rightarrow> lval list \<Rightarrow> interp" where
  "define_varargs s a vs =
     s\<lparr>envs := (envs s)(a := (envs s a)\<lparr>varargs := Some vs\<rparr>)\<rparr>"

text \<open>
  \<^verbatim>\<open>for i, name in enumerate(names): env.define(name, vals[i] if i < len(vals) else None)\<close>.
\<close>

fun define_all :: "interp \<Rightarrow> nat \<Rightarrow> string list \<Rightarrow> lval list \<Rightarrow> nat \<Rightarrow> interp" where
  "define_all s a [] vals i = s"
| "define_all s a (name # names) vals i =
     define_all (define_var s a name (nth_or_nil vals i)) a names vals (Suc i)"

text \<open>Table operations on the store.\<close>

definition tbl_rawget :: "nat \<Rightarrow> lval \<Rightarrow> interp \<Rightarrow> lval outcome" where
  "tbl_rawget a key s = lift (rawget (tables s a) key) s"

definition tbl_rawset :: "nat \<Rightarrow> lval \<Rightarrow> lval \<Rightarrow> interp \<Rightarrow> unit outcome" where
  "tbl_rawset a key v s =
     (case rawset (tables s a) key v of
        Inl e \<Rightarrow> throw e s
      | Inr t' \<Rightarrow> ok () (s\<lparr>tables := (tables s)(a := t')\<rparr>))"

definition tbl_length :: "nat \<Rightarrow> interp \<Rightarrow> int outcome" where
  "tbl_length a s =
     (case length_table (tables s a) of
        None \<Rightarrow> None
      | Some (n, t') \<Rightarrow> ok n (s\<lparr>tables := (tables s)(a := t')\<rparr>))"

text \<open>\<^verbatim>\<open>for v in vals: t.rawset(array_idx, v); array_idx += 1\<close>.\<close>

fun rawset_seq :: "nat \<Rightarrow> int \<Rightarrow> lval list \<Rightarrow> interp \<Rightarrow> unit outcome" where
  "rawset_seq a i [] s = ok () s"
| "rawset_seq a i (v # vs) s = bind (tbl_rawset a (VInt i) v s) (\<lambda>u s1. rawset_seq a (i + 1) vs s1)"

text \<open>\<^verbatim>\<open>_get_var\<close>, \<^verbatim>\<open>_set_global\<close>, \<^verbatim>\<open>_get_metamethod\<close>.\<close>

definition get_var :: "string \<Rightarrow> nat \<Rightarrow> interp \<Rightarrow> lval outcome" where
  "get_var name env s =
     (case get_local s env name of
        (v, True) \<Rightarrow> ok v s
      | (v, False) \<Rightarrow> tbl_rawget (globals s) (VStr name) s)"

definition set_global :: "string \<Rightarrow> lval \<Rightarrow> interp \<Rightarrow> unit outcome" where
  "set_global name v s = tbl_rawset (globals s) (VStr name) v s"

definition rawget_str :: "lua_table \<Rightarrow> string \<Rightarrow> lval" where
  "rawget_str t name = (case rawget t (VStr name) of Inl e \<Rightarrow> VNil | Inr v \<Rightarrow> v)"

definition get_metamethod :: "interp \<Rightarrow> lval \<Rightarrow> string \<Rightarrow> lval" where
  "get_metamethod s obj name =
     (let mt =
        (case obj of
           VTable a \<Rightarrow> metatable (tables s a)
         | VStr str \<Rightarrow>
             (case rawget_str (tables s (globals s)) ''__string_mt'' of
                VTable m \<Rightarrow> Some m
              | _ \<Rightarrow> None)
         | _ \<Rightarrow> None)
      in case mt of
           None \<Rightarrow> VNil
         | Some m \<Rightarrow> rawget_str (tables s m) name)"

text \<open>The pure part of \<^verbatim>\<open>_exec_numeric_for\<close>: start, stop and step as numbers.\<close>

definition numeric_for_init :: "lval \<Rightarrow> lval \<Rightarrow> lval \<Rightarrow> exn + (lval \<times> lval \<times> lval)" where
  "numeric_for_init start stop step =
     (let start_n = tonum start;
          stop_n = tonum stop;
          step_n = (if step \<noteq> VNil then tonum step else None)
      in if start_n = None \<or> stop_n = None
         then Inl (LuaRuntimeError (CHR 0x27 # ''for'' @ CHR 0x27 # '' initial value must be a number''))
         else if step \<noteq> VNil \<and> step_n = None
         then Inl (LuaRuntimeError (CHR 0x27 # ''for'' @ CHR 0x27 # '' step must be a number''))
         else
           (let r =
              (if isinstance_int (the start_n) \<and> isinstance_int (the stop_n) \<and>
                  (step_n = None \<or> isinstance_int (the step_n))
               then Inr (the start_n, the stop_n,
                         (case step_n of None \<Rightarrow> VInt 1 | Some st \<Rightarrow> st))
               else
                 (case py_float (the start_n) of
                    Inl e \<Rightarrow> Inl e
                  | Inr a \<Rightarrow>
                      (case py_float (the stop_n) of
                         Inl e \<Rightarrow> Inl e
                       | Inr b \<Rightarrow>
                           (case (case step_n of None \<Rightarrow> Inr (FFin 1) | Some st \<Rightarrow> py_float st) of
                              Inl e \<Rightarrow> Inl e
                            | Inr c \<Rightarrow> Inr (VFloat a, VFloat b, VFloat c)))))
            in case r of
                 Inl e \<Rightarrow> Inl e
               | Inr (a, b, c) \<Rightarrow>
                   if py_eq c (VInt 0) then Inl (LuaRuntimeError (CHR 0x27 # ''for'' @ CHR 0x27 # '' step is zero''))
                   else Inr (a, b, c)))"

subsection \<open>Built-in functions without callbacks (\<^verbatim>\<open>stdlib.py\<close>)\<close>

definition quoted :: "string \<Rightarrow> string" where
  "quoted s = CHR 0x27 # s @ [CHR 0x27]"

definition rawget_int :: "lua_table \<Rightarrow> int \<Rightarrow> lval" where
  "rawget_int t i = (case rawget t (VInt i) of Inl e \<Rightarrow> VNil | Inr v \<Rightarrow> v)"

text \<open>\<^verbatim>\<open>_toint(args[k]) if len(args) > k else d\<close>.\<close>

definition opt_toint :: "lval list \<Rightarrow> nat \<Rightarrow> lval option \<Rightarrow> interp \<Rightarrow> lval option outcome" where
  "opt_toint args k d s = (if k < length args then lift (toint (args ! k)) s else ok d s)"

definition builtin_type :: "lval list \<Rightarrow> interp \<Rightarrow> lval list outcome" where
  "builtin_type args s = ok [VStr (lua_type (nth_or_nil args 0))] s"

definition builtin_assert :: "lval list \<Rightarrow> interp \<Rightarrow> lval list outcome" where
  "builtin_assert args s =
     (let v = nth_or_nil args 0 in
      if \<not> is_truthy v then
        (let msg = (if 1 < length args then args ! 1 else VStr ''assertion failed!'') in
         case py_str msg of
           None \<Rightarrow> None
         | Some m \<Rightarrow> throw (LuaRuntimeError m) s)
      else ok args s)"

definition builtin_ipairs :: "lval list \<Rightarrow> interp \<Rightarrow> lval list outcome" where
  "builtin_ipairs args s =
     (let t = nth_or_nil args 0 in
      case t of
        VTable a \<Rightarrow>
          (let (c, s1) = new_counter 0 s;
               (b, s2) = new_builtin ''ipairs_iterator'' (Bipairs_iterator a c) s1
           in ok [VBuiltin b, t, VInt 0] s2)
      | _ \<Rightarrow>
          throw (LuaRuntimeError (''bad argument #1 to '' @ quoted ''ipairs'' @
                                  '' (table expected)'')) s)"

text \<open>
  \<^verbatim>\<open>_iter\<close>, the closure that \<^verbatim>\<open>_ipairs\<close> returns: it advances its own counter and does
  not read its arguments.
\<close>

definition builtin_ipairs_iterator :: "nat \<Rightarrow> nat \<Rightarrow> lval list \<Rightarrow> interp \<Rightarrow> lval list outcome" where
  "builtin_ipairs_iterator a c iter_args s =
     (let i = counters s c + 1;
          s1 = s\<lparr>counters := (counters s)(c := i)\<rparr>
      in bind (tbl_rawget a (VInt i) s1)
           (\<lambda>val s2. if val = VNil then ok [VNil] s2 else ok [VInt i, val] s2))"

definition builtin_select :: "lval list \<Rightarrow> interp \<Rightarrow> lval list outcome" where
  "builtin_select args s =
     (let idx = nth_or_nil args 0;
          rest = drop 1 args
      in if py_eq idx (VStr ''#'') then ok [VInt (int (length rest))] s
         else
           bind (lift (toint idx) s)
             (\<lambda>n s1.
                case n of
                  None \<Rightarrow>
                    throw (LuaRuntimeError (''bad argument #1 to '' @ quoted ''select'' @
                                            '' (number or string expected)'')) s1
                | Some nv \<Rightarrow>
                    (let m = (if int_of nv < 0 then int (length rest) + 1 + int_of nv
                              else int_of nv)
                     in if m < 1
                        then throw (LuaRuntimeError (''bad argument #1 to '' @ quoted ''select'' @
                                                     '' (index out of range)'')) s1
                        else ok (drop (nat (m - 1)) rest) s1)))"

definition builtin_rawget :: "lval list \<Rightarrow> interp \<Rightarrow> lval list outcome" where
  "builtin_rawget args s =
     (case nth_or_nil args 0 of
        VTable a \<Rightarrow> bind (tbl_rawget a (nth_or_nil args 1) s) (\<lambda>v s1. ok [v] s1)
      | _ \<Rightarrow>
          throw (LuaRuntimeError (''bad argument #1 to '' @ quoted ''rawget'' @
                                  '' (table expected)'')) s)"

definition builtin_rawset :: "lval list \<Rightarrow> interp \<Rightarrow> lval list outcome" where
  "builtin_rawset args s =
     (case nth_or_nil args 0 of
        VTable a \<Rightarrow>
          bind (tbl_rawset a (nth_or_nil args 1) (nth_or_nil args 2) s)
            (\<lambda>u s1. ok [VTable a] s1)
      | _ \<Rightarrow>
          throw (LuaRuntimeError (''bad argument #1 to '' @ quoted ''rawset'' @
                                  '' (table expected)'')) s)"

definition builtin_rawlen :: "lval list \<Rightarrow> interp \<Rightarrow> lval list outcome" where
  "builtin_rawlen args s =
     (case nth_or_nil args 0 of
        VTable a \<Rightarrow> bind (tbl_length a s) (\<lambda>n s1. ok [VInt n] s1)
      | VStr str \<Rightarrow> ok [VInt (int (length str))] s
      | _ \<Rightarrow>
          throw (LuaRuntimeError (''bad argument #1 to '' @ quoted ''rawlen'' @
                                  '' (table or string expected)'')) s)"

definition builtin_rawequal :: "lval list \<Rightarrow> interp \<Rightarrow> lval list outcome" where
  "builtin_rawequal args s =
     bind (lift (raw_equal (nth_or_nil args 0) (nth_or_nil args 1)) s) (\<lambda>r s1. ok [VBool r] s1)"

definition builtin_setmetatable :: "lval list \<Rightarrow> interp \<Rightarrow> lval list outcome" where
  "builtin_setmetatable args s =
     (let t = nth_or_nil args 0; mt = nth_or_nil args 1 in
      case t of
        VTable a \<Rightarrow>
          if mt \<noteq> VNil \<and> \<not> isinstance_LuaTable mt
          then throw (LuaRuntimeError (''bad argument #2 to '' @ quoted ''setmetatable'' @
                                       '' (nil or table expected)'')) s
          else if (case metatable (tables s a) of
                     None \<Rightarrow> False
                   | Some m \<Rightarrow> rawget_str (tables s m) ''__metatable'' \<noteq> VNil)
          then throw (LuaRuntimeError ''cannot change a protected metatable'') s
          else
            ok [t] (s\<lparr>tables := (tables s)
                      (a := (tables s a)\<lparr>metatable := (case mt of VTable m \<Rightarrow> Some m | _ \<Rightarrow> None)\<rparr>)\<rparr>)
      | _ \<Rightarrow>
          throw (LuaRuntimeError (''bad argument #1 to '' @ quoted ''setmetatable'' @
                                  '' (table expected)'')) s)"

definition builtin_getmetatable :: "lval list \<Rightarrow> interp \<Rightarrow> lval list outcome" where
  "builtin_getmetatable args s =
     (case nth_or_nil args 0 of
        VTable a \<Rightarrow>
          (case metatable (tables s a) of
             None \<Rightarrow> ok [VNil] s
           | Some m \<Rightarrow>
               (let prot = rawget_str (tables s m) ''__metatable'' in
                if prot \<noteq> VNil then ok [prot] s else ok [VTable m] s))
      | _ \<Rightarrow> ok [VNil] s)"

text \<open>
  \<^verbatim>\<open>_unpack\<close> (also \<^verbatim>\<open>table.unpack\<close>): without a third argument the upper bound is
  \<^verbatim>\<open>t.length()\<close>.
\<close>

definition builtin_unpack :: "lval list \<Rightarrow> interp \<Rightarrow> lval list outcome" where
  "builtin_unpack args s =
     (let t = nth_or_nil args 0 in
      bind (opt_toint args 1 (Some (VInt 1)) s)
        (\<lambda>i s1.
           bind (opt_toint args 2 None s1)
             (\<lambda>j s2.
                case t of
                  VTable a \<Rightarrow>
                    (let i' = (case i of None \<Rightarrow> 1 | Some v \<Rightarrow> int_of v) in
                     bind (case j of None \<Rightarrow> tbl_length a s2 | Some v \<Rightarrow> ok (int_of v) s2)
                       (\<lambda>j' s3. ok (map (rawget_int (tables s3 a)) [i'..j']) s3))
                | _ \<Rightarrow>
                    throw (LuaRuntimeError (''bad argument #1 to '' @ quoted ''unpack'' @
                                            '' (table expected)'')) s2)))"

text \<open>\<^verbatim>\<open>_tbl_pack\<close>: the arguments under \<open>1, 2, ...\<close>, their number under \<^verbatim>\<open>n\<close>.\<close>

definition builtin_tbl_pack :: "lval list \<Rightarrow> interp \<Rightarrow> lval list outcome" where
  "builtin_tbl_pack args s =
     (let (a, s1) = new_table s in
      bind (rawset_seq a 1 args s1)
        (\<lambda>u s2.
           bind (tbl_rawset a (VStr ''n'') (VInt (int (length args))) s2)
             (\<lambda>u s3. ok [VTable a] s3)))"

text \<open>\<^verbatim>\<open>for i in range(n, pos - 1, -1): t.rawset(i + 1, t.rawget(i))\<close>, the indices given.\<close>

fun shift_up :: "nat \<Rightarrow> int list \<Rightarrow> interp \<Rightarrow> unit outcome" where
  "shift_up a [] s = ok () s"
| "shift_up a (i # is) s =
     bind (tbl_rawset a (VInt (i + 1)) (rawget_int (tables s a) i) s) (\<lambda>u s1. shift_up a is s1)"

definition builtin_tbl_insert :: "lval list \<Rightarrow> interp \<Rightarrow> lval list outcome" where
  "builtin_tbl_insert args s =
     (case nth_or_nil args 0 of
        VTable a \<Rightarrow>
          if length args = 2 then
            bind (tbl_length a s)
              (\<lambda>n s1. bind (tbl_rawset a (VInt (n + 1)) (args ! 1) s1) (\<lambda>u s2. ok [] s2))
          else if 3 \<le> length args then
            bind (lift (toint (args ! 1)) s)
              (\<lambda>pos s1.
                 case pos of
                   None \<Rightarrow>
                     throw (LuaRuntimeError (''bad argument #2 to '' @ quoted ''insert'' @
                                             '' (number expected)'')) s1
                 | Some p \<Rightarrow>
                     bind (tbl_length a s1)
                       (\<lambda>n s2.
                          bind (shift_up a (rev [int_of p..n]) s2)
                            (\<lambda>u s3.
                               bind (tbl_rawset a p (args ! 2) s3) (\<lambda>u s4. ok [] s4))))
          else throw (LuaRuntimeError (''wrong number of arguments to '' @ quoted ''insert'')) s
      | _ \<Rightarrow>
          throw (LuaRuntimeError (''bad argument #1 to '' @ quoted ''insert'' @
                                  '' (table expected)'')) s)"

text \<open>\<^verbatim>\<open>"\t".join(parts)\<close>.\<close>

fun join_tab :: "string list \<Rightarrow> string" where
  "join_tab [] = []"
| "join_tab [p] = p"
| "join_tab (p # q # ps) = p @ CHR 0x09 # join_tab (q # ps)"

subsection \<open>The evaluator\<close>

text \<open>
  The methods of \<^verbatim>\<open>Interpreter\<close> call each other, and a Lua program need not end. Each
  method is therefore defined with a parameter \<open>M\<close>, the record of the methods it may
  call: \<open>m_eval M\<close> stands for \<^verbatim>\<open>self._eval\<close>. \<open>methods_at n\<close> ties the knot by
  recursion on a fuel \<open>n\<close>: with no fuel no method gives a result, and the methods at
  \<open>Suc n\<close> call the methods at \<open>n\<close>. So every call of a method, and every round of a
  loop, passes on one unit less, and an outcome is \<open>None\<close> when the fuel does not
  suffice. A claim that an execution returns is stated as: some fuel gives the result.
  Python's own limit on the depth of recursion (\<^verbatim>\<open>RecursionError\<close>) is not modelled.

  The loops (\<^verbatim>\<open>for stmt in block.stmts\<close>, the \<^verbatim>\<open>while True\<close> of the two \<^verbatim>\<open>for\<close>
  statements, the loop over assignment targets and over table fields) are the methods
  \<open>exec_stmts\<close>, \<open>numeric_for_loop\<close>, \<open>generic_for_loop\<close>, \<open>assign_targets\<close> and
  \<open>table_ctor_fields\<close>. The operator functions that \<^verbatim>\<open>_eval_binop\<close> passes on are the
  constructors of \<open>arith_op\<close> and \<open>bit_op\<close>; \<^verbatim>\<open>_float_arith\<close> takes a flag that is true
  for \<^verbatim>\<open>/\<close> and false for \<^verbatim>\<open>^\<close>, whose float results are outside the model.
\<close>

record methods =
  m_exec_block :: "block \<Rightarrow> nat \<Rightarrow> interp \<Rightarrow> unit outcome"
  m_exec_stmts :: "stmt list \<Rightarrow> nat \<Rightarrow> interp \<Rightarrow> unit outcome"
  m_exec_stmt :: "stmt \<Rightarrow> nat \<Rightarrow> interp \<Rightarrow> unit outcome"
  m_exec_assign :: "expr list \<Rightarrow> expr list \<Rightarrow> nat \<Rightarrow> interp \<Rightarrow> unit outcome"
  m_assign_targets :: "expr list \<Rightarrow> lval list \<Rightarrow> nat \<Rightarrow> nat \<Rightarrow> interp \<Rightarrow> unit outcome"
  m_assign_target :: "expr \<Rightarrow> lval \<Rightarrow> nat \<Rightarrow> interp \<Rightarrow> unit outcome"
  m_exec_local :: "string list \<Rightarrow> expr list \<Rightarrow> nat \<Rightarrow> interp \<Rightarrow> unit outcome"
  m_exec_while :: "expr \<Rightarrow> block \<Rightarrow> nat \<Rightarrow> interp \<Rightarrow> unit outcome"
  m_exec_repeat :: "block \<Rightarrow> expr \<Rightarrow> nat \<Rightarrow> interp \<Rightarrow> unit outcome"
  m_exec_if :: "(expr option \<times> block) list \<Rightarrow> nat \<Rightarrow> interp \<Rightarrow> unit outcome"
  m_exec_numeric_for :: "string \<Rightarrow> expr \<Rightarrow> expr \<Rightarrow> expr option \<Rightarrow> block \<Rightarrow> nat \<Rightarrow> interp \<Rightarrow> unit outcome"
  m_numeric_for_loop :: "string \<Rightarrow> lval \<Rightarrow> lval \<Rightarrow> lval \<Rightarrow> block \<Rightarrow> nat \<Rightarrow> interp \<Rightarrow> unit outcome"
  m_exec_generic_for :: "string list \<Rightarrow> expr list \<Rightarrow> block \<Rightarrow> nat \<Rightarrow> interp \<Rightarrow> unit outcome"
  m_generic_for_loop :: "string list \<Rightarrow> lval \<Rightarrow> lval \<Rightarrow> lval \<Rightarrow> block \<Rightarrow> nat \<Rightarrow> interp \<Rightarrow> unit outcome"
  m_eval :: "expr \<Rightarrow> nat \<Rightarrow> interp \<Rightarrow> evalres outcome"
  m_eval_expr :: "expr \<Rightarrow> nat \<Rightarrow> interp \<Rightarrow> lval outcome"
  m_eval_binop :: "string \<Rightarrow> expr \<Rightarrow> expr \<Rightarrow> nat \<Rightarrow> interp \<Rightarrow> lval outcome"
  m_eval_unaryop :: "string \<Rightarrow> expr \<Rightarrow> nat \<Rightarrow> interp \<Rightarrow> lval outcome"
  m_eval_table_ctor :: "(expr option \<times> expr) list \<Rightarrow> nat \<Rightarrow> interp \<Rightarrow> lval outcome"
  m_table_ctor_fields :: "(expr option \<times> expr) list \<Rightarrow> nat \<Rightarrow> int \<Rightarrow> nat \<Rightarrow> interp \<Rightarrow> unit outcome"
  m_eval_call :: "expr \<Rightarrow> expr list \<Rightarrow> nat \<Rightarrow> interp \<Rightarrow> lval list outcome"
  m_eval_method_call :: "expr \<Rightarrow> string \<Rightarrow> expr list \<Rightarrow> nat \<Rightarrow> interp \<Rightarrow> lval list outcome"
  m_eval_explist :: "expr list \<Rightarrow> nat \<Rightarrow> interp \<Rightarrow> lval list outcome"
  m_call_function :: "lval \<Rightarrow> lval list \<Rightarrow> interp \<Rightarrow> lval list outcome"
  m_call_lua_function :: "lua_function \<Rightarrow> lval list \<Rightarrow> interp \<Rightarrow> lval list outcome"
  m_call_builtin :: "builtin \<Rightarrow> lval list \<Rightarrow> interp \<Rightarrow> lval list outcome"
  m_table_get :: "lval \<Rightarrow> lval \<Rightarrow> interp \<Rightarrow> lval outcome"
  m_table_set :: "lval \<Rightarrow> lval \<Rightarrow> lval \<Rightarrow> interp \<Rightarrow> unit outcome"
  m_arith :: "lval \<Rightarrow> lval \<Rightarrow> arith_op \<Rightarrow> string \<Rightarrow> interp \<Rightarrow> lval outcome"
  m_float_arith :: "lval \<Rightarrow> lval \<Rightarrow> bool \<Rightarrow> string \<Rightarrow> interp \<Rightarrow> lval outcome"
  m_bitwise :: "lval \<Rightarrow> lval \<Rightarrow> bit_op \<Rightarrow> string \<Rightarrow> interp \<Rightarrow> lval outcome"
  m_concat_values :: "lval \<Rightarrow> lval \<Rightarrow> interp \<Rightarrow> lval outcome"
  m_eval_equality :: "string \<Rightarrow> lval \<Rightarrow> lval \<Rightarrow> interp \<Rightarrow> lval outcome"
  m_eval_comparison :: "string \<Rightarrow> lval \<Rightarrow> lval \<Rightarrow> interp \<Rightarrow> lval outcome"
  m_lua_tostring :: "lval \<Rightarrow> interp \<Rightarrow> string outcome"
  m_tostring_all :: "lval list \<Rightarrow> interp \<Rightarrow> string list outcome"

definition exec_block :: "methods \<Rightarrow> block \<Rightarrow> nat \<Rightarrow> interp \<Rightarrow> unit outcome" where
  "exec_block M blk env s = (case blk of Block stmts \<Rightarrow> m_exec_stmts M stmts env s)"

definition exec_stmts :: "methods \<Rightarrow> stmt list \<Rightarrow> nat \<Rightarrow> interp \<Rightarrow> unit outcome" where
  "exec_stmts M stmts env s =
     (case stmts of
        [] \<Rightarrow> ok () s
      | st # rest \<Rightarrow> bind (m_exec_stmt M st env s) (\<lambda>u s1. m_exec_stmts M rest env s1))"

definition exec_stmt :: "methods \<Rightarrow> stmt \<Rightarrow> nat \<Rightarrow> interp \<Rightarrow> unit outcome" where
  "exec_stmt M st env s =
     bind (tick s)
       (\<lambda>u s1.
          case st of
            AssignStatement targets values \<Rightarrow> m_exec_assign M targets values env s1
          | LocalStatement names attribs values \<Rightarrow> m_exec_local M names values env s1
          | DoBlock blk \<Rightarrow>
              (case new_env (Some env) s1 of (inner, s2) \<Rightarrow> m_exec_block M blk inner s2)
          | WhileLoop cond blk \<Rightarrow> m_exec_while M cond blk env s1
          | RepeatLoop blk cond \<Rightarrow> m_exec_repeat M blk cond env s1
          | IfStatement clauses \<Rightarrow> m_exec_if M clauses env s1
          | NumericFor name start stop step blk \<Rightarrow>
              m_exec_numeric_for M name start stop step blk env s1
          | GenericFor names iterators blk \<Rightarrow> m_exec_generic_for M names iterators blk env s1
          | ReturnStatement values \<Rightarrow>
              bind (m_eval_explist M values env s1) (\<lambda>vals s2. throw (ReturnSignal vals) s2)
          | BreakStatement \<Rightarrow> throw BreakSignal s1
          | FunctionCallStatement call \<Rightarrow> bind (m_eval M call env s1) (\<lambda>r s2. ok () s2)
          | GotoStatement label \<Rightarrow> ok () s1
          | LabelStatement name \<Rightarrow> ok () s1)"

definition exec_assign :: "methods \<Rightarrow> expr list \<Rightarrow> expr list \<Rightarrow> nat \<Rightarrow> interp \<Rightarrow> unit outcome" where
  "exec_assign M targets values env s =
     bind (m_eval_explist M values env s) (\<lambda>vals s1. m_assign_targets M targets vals 0 env s1)"

definition assign_targets :: "methods \<Rightarrow> expr list \<Rightarrow> lval list \<Rightarrow> nat \<Rightarrow> nat \<Rightarrow> interp \<Rightarrow> unit outcome" where
  "assign_targets M targets vals i env s =
     (case targets of
        [] \<Rightarrow> ok () s
      | target # rest \<Rightarrow>
          bind (m_assign_target M target (nth_or_nil vals i) env s)
            (\<lambda>u s1. m_assign_targets M rest vals (Suc i) env s1))"

definition assign_target :: "methods \<Rightarrow> expr \<Rightarrow> lval \<Rightarrow> nat \<Rightarrow> interp \<Rightarrow> unit outcome" where
  "assign_target M target v env s =
     (case target of
        NameRef name \<Rightarrow>
          (case set_existing s env name v of
             (s1, found) \<Rightarrow> if found then ok () s1 else set_global name v s1)
      | FieldExpr tbl field \<Rightarrow>
          bind (m_eval_expr M tbl env s) (\<lambda>obj s1. m_table_set M obj (VStr field) v s1)
      | IndexExpr tbl key \<Rightarrow>
          bind (m_eval_expr M tbl env s)
            (\<lambda>obj s1. bind (m_eval_expr M key env s1) (\<lambda>k s2. m_table_set M obj k v s2))
      | _ \<Rightarrow> ok () s)"

definition exec_local :: "methods \<Rightarrow> string list \<Rightarrow> expr list \<Rightarrow> nat \<Rightarrow> interp \<Rightarrow> unit outcome" where
  "exec_local M names values env s =
     bind (if values \<noteq> [] then m_eval_explist M values env s else ok [] s)
       (\<lambda>vals s1. ok () (define_all s1 env names vals 0))"

definition exec_while :: "methods \<Rightarrow> expr \<Rightarrow> block \<Rightarrow> nat \<Rightarrow> interp \<Rightarrow> unit outcome" where
  "exec_while M cond blk env s =
     bind (m_eval_expr M cond env s)
       (\<lambda>c s1.
          if is_truthy c then
            bind (tick s1)
              (\<lambda>u s2.
                 case new_env (Some env) s2 of
                   (inner, s3) \<Rightarrow>
                     try_break (m_exec_block M blk inner s3)
                       (\<lambda>broke s4. if broke then ok () s4 else m_exec_while M cond blk env s4))
          else ok () s1)"

definition exec_repeat :: "methods \<Rightarrow> block \<Rightarrow> expr \<Rightarrow> nat \<Rightarrow> interp \<Rightarrow> unit outcome" where
  "exec_repeat M blk cond env s =
     bind (tick s)
       (\<lambda>u s1.
          case new_env (Some env) s1 of
            (inner, s2) \<Rightarrow>
              try_break (m_exec_block M blk inner s2)
                (\<lambda>broke s3.
                   if broke then ok () s3
                   else
                     bind (m_eval_expr M cond inner s3)
                       (\<lambda>c s4. if is_truthy c then ok () s4 else m_exec_repeat M blk cond env s4)))"

definition exec_if :: "methods \<Rightarrow> (expr option \<times> block) list \<Rightarrow> nat \<Rightarrow> interp \<Rightarrow> unit outcome" where
  "exec_if M clauses env s =
     (case clauses of
        [] \<Rightarrow> ok () s
      | (cond, blk) # rest \<Rightarrow>
          (case cond of
             None \<Rightarrow> (case new_env (Some env) s of (inner, s2) \<Rightarrow> m_exec_block M blk inner s2)
           | Some c \<Rightarrow>
               bind (m_eval_expr M c env s)
                 (\<lambda>v s1.
                    if is_truthy v
                    then (case new_env (Some env) s1 of (inner, s2) \<Rightarrow> m_exec_block M blk inner s2)
                    else m_exec_if M rest env s1)))"

definition exec_numeric_for :: "methods \<Rightarrow> string \<Rightarrow> expr \<Rightarrow> expr \<Rightarrow> expr option \<Rightarrow> block \<Rightarrow> nat \<Rightarrow> interp \<Rightarrow> unit outcome" where
  "exec_numeric_for M name start stop step blk env s =
     bind (m_eval_expr M start env s)
       (\<lambda>start_v s1.
          bind (m_eval_expr M stop env s1)
            (\<lambda>stop_v s2.
               bind (case step of None \<Rightarrow> ok VNil s2 | Some e \<Rightarrow> m_eval_expr M e env s2)
                 (\<lambda>step_v s3.
                    case numeric_for_init start_v stop_v step_v of
                      Inl e \<Rightarrow> throw e s3
                    | Inr (start_n, stop_n, step_n) \<Rightarrow>
                        m_numeric_for_loop M name start_n stop_n step_n blk env s3)))"

definition numeric_for_loop :: "methods \<Rightarrow> string \<Rightarrow> lval \<Rightarrow> lval \<Rightarrow> lval \<Rightarrow> block \<Rightarrow> nat \<Rightarrow> interp \<Rightarrow> unit outcome" where
  "numeric_for_loop M name v stop_n step_n blk env s =
     bind (tick s)
       (\<lambda>u s1.
          if py_lt (VInt 0) step_n \<and> py_lt stop_n v then ok () s1
          else if py_lt step_n (VInt 0) \<and> py_lt v stop_n then ok () s1
          else
            (case new_env (Some env) s1 of
               (inner, s2) \<Rightarrow>
                 try_break (m_exec_block M blk inner (define_var s2 inner name v))
                   (\<lambda>broke s3.
                      if broke then ok () s3
                      else
                        (case py_arith OpAdd v step_n of
                           Some (Inr v') \<Rightarrow> m_numeric_for_loop M name v' stop_n step_n blk env s3
                         | Some (Inl e) \<Rightarrow> throw e s3
                         | None \<Rightarrow> None))))"

definition exec_generic_for :: "methods \<Rightarrow> string list \<Rightarrow> expr list \<Rightarrow> block \<Rightarrow> nat \<Rightarrow> interp \<Rightarrow> unit outcome" where
  "exec_generic_for M names iterators blk env s =
     bind (m_eval_explist M iterators env s)
       (\<lambda>iters s1.
          m_generic_for_loop M names (nth_or_nil iters 0) (nth_or_nil iters 1) (nth_or_nil iters 2)
            blk env s1)"

definition generic_for_loop :: "methods \<Rightarrow> string list \<Rightarrow> lval \<Rightarrow> lval \<Rightarrow> lval \<Rightarrow> block \<Rightarrow> nat \<Rightarrow> interp \<Rightarrow> unit outcome" where
  "generic_for_loop M names iter_func state control blk env s =
     bind (tick s)
       (\<lambda>u s1.
          bind (m_call_function M iter_func [state, control] s1)
            (\<lambda>results s2.
               if results = [] \<or> hd results = VNil then ok () s2
               else
                 (case new_env (Some env) s2 of
                    (inner, s3) \<Rightarrow>
                      try_break (m_exec_block M blk inner (define_all s3 inner names results 0))
                        (\<lambda>broke s4.
                           if broke then ok () s4
                           else m_generic_for_loop M names iter_func state (hd results) blk env s4))))"

definition eval :: "methods \<Rightarrow> expr \<Rightarrow> nat \<Rightarrow> interp \<Rightarrow> evalres outcome" where
  "eval M node env s =
     (case node of
        NilLiteral \<Rightarrow> ok (Single VNil) s
      | TrueLiteral \<Rightarrow> ok (Single (VBool True)) s
      | FalseLiteral \<Rightarrow> ok (Single (VBool False)) s
      | NumberLiteral v \<Rightarrow> ok (Single v) s
      | StringLiteral str \<Rightarrow> ok (Single (VStr str)) s
      | NameRef name \<Rightarrow> bind (get_var name env s) (\<lambda>v s1. ok (Single v) s1)
      | VarArg \<Rightarrow>
          (case get_varargs s env of
             None \<Rightarrow> ok (MultiRes []) s
           | Some vs \<Rightarrow> ok (MultiRes vs) s)
      | BinOp opr l r \<Rightarrow> bind (m_eval_binop M opr l r env s) (\<lambda>v s1. ok (Single v) s1)
      | UnaryOp opr e \<Rightarrow> bind (m_eval_unaryop M opr e env s) (\<lambda>v s1. ok (Single v) s1)
      | FunctionBody ps va blk \<Rightarrow>
          (case new_function \<lparr>params = ps, has_varargs = va, body = blk, closure = env\<rparr> s of
             (f, s1) \<Rightarrow> ok (Single (VFunction f)) s1)
      | TableConstructor flds \<Rightarrow>
          bind (m_eval_table_ctor M flds env s) (\<lambda>v s1. ok (Single v) s1)
      | FunctionCallExpr f args \<Rightarrow>
          bind (m_eval_call M f args env s) (\<lambda>vs s1. ok (MultiRes vs) s1)
      | MethodCallExpr obj m args \<Rightarrow>
          bind (m_eval_method_call M obj m args env s) (\<lambda>vs s1. ok (MultiRes vs) s1)
      | FieldExpr tbl field \<Rightarrow>
          bind (m_eval_expr M tbl env s)
            (\<lambda>obj s1. bind (m_table_get M obj (VStr field) s1) (\<lambda>v s2. ok (Single v) s2))
      | IndexExpr tbl key \<Rightarrow>
          bind (m_eval_expr M tbl env s)
            (\<lambda>obj s1.
               bind (m_eval_expr M key env s1)
                 (\<lambda>k s2. bind (m_table_get M obj k s2) (\<lambda>v s3. ok (Single v) s3))))"

definition eval_expr :: "methods \<Rightarrow> expr \<Rightarrow> nat \<Rightarrow> interp \<Rightarrow> lval outcome" where
  "eval_expr M node env s = bind (m_eval M node env s) (\<lambda>r s1. ok (first r) s1)"

definition eval_binop :: "methods \<Rightarrow> string \<Rightarrow> expr \<Rightarrow> expr \<Rightarrow> nat \<Rightarrow> interp \<Rightarrow> lval outcome" where
  "eval_binop M opr l r env s =
     (if opr = ''and'' then
        bind (m_eval_expr M l env s)
          (\<lambda>left s1. if \<not> is_truthy left then ok left s1 else m_eval_expr M r env s1)
      else if opr = ''or'' then
        bind (m_eval_expr M l env s)
          (\<lambda>left s1. if is_truthy left then ok left s1 else m_eval_expr M r env s1)
      else
        bind (m_eval_expr M l env s)
          (\<lambda>left s1.
             bind (m_eval_expr M r env s1)
               (\<lambda>right s2.
                  if opr = ''..'' then m_concat_values M left right s2
                  else if opr = ''=='' \<or> opr = ''~='' then m_eval_equality M opr left right s2
                  else if opr = ''<'' \<or> opr = ''>'' \<or> opr = ''<='' \<or> opr = ''>=''
                  then m_eval_comparison M opr left right s2
                  else if opr = ''+'' then m_arith M left right OpAdd ''__add'' s2
                  else if opr = ''-'' then m_arith M left right OpSub ''__sub'' s2
                  else if opr = ''*'' then m_arith M left right OpMul ''__mul'' s2
                  else if opr = ''/'' then m_float_arith M left right True ''__div'' s2
                  else if opr = ''//'' then m_arith M left right OpIdiv ''__idiv'' s2
                  else if opr = ''%'' then m_arith M left right OpMod ''__mod'' s2
                  else if opr = ''^'' then m_float_arith M left right False ''__pow'' s2
                  else if opr = ''&'' then m_bitwise M left right OpBand ''__band'' s2
                  else if opr = ''|'' then m_bitwise M left right OpBor ''__bor'' s2
                  else if opr = ''~'' then m_bitwise M left right OpBxor ''__bxor'' s2
                  else if opr = ''<<'' then m_bitwise M left right OpShl ''__shl'' s2
                  else if opr = ''>>'' then m_bitwise M left right OpShr ''__shr'' s2
                  else throw (LuaRuntimeError (''unknown binary operator: '' @ opr)) s2)))"

definition eval_unaryop :: "methods \<Rightarrow> string \<Rightarrow> expr \<Rightarrow> nat \<Rightarrow> interp \<Rightarrow> lval outcome" where
  "eval_unaryop M opr e env s =
     bind (m_eval_expr M e env s)
       (\<lambda>v s1.
          if opr = ''-'' then
            (case tonum v of
               Some nv \<Rightarrow> ok (py_neg nv) s1
             | None \<Rightarrow>
                 (let mm = get_metamethod s1 v ''__unm'' in
                  if mm \<noteq> VNil
                  then bind (m_call_function M mm [v] s1) (\<lambda>r s2. ok (first_list r) s2)
                  else throw (LuaRuntimeError (''attempt to perform arithmetic on a '' @
                                               lua_type v @ '' value'')) s1))
          else if opr = ''#'' then
            (case v of
               VStr str \<Rightarrow> ok (VInt (int (length str))) s1
             | VTable a \<Rightarrow>
                 (let mm = get_metamethod s1 v ''__len'' in
                  if mm \<noteq> VNil
                  then bind (m_call_function M mm [v] s1) (\<lambda>r s2. ok (first_list r) s2)
                  else bind (tbl_length a s1) (\<lambda>len s2. ok (VInt len) s2))
             | _ \<Rightarrow>
                 throw (LuaRuntimeError (''attempt to get length of a '' @ lua_type v @
                                         '' value'')) s1)
          else if opr = ''not'' then ok (VBool (\<not> is_truthy v)) s1
          else if opr = ''~'' then
            bind (lift (toint v) s1)
              (\<lambda>iv s2.
                 case iv of
                   Some i \<Rightarrow> ok (py_invert i) s2
                 | None \<Rightarrow>
                     (let mm = get_metamethod s2 v ''__bnot'' in
                      if mm \<noteq> VNil
                      then bind (m_call_function M mm [v] s2) (\<lambda>r s3. ok (first_list r) s3)
                      else throw (LuaRuntimeError (''attempt to perform bitwise operation on a '' @
                                                   lua_type v @ '' value'')) s2))
          else throw (LuaRuntimeError (''unknown unary operator: '' @ opr)) s1)"

definition eval_table_ctor :: "methods \<Rightarrow> (expr option \<times> expr) list \<Rightarrow> nat \<Rightarrow> interp \<Rightarrow> lval outcome" where
  "eval_table_ctor M flds env s =
     (case new_table s of
        (t, s1) \<Rightarrow> bind (m_table_ctor_fields M flds t 1 env s1) (\<lambda>u s2. ok (VTable t) s2))"

definition table_ctor_fields :: "methods \<Rightarrow> (expr option \<times> expr) list \<Rightarrow> nat \<Rightarrow> int \<Rightarrow> nat \<Rightarrow> interp \<Rightarrow> unit outcome" where
  "table_ctor_fields M flds t array_idx env s =
     (case flds of
        [] \<Rightarrow> ok () s
      | (key_node, val_node) # rest \<Rightarrow>
          (case key_node of
             None \<Rightarrow>
               if rest = [] then
                 bind (m_eval M val_node env s)
                   (\<lambda>r s1.
                      case r of
                        MultiRes vs \<Rightarrow> rawset_seq t array_idx vs s1
                      | Single v \<Rightarrow> tbl_rawset t (VInt array_idx) v s1)
               else
                 bind (m_eval_expr M val_node env s)
                   (\<lambda>v s1.
                      bind (tbl_rawset t (VInt array_idx) v s1)
                        (\<lambda>u s2. m_table_ctor_fields M rest t (array_idx + 1) env s2))
           | Some k \<Rightarrow>
               bind (m_eval_expr M k env s)
                 (\<lambda>key s1.
                    bind (m_eval_expr M val_node env s1)
                      (\<lambda>v s2.
                         bind (tbl_rawset t key v s2)
                           (\<lambda>u s3. m_table_ctor_fields M rest t array_idx env s3)))))"

definition eval_call :: "methods \<Rightarrow> expr \<Rightarrow> expr list \<Rightarrow> nat \<Rightarrow> interp \<Rightarrow> lval list outcome" where
  "eval_call M f args env s =
     bind (m_eval_expr M f env s)
       (\<lambda>func s1. bind (m_eval_explist M args env s1) (\<lambda>a s2. m_call_function M func a s2))"

definition eval_method_call :: "methods \<Rightarrow> expr \<Rightarrow> string \<Rightarrow> expr list \<Rightarrow> nat \<Rightarrow> interp \<Rightarrow> lval list outcome" where
  "eval_method_call M obj m args env s =
     bind (m_eval_expr M obj env s)
       (\<lambda>ob s1.
          bind (m_table_get M ob (VStr m) s1)
            (\<lambda>func s2.
               bind (m_eval_explist M args env s2) (\<lambda>a s3. m_call_function M func (ob # a) s3)))"

definition eval_explist :: "methods \<Rightarrow> expr list \<Rightarrow> nat \<Rightarrow> interp \<Rightarrow> lval list outcome" where
  "eval_explist M nodes env s =
     (case nodes of
        [] \<Rightarrow> ok [] s
      | node # rest \<Rightarrow>
          if rest \<noteq> [] then
            bind (m_eval_expr M node env s)
              (\<lambda>v s1. bind (m_eval_explist M rest env s1) (\<lambda>vs s2. ok (v # vs) s2))
          else
            bind (m_eval M node env s)
              (\<lambda>r s1.
                 case r of
                   MultiRes vs \<Rightarrow> ok vs s1
                 | Single v \<Rightarrow> ok [v] s1))"

definition call_function :: "methods \<Rightarrow> lval \<Rightarrow> lval list \<Rightarrow> interp \<Rightarrow> lval list outcome" where
  "call_function M func args s =
     (case func of
        VNil \<Rightarrow> throw (LuaRuntimeError ''attempt to call a nil value'') s
      | VBuiltin b \<Rightarrow> m_call_builtin M (snd (bfunctions s b)) args s
      | VFunction f \<Rightarrow>
          (let s1 = s\<lparr>call_depth := call_depth s + 1\<rparr> in
           if max_call_depth s1 < call_depth s1
           then throw (LuaRuntimeError ''stack overflow'') (s1\<lparr>call_depth := call_depth s1 - 1\<rparr>)
           else
             (case m_call_lua_function M (lfunctions s1 f) args s1 of
                None \<Rightarrow> None
              | Some (r, s2) \<Rightarrow> Some (r, s2\<lparr>call_depth := call_depth s2 - 1\<rparr>)))
      | _ \<Rightarrow>
          (let mm = get_metamethod s func ''__call'' in
           if mm \<noteq> VNil then m_call_function M mm (func # args) s
           else throw (LuaRuntimeError (''attempt to call a '' @ lua_type func @ '' value'')) s))"

definition call_lua_function :: "methods \<Rightarrow> lua_function \<Rightarrow> lval list \<Rightarrow> interp \<Rightarrow> lval list outcome" where
  "call_lua_function M func args s =
     (case new_env (Some (closure func)) s of
        (env, s1) \<Rightarrow>
          (let s2 = define_all s1 env (params func) args 0;
               s3 = (if has_varargs func
                     then define_varargs s2 env (drop (length (params func)) args)
                     else s2)
           in case m_exec_block M (body func) env s3 of
                None \<Rightarrow> None
              | Some (Inl e, s4) \<Rightarrow>
                  (case e of
                     ReturnSignal vals \<Rightarrow> ok vals s4
                   | _ \<Rightarrow> throw e s4)
              | Some (Inr u, s4) \<Rightarrow> ok [] s4))"

definition call_builtin :: "methods \<Rightarrow> builtin \<Rightarrow> lval list \<Rightarrow> interp \<Rightarrow> lval list outcome" where
  "call_builtin M b args s =
     (case b of
        Bprint \<Rightarrow>
          bind (m_tostring_all M args s)
            (\<lambda>parts s1.
               (let line = join_tab parts;
                    s2 = s1\<lparr>output_bytes := output_bytes s1 + int (length line) + 1\<rparr>
                in if max_output_bytes s2 < output_bytes s2
                   then throw (LuaRuntimeError ''output limit exceeded'') s2
                   else ok [] (s2\<lparr>output_buf := output_buf s2 @ [line]\<rparr>)))
      | Btype \<Rightarrow> builtin_type args s
      | Btostring \<Rightarrow> bind (m_lua_tostring M (nth_or_nil args 0) s) (\<lambda>str s1. ok [VStr str] s1)
      | Bassert \<Rightarrow> builtin_assert args s
      | Berror \<Rightarrow>
          (let msg = nth_or_nil args 0 in
           if msg \<noteq> VNil
           then bind (m_lua_tostring M msg s) (\<lambda>str s1. throw (LuaRuntimeError str) s1)
           else throw (LuaRuntimeError ''nil'') s)
      | Bpcall \<Rightarrow>
          (case m_call_function M (nth_or_nil args 0) (drop 1 args) s of
             None \<Rightarrow> None
           | Some (Inr results, s1) \<Rightarrow> ok (VBool True # results) s1
           | Some (Inl e, s1) \<Rightarrow>
               (case e of
                  LuaRuntimeError msg \<Rightarrow> ok [VBool False, VStr msg] s1
                | BreakSignal \<Rightarrow> throw e s1
                | ReturnSignal vals \<Rightarrow> throw e s1
                | _ \<Rightarrow> None))
      | Bipairs \<Rightarrow> builtin_ipairs args s
      | Bipairs_iterator a c \<Rightarrow> builtin_ipairs_iterator a c args s
      | Bselect \<Rightarrow> builtin_select args s
      | Brawget \<Rightarrow> builtin_rawget args s
      | Brawset \<Rightarrow> builtin_rawset args s
      | Brawlen \<Rightarrow> builtin_rawlen args s
      | Brawequal \<Rightarrow> builtin_rawequal args s
      | Bsetmetatable \<Rightarrow> builtin_setmetatable args s
      | Bgetmetatable \<Rightarrow> builtin_getmetatable args s
      | Bunpack \<Rightarrow> builtin_unpack args s
      | Btbl_insert \<Rightarrow> builtin_tbl_insert args s
      | Btbl_unpack \<Rightarrow> builtin_unpack args s
      | Btbl_pack \<Rightarrow> builtin_tbl_pack args s
      | Bother \<Rightarrow> None)"

definition table_get :: "methods \<Rightarrow> lval \<Rightarrow> lval \<Rightarrow> interp \<Rightarrow> lval outcome" where
  "table_get M obj key s =
     (case obj of
        VTable a \<Rightarrow>
          bind (tbl_rawget a key s)
            (\<lambda>v s1.
               if v \<noteq> VNil then ok v s1
               else
                 (let mm = get_metamethod s1 obj ''__index'' in
                  if mm = VNil then ok VNil s1
                  else if isinstance_LuaTable mm then m_table_get M mm key s1
                  else bind (m_call_function M mm [obj, key] s1) (\<lambda>r s2. ok (first_list r) s2)))
      | VStr str \<Rightarrow>
          (case rawget_str (tables s (globals s)) ''string'' of
             VTable lib \<Rightarrow> tbl_rawget lib key s
           | _ \<Rightarrow> ok VNil s)
      | _ \<Rightarrow> throw (LuaRuntimeError (''attempt to index a '' @ lua_type obj @ '' value'')) s)"

definition table_set :: "methods \<Rightarrow> lval \<Rightarrow> lval \<Rightarrow> lval \<Rightarrow> interp \<Rightarrow> unit outcome" where
  "table_set M obj key v s =
     (case obj of
        VTable a \<Rightarrow>
          bind (tbl_rawget a key s)
            (\<lambda>existing s1.
               if existing \<noteq> VNil then tbl_rawset a key v s1
               else
                 (let mm = get_metamethod s1 obj ''__newindex'' in
                  if mm = VNil then tbl_rawset a key v s1
                  else if isinstance_LuaTable mm then m_table_set M mm key v s1
                  else bind (m_call_function M mm [obj, key, v] s1) (\<lambda>r s2. ok () s2)))
      | _ \<Rightarrow> throw (LuaRuntimeError (''attempt to index a '' @ lua_type obj @ '' value'')) s)"

definition arith :: "methods \<Rightarrow> lval \<Rightarrow> lval \<Rightarrow> arith_op \<Rightarrow> string \<Rightarrow> interp \<Rightarrow> lval outcome" where
  "arith M left right f mm_name s =
     (let na = tonum left; nb = tonum right in
      if na \<noteq> None \<and> nb \<noteq> None then
        (case py_arith f (the na) (the nb) of
           None \<Rightarrow> None
         | Some (Inr r) \<Rightarrow> ok r s
         | Some (Inl e) \<Rightarrow>
             if e = ZeroDivisionError then
               (if isinstance_int (the na) \<and> isinstance_int (the nb)
                then throw (LuaRuntimeError (''attempt to perform '' @ quoted ''n%0'')) s
                else if \<not> py_eq (the na) (VInt 0)
                then ok (VFloat (FInf (py_lt (VInt 0) (the na)))) s
                else ok (VFloat FNaN) s)
             else throw e s)
      else
        (let mm = py_or (get_metamethod s left mm_name) (get_metamethod s right mm_name) in
         if mm \<noteq> VNil
         then bind (m_call_function M mm [left, right] s) (\<lambda>r s1. ok (first_list r) s1)
         else throw (LuaRuntimeError (''attempt to perform arithmetic on a '' @
                                      lua_type (if na = None then left else right) @
                                      '' value'')) s))"

definition float_arith :: "methods \<Rightarrow> lval \<Rightarrow> lval \<Rightarrow> bool \<Rightarrow> string \<Rightarrow> interp \<Rightarrow> lval outcome" where
  "float_arith M left right is_div mm_name s =
     (let na = tonum left; nb = tonum right in
      if na \<noteq> None \<and> nb \<noteq> None then
        bind (lift (py_float (the na)) s)
          (\<lambda>fa s1.
             bind (lift (py_float (the nb)) s1)
               (\<lambda>fb s2.
                  if is_div \<and> fb = FFin 0 then
                    (if py_eq (the na) (VInt 0) then ok (VFloat FNaN) s2
                     else if isinstance_int (the nb) \<and> fa \<noteq> FNaN
                     then ok (VFloat (FInf (py_lt (VInt 0) (the na)))) s2
                     else None)
                  else None))
      else
        (let mm = py_or (get_metamethod s left mm_name) (get_metamethod s right mm_name) in
         if mm \<noteq> VNil
         then bind (m_call_function M mm [left, right] s) (\<lambda>r s1. ok (first_list r) s1)
         else throw (LuaRuntimeError (''attempt to perform arithmetic on a '' @
                                      lua_type (if na = None then left else right) @
                                      '' value'')) s))"

definition bitwise :: "methods \<Rightarrow> lval \<Rightarrow> lval \<Rightarrow> bit_op \<Rightarrow> string \<Rightarrow> interp \<Rightarrow> lval outcome" where
  "bitwise M left right f mm_name s =
     bind (lift (toint left) s)
       (\<lambda>ia s1.
          bind (lift (toint right) s1)
            (\<lambda>ib s2.
               if ia \<noteq> None \<and> ib \<noteq> None then lift (py_bitop f (the ia) (the ib)) s2
               else
                 (let mm = py_or (get_metamethod s2 left mm_name)
                                 (get_metamethod s2 right mm_name)
                  in if mm \<noteq> VNil
                     then bind (m_call_function M mm [left, right] s2)
                            (\<lambda>r s3. ok (first_list r) s3)
                     else throw (LuaRuntimeError (''attempt to perform bitwise operation on a '' @
                                                  lua_type (if ia = None then left else right) @
                                                  '' value'')) s2)))"

definition concat_values :: "methods \<Rightarrow> lval \<Rightarrow> lval \<Rightarrow> interp \<Rightarrow> lval outcome" where
  "concat_values M left right s =
     (if (isinstance_str left \<or> isinstance_num left) \<and>
         (isinstance_str right \<or> isinstance_num right)
      then
        (case (tostring_concat left, tostring_concat right) of
           (Some sl, Some sr) \<Rightarrow>
             if MAX_STRING_LEN < length sl + length sr
             then throw (LuaRuntimeError ''string length overflow'') s
             else ok (VStr (sl @ sr)) s
         | _ \<Rightarrow> None)
      else
        (let mm = py_or (get_metamethod s left ''__concat'') (get_metamethod s right ''__concat'')
         in if mm \<noteq> VNil
            then bind (m_call_function M mm [left, right] s) (\<lambda>r s1. ok (first_list r) s1)
            else throw (LuaRuntimeError (''attempt to concatenate a '' @
                          lua_type (if \<not> (isinstance_str left \<or> isinstance_num left)
                                    then left else right) @
                          '' value'')) s))"

definition eval_equality :: "methods \<Rightarrow> string \<Rightarrow> lval \<Rightarrow> lval \<Rightarrow> interp \<Rightarrow> lval outcome" where
  "eval_equality M opr left right s =
     bind (lift (raw_equal left right) s)
       (\<lambda>result s1.
          bind
            (if \<not> result \<and> isinstance_LuaTable left \<and> isinstance_LuaTable right then
               (let mm = py_or (get_metamethod s1 left ''__eq'') (get_metamethod s1 right ''__eq'')
                in if mm \<noteq> VNil
                   then bind (m_call_function M mm [left, right] s1)
                          (\<lambda>r s2. ok (is_truthy (first_list r)) s2)
                   else ok result s1)
             else ok result s1)
            (\<lambda>res s2. ok (VBool (if opr = ''=='' then res else \<not> res)) s2))"

definition eval_comparison :: "methods \<Rightarrow> string \<Rightarrow> lval \<Rightarrow> lval \<Rightarrow> interp \<Rightarrow> lval outcome" where
  "eval_comparison M opr left right s =
     (if isinstance_num left \<and> isinstance_num right then
        ok (VBool (if opr = ''<'' then py_lt left right
                   else if opr = ''>'' then py_lt right left
                   else if opr = ''<='' then py_le left right
                   else if opr = ''>='' then py_le right left
                   else False)) s
      else
        (case (left, right) of
           (VStr a, VStr b) \<Rightarrow>
             ok (VBool (if opr = ''<'' then str_lt a b
                        else if opr = ''>'' then str_lt b a
                        else if opr = ''<='' then \<not> str_lt b a
                        else if opr = ''>='' then \<not> str_lt a b
                        else False)) s
         | _ \<Rightarrow>
             (let mm_name = (if opr = ''<'' \<or> opr = ''>'' then ''__lt'' else ''__le'');
                  mm = py_or (get_metamethod s left mm_name) (get_metamethod s right mm_name)
              in if mm \<noteq> VNil then
                   bind (if opr = ''>'' \<or> opr = ''>=''
                         then m_call_function M mm [right, left] s
                         else m_call_function M mm [left, right] s)
                     (\<lambda>r s1. ok (VBool (is_truthy (first_list r))) s1)
                 else throw (LuaRuntimeError (''attempt to compare two '' @ lua_type left @
                                              '' values'')) s)))"

definition lua_tostring :: "methods \<Rightarrow> lval \<Rightarrow> interp \<Rightarrow> string outcome" where
  "lua_tostring M v s =
     (case v of
        VNil \<Rightarrow> ok ''nil'' s
      | VBool b \<Rightarrow> ok (if b then ''true'' else ''false'') s
      | VInt i \<Rightarrow> ok (str_int i) s
      | VStr str \<Rightarrow> ok str s
      | VTable a \<Rightarrow>
          (let mm = get_metamethod s v ''__tostring'' in
           if mm \<noteq> VNil then
             bind (m_call_function M mm [v] s)
               (\<lambda>r s1. case py_str (first_list r) of None \<Rightarrow> None | Some str \<Rightarrow> ok str s1)
           else None)
      | _ \<Rightarrow> None)"

definition tostring_all :: "methods \<Rightarrow> lval list \<Rightarrow> interp \<Rightarrow> string list outcome" where
  "tostring_all M vs s =
     (case vs of
        [] \<Rightarrow> ok [] s
      | v # rest \<Rightarrow>
          bind (m_lua_tostring M v s)
            (\<lambda>str s1. bind (m_tostring_all M rest s1) (\<lambda>strs s2. ok (str # strs) s2)))"

text \<open>No fuel: no method gives a result.\<close>

definition no_methods :: methods where
  "no_methods =
     \<lparr> m_exec_block = (\<lambda>x1 x2 x3. None),
       m_exec_stmts = (\<lambda>x1 x2 x3. None),
       m_exec_stmt = (\<lambda>x1 x2 x3. None),
       m_exec_assign = (\<lambda>x1 x2 x3 x4. None),
       m_assign_targets = (\<lambda>x1 x2 x3 x4 x5. None),
       m_assign_target = (\<lambda>x1 x2 x3 x4. None),
       m_exec_local = (\<lambda>x1 x2 x3 x4. None),
       m_exec_while = (\<lambda>x1 x2 x3 x4. None),
       m_exec_repeat = (\<lambda>x1 x2 x3 x4. None),
       m_exec_if = (\<lambda>x1 x2 x3. None),
       m_exec_numeric_for = (\<lambda>x1 x2 x3 x4 x5 x6 x7. None),
       m_numeric_for_loop = (\<lambda>x1 x2 x3 x4 x5 x6 x7. None),
       m_exec_generic_for = (\<lambda>x1 x2 x3 x4 x5. None),
       m_generic_for_loop = (\<lambda>x1 x2 x3 x4 x5 x6 x7. None),
       m_eval = (\<lambda>x1 x2 x3. None),
       m_eval_expr = (\<lambda>x1 x2 x3. None),
       m_eval_binop = (\<lambda>x1 x2 x3 x4 x5. None),
       m_eval_unaryop = (\<lambda>x1 x2 x3 x4. None),
       m_eval_table_ctor = (\<lambda>x1 x2 x3. None),
       m_table_ctor_fields = (\<lambda>x1 x2 x3 x4 x5. None),
       m_eval_call = (\<lambda>x1 x2 x3 x4. None),
       m_eval_method_call = (\<lambda>x1 x2 x3 x4 x5. None),
       m_eval_explist = (\<lambda>x1 x2 x3. None),
       m_call_function = (\<lambda>x1 x2 x3. None),
       m_call_lua_function = (\<lambda>x1 x2 x3. None),
       m_call_builtin = (\<lambda>x1 x2 x3. None),
       m_table_get = (\<lambda>x1 x2 x3. None),
       m_table_set = (\<lambda>x1 x2 x3 x4. None),
       m_arith = (\<lambda>x1 x2 x3 x4 x5. None),
       m_float_arith = (\<lambda>x1 x2 x3 x4 x5. None),
       m_bitwise = (\<lambda>x1 x2 x3 x4 x5. None),
       m_concat_values = (\<lambda>x1 x2 x3. None),
       m_eval_equality = (\<lambda>x1 x2 x3 x4. None),
       m_eval_comparison = (\<lambda>x1 x2 x3 x4. None),
       m_lua_tostring = (\<lambda>x1 x2. None),
       m_tostring_all = (\<lambda>x1 x2. None) \<rparr>"

definition methods_step :: "methods \<Rightarrow> methods" where
  "methods_step M =
     \<lparr> m_exec_block = exec_block M,
       m_exec_stmts = exec_stmts M,
       m_exec_stmt = exec_stmt M,
       m_exec_assign = exec_assign M,
       m_assign_targets = assign_targets M,
       m_assign_target = assign_target M,
       m_exec_local = exec_local M,
       m_exec_while = exec_while M,
       m_exec_repeat = exec_repeat M,
       m_exec_if = exec_if M,
       m_exec_numeric_for = exec_numeric_for M,
       m_numeric_for_loop = numeric_for_loop M,
       m_exec_generic_for = exec_generic_for M,
       m_generic_for_loop = generic_for_loop M,
       m_eval = eval M,
       m_eval_expr = eval_expr M,
       m_eval_binop = eval_binop M,
       m_eval_unaryop = eval_unaryop M,
       m_eval_table_ctor = eval_table_ctor M,
       m_table_ctor_fields = table_ctor_fields M,
       m_eval_call = eval_call M,
       m_eval_method_call = eval_method_call M,
       m_eval_explist = eval_explist M,
       m_call_function = call_function M,
       m_call_lua_function = call_lua_function M,
       m_call_builtin = call_builtin M,
       m_table_get = table_get M,
       m_table_set = table_set M,
       m_arith = arith M,
       m_float_arith = float_arith M,
       m_bitwise = bitwise M,
       m_concat_values = concat_values M,
       m_eval_equality = eval_equality M,
       m_eval_comparison = eval_comparison M,
       m_lua_tostring = lua_tostring M,
       m_tostring_all = tostring_all M \<rparr>"

primrec methods_at :: "nat \<Rightarrow> methods" where
  "methods_at 0 = no_methods"
| "methods_at (Suc n) = methods_step (methods_at n)"

section \<open>The lexer (\<^verbatim>\<open>lexer.py\<close>)\<close>

datatype TK =
    TK_NUMBER | TK_STRING | TK_NAME
  | TK_AND | TK_BREAK | TK_DO | TK_ELSE | TK_ELSEIF | TK_END | TK_FALSE | TK_FOR
  | TK_FUNCTION | TK_GOTO | TK_IF | TK_IN | TK_LOCAL | TK_NIL | TK_NOT | TK_OR
  | TK_REPEAT | TK_RETURN | TK_THEN | TK_TRUE | TK_UNTIL | TK_WHILE
  | TK_PLUS | TK_MINUS | TK_STAR | TK_SLASH | TK_IDIV | TK_PERCENT | TK_CARET | TK_HASH
  | TK_AMP | TK_TILDE | TK_PIPE | TK_LSHIFT | TK_RSHIFT | TK_EQ | TK_NEQ | TK_LT | TK_LE
  | TK_GT | TK_GE | TK_ASSIGN | TK_LPAREN | TK_RPAREN | TK_LBRACE | TK_RBRACE
  | TK_LBRACKET | TK_RBRACKET | TK_DCOLON | TK_SEMICOLON | TK_COLON | TK_COMMA | TK_DOT
  | TK_DOTDOT | TK_DOTS
  | TK_EOF

definition KEYWORDS :: "string \<Rightarrow> TK option" where
  "KEYWORDS = map_of
     [(''and'', TK_AND), (''break'', TK_BREAK), (''do'', TK_DO), (''else'', TK_ELSE),
      (''elseif'', TK_ELSEIF), (''end'', TK_END), (''false'', TK_FALSE), (''for'', TK_FOR),
      (''function'', TK_FUNCTION), (''goto'', TK_GOTO), (''if'', TK_IF), (''in'', TK_IN),
      (''local'', TK_LOCAL), (''nil'', TK_NIL), (''not'', TK_NOT), (''or'', TK_OR),
      (''repeat'', TK_REPEAT), (''return'', TK_RETURN), (''then'', TK_THEN),
      (''true'', TK_TRUE), (''until'', TK_UNTIL), (''while'', TK_WHILE)]"

text \<open>
  A token: its kind, its value (\<^verbatim>\<open>None\<close>, a string or a number: an \<open>lval\<close>) and its
  line.
\<close>

record token =
  kind :: TK
  tvalue :: lval
  tline :: int

definition Token :: "TK \<Rightarrow> lval \<Rightarrow> int \<Rightarrow> token" where
  "Token k v l = \<lparr> kind = k, tvalue = v, tline = l \<rparr>"

subsection \<open>Characters\<close>

text \<open>
  \<^verbatim>\<open>str.isdigit\<close>, \<^verbatim>\<open>str.isalpha\<close> and \<^verbatim>\<open>str.isalnum\<close> on the code points below 256
  (Python classifies by the Unicode tables, so a few beyond ASCII count).
\<close>

definition py_isdigit :: "char \<Rightarrow> bool" where
  "py_isdigit c = (let n = (of_char c :: nat) in (48 \<le> n \<and> n \<le> 57) \<or> n = 178 \<or> n = 179 \<or> n = 185)"

definition py_isalpha :: "char \<Rightarrow> bool" where
  "py_isalpha c =
     (let n = (of_char c :: nat) in
      (65 \<le> n \<and> n \<le> 90) \<or> (97 \<le> n \<and> n \<le> 122) \<or> n = 170 \<or> n = 181 \<or> n = 186 \<or>
      (192 \<le> n \<and> n \<le> 214) \<or> (216 \<le> n \<and> n \<le> 246) \<or> (248 \<le> n \<and> n \<le> 255))"

definition py_isalnum :: "char \<Rightarrow> bool" where
  "py_isalnum c =
     (let n = (of_char c :: nat) in py_isalpha c \<or> py_isdigit c \<or> (188 \<le> n \<and> n \<le> 190))"

definition LF :: char where "LF = CHR 0x0A"
definition CR :: char where "CR = CHR 0x0D"
definition BACKSLASH :: char where "BACKSLASH = CHR 0x5C"

definition is_blank :: "char \<Rightarrow> bool" where
  "is_blank c = (c = CHR '' '' \<or> c = CHR 0x09 \<or> c = CR \<or> c = CHR 0x0C \<or> c = CHR 0x0B)"

text \<open>
  \<^verbatim>\<open>chr(n)\<close>: \<^verbatim>\<open>ValueError\<close> outside \<open>0 .. 0x10FFFF\<close>, \<^verbatim>\<open>OverflowError\<close> outside the range
  of a C \<^verbatim>\<open>int\<close>. A code point from 256 on has no \<open>char\<close>: outside the model, \<open>None\<close>.
\<close>

definition py_chr :: "int \<Rightarrow> (exn + char) option" where
  "py_chr n =
     (if n < - (2 ^ 31) \<or> 2 ^ 31 \<le> n then Some (Inl OverflowError)
      else if n < 0 \<or> 1114112 \<le> n then Some (Inl ValueError)
      else if n < 256 then Some (Inr (char_of n))
      else None)"

subsection \<open>Scanning\<close>

text \<open>
  The lexer's position is the rest of the source from \<^verbatim>\<open>self.pos\<close> on, with the
  current line; \<^verbatim>\<open>self._char()\<close> is the head of the rest (\<^verbatim>\<open>""\<close> when it is empty) and
  \<^verbatim>\<open>self._advance()\<close> drops it, counting a line feed. \<^verbatim>\<open>self._error(msg)\<close> raises
  \<^verbatim>\<open>LuaSyntaxError(msg, self.line)\<close>.
\<close>

definition count_long_bracket :: "string \<Rightarrow> int" where
  "count_long_bracket rest =
     (case rest of
        [] \<Rightarrow> - 1
      | c # cs \<Rightarrow>
          if c \<noteq> CHR ''['' then - 1
          else
            (case dropWhile (\<lambda>x. x = CHR ''='') cs of
               [] \<Rightarrow> - 1
             | d # ds \<Rightarrow>
                 if d = CHR ''['' then int (length (takeWhile (\<lambda>x. x = CHR ''='') cs))
                 else - 1))"

text \<open>The loop of \<^verbatim>\<open>_read_long_string\<close>, and the method.\<close>

fun long_string_loop :: "string \<Rightarrow> string \<Rightarrow> string \<Rightarrow> int \<Rightarrow> exn + (string \<times> string \<times> int)" where
  "long_string_loop closing buf [] lno = Inl (LuaSyntaxError ''unfinished long string'' lno)"
| "long_string_loop closing buf (c # cs) lno =
     (if take (length closing) (c # cs) = closing
      then Inr (buf, drop (length closing) (c # cs), lno)
      else long_string_loop closing (buf @ [c]) cs (if c = LF then lno + 1 else lno))"

definition skip_first_newline :: "string \<Rightarrow> int \<Rightarrow> string \<times> int" where
  "skip_first_newline r0 lno =
     (case r0 of
        [] \<Rightarrow> (r0, lno)
      | c # cs \<Rightarrow>
          if c = LF then (cs, lno + 1)
          else if c = CR then
            (case cs of
               [] \<Rightarrow> (cs, lno + 1)
             | d # ds \<Rightarrow> if d = LF then (ds, lno + 1) else (cs, lno + 1))
          else (r0, lno))"

definition read_long_string :: "nat \<Rightarrow> string \<Rightarrow> int \<Rightarrow> exn + (string \<times> string \<times> int)" where
  "read_long_string level rest lno =
     (case skip_first_newline (drop (2 + level) rest) lno of
        (r1, lno1) \<Rightarrow>
          long_string_loop (CHR '']'' # replicate level (CHR ''='') @ '']'') [] r1 lno1)"

text \<open>\<^verbatim>\<open>_skip_comment\<close> (the rest starts with the two dashes).\<close>

definition skip_comment :: "string \<Rightarrow> int \<Rightarrow> exn + (string \<times> int)" where
  "skip_comment rest lno =
     (let r = drop 2 rest in
      if r \<noteq> [] \<and> hd r = CHR ''['' \<and> 0 \<le> count_long_bracket r then
        (case read_long_string (nat (count_long_bracket r)) r lno of
           Inl e \<Rightarrow> Inl e
         | Inr (str, r', lno') \<Rightarrow> Inr (r', lno'))
      else Inr (dropWhile (\<lambda>c. c \<noteq> LF) r, lno))"

lemma long_string_loop_shorter:
  "long_string_loop closing buf rest lno = Inr (str, rest', lno') \<Longrightarrow> length rest' \<le> length rest"
  by (induction closing buf rest lno rule: long_string_loop.induct) (auto split: if_splits)

lemma skip_first_newline_shorter:
  "skip_first_newline r0 lno = (r1, lno1) \<Longrightarrow> length r1 \<le> length r0"
  by (auto simp: skip_first_newline_def split: list.splits if_splits)

lemma read_long_string_shorter:
  assumes "read_long_string level rest lno = Inr (str, rest', lno')"
  shows "length rest' \<le> length rest"
proof -
  obtain r1 lno1 where s: "skip_first_newline (drop (2 + level) rest) lno = (r1, lno1)"
    by (cases "skip_first_newline (drop (2 + level) rest) lno")
  with assms have
    "long_string_loop (CHR '']'' # replicate level (CHR ''='') @ '']'') [] r1 lno1
       = Inr (str, rest', lno')"
    by (simp add: read_long_string_def)
  from long_string_loop_shorter [OF this] skip_first_newline_shorter [OF s]
  show ?thesis by simp
qed

lemma skip_comment_shorter:
  assumes "skip_comment (c # d # cs) lno = Inr (rest', lno')"
  shows "length rest' < length (c # d # cs)"
proof (cases "cs \<noteq> [] \<and> hd cs = CHR ''['' \<and> 0 \<le> count_long_bracket cs")
  case True
  with assms obtain str where "read_long_string (nat (count_long_bracket cs)) cs lno = Inr (str, rest', lno')"
    by (auto simp: skip_comment_def split: sum.splits)
  from read_long_string_shorter [OF this] show ?thesis by simp
next
  case False
  with assms have "rest' = dropWhile (\<lambda>c. c \<noteq> LF) cs"
    by (auto simp: skip_comment_def)
  then show ?thesis
    using length_dropWhile_le [of "\<lambda>c. c \<noteq> LF" cs] by simp
qed

function skip_whitespace_and_comments :: "string \<Rightarrow> int \<Rightarrow> exn + (string \<times> int)" where
  "skip_whitespace_and_comments [] lno = Inr ([], lno)"
| "skip_whitespace_and_comments [ch] lno =
     (if is_blank ch then Inr ([], lno)
      else if ch = LF then Inr ([], lno + 1)
      else Inr ([ch], lno))"
| "skip_whitespace_and_comments (ch # d # cs) lno =
     (if is_blank ch then skip_whitespace_and_comments (d # cs) lno
      else if ch = LF then skip_whitespace_and_comments (d # cs) (lno + 1)
      else if ch = CHR ''-'' \<and> d = CHR ''-'' then
        (case skip_comment (ch # d # cs) lno of
           Inl e \<Rightarrow> Inl e
         | Inr (rest', lno') \<Rightarrow> skip_whitespace_and_comments rest' lno')
      else Inr (ch # d # cs, lno))"
  by pat_completeness auto
termination
  by (relation "measure (\<lambda>(rest, lno). length rest)") (auto dest: skip_comment_shorter)


text \<open>
  \<^verbatim>\<open>_read_string\<close>: the loop after the opening quote. The escapes \<^verbatim>\<open>\x\<close> and the decimal
  escape check their digits; \<^verbatim>\<open>\u{...}\<close> takes everything up to the closing brace and
  hands it to \<^verbatim>\<open>int(hex_str, 16)\<close> and \<^verbatim>\<open>chr\<close>. In \<^verbatim>\<open>\z\<close> a line feed is counted twice
  (once by the loop, once by \<^verbatim>\<open>_advance\<close>).
\<close>

definition count_LF :: "string \<Rightarrow> int" where
  "count_LF s = int (length (filter (\<lambda>c. c = LF) s))"

definition is_zspace :: "char \<Rightarrow> bool" where
  "is_zspace c = (is_blank c \<or> c = LF)"

definition invalid_escape :: "int \<Rightarrow> (exn + (string \<times> string \<times> int)) option" where
  "invalid_escape lno = Some (Inl (LuaSyntaxError ''invalid escape sequence'' lno))"

lemma dropWhile_Cons_shorter:
  "dropWhile P xs = y # ys \<Longrightarrow> length ys < length xs"
  using length_dropWhile_le [of P xs] by simp

function read_string_loop ::
  "char \<Rightarrow> string \<Rightarrow> string \<Rightarrow> int \<Rightarrow> (exn + (string \<times> string \<times> int)) option" where
  "read_string_loop q buf rest lno =
     (case rest of
        [] \<Rightarrow> Some (Inl (LuaSyntaxError ''unfinished string'' lno))
      | ch # cs \<Rightarrow>
          if ch = q then Some (Inr (buf, cs, lno))
          else if ch = LF \<or> ch = CR then Some (Inl (LuaSyntaxError ''unfinished string'' lno))
          else if ch = BACKSLASH then
            (case cs of
               [] \<Rightarrow>
                 Some (Inl (LuaSyntaxError (''invalid escape sequence '' @ quoted [BACKSLASH]) lno))
             | esc # r \<Rightarrow>
                 if esc = CHR ''a'' then read_string_loop q (buf @ [CHR 0x07]) r lno
                 else if esc = CHR ''b'' then read_string_loop q (buf @ [CHR 0x08]) r lno
                 else if esc = CHR ''f'' then read_string_loop q (buf @ [CHR 0x0C]) r lno
                 else if esc = CHR ''n'' then read_string_loop q (buf @ [LF]) r lno
                 else if esc = CHR ''r'' then read_string_loop q (buf @ [CR]) r lno
                 else if esc = CHR ''t'' then read_string_loop q (buf @ [CHR 0x09]) r lno
                 else if esc = CHR ''v'' then read_string_loop q (buf @ [CHR 0x0B]) r lno
                 else if esc = BACKSLASH then read_string_loop q (buf @ [BACKSLASH]) r lno
                 else if esc = CHR 0x27 then read_string_loop q (buf @ [CHR 0x27]) r lno
                 else if esc = CHR 0x22 then read_string_loop q (buf @ [CHR 0x22]) r lno
                 else if esc = LF then read_string_loop q (buf @ [LF]) r (lno + 1)
                 else if esc = CR then
                   (case r of
                      [] \<Rightarrow> read_string_loop q (buf @ [LF]) r lno
                    | d # ds \<Rightarrow>
                        if d = LF then read_string_loop q (buf @ [LF]) ds (lno + 1)
                        else read_string_loop q (buf @ [LF]) r lno)
                 else if esc = CHR ''x'' then
                   (case r of
                      [] \<Rightarrow> invalid_escape lno
                    | h1 # r1 \<Rightarrow>
                        if \<not> is_hexdigit h1 then invalid_escape lno
                        else
                          (case r1 of
                             [] \<Rightarrow> invalid_escape lno
                           | h2 # r2 \<Rightarrow>
                               if \<not> is_hexdigit h2 then invalid_escape lno
                               else read_string_loop q
                                      (buf @ [char_of (hex_value 0 [h1, h2])]) r2 lno))
                 else if esc = CHR ''u'' then
                   (case r of
                      [] \<Rightarrow> invalid_escape lno
                    | b1 # r1 \<Rightarrow>
                        if b1 \<noteq> CHR ''{'' then invalid_escape lno
                        else
                          (let hex_str = takeWhile (\<lambda>c. c \<noteq> CHR ''}'') r1;
                               lno1 = lno + count_LF hex_str
                           in case dropWhile (\<lambda>c. c \<noteq> CHR ''}'') r1 of
                                [] \<Rightarrow> invalid_escape lno1
                              | b2 # r2 \<Rightarrow>
                                  (case py_int hex_str 16 of
                                     None \<Rightarrow> Some (Inl ValueError)
                                   | Some n \<Rightarrow>
                                       (case py_chr n of
                                          None \<Rightarrow> None
                                        | Some (Inl e) \<Rightarrow> Some (Inl e)
                                        | Some (Inr c) \<Rightarrow>
                                            read_string_loop q (buf @ [c]) r2 lno1))))
                 else if esc = CHR ''z'' then
                   read_string_loop q buf (dropWhile is_zspace r)
                     (lno + 2 * count_LF (takeWhile is_zspace r))
                 else if py_isdigit esc then
                   (let digits = takeWhile py_isdigit (take 3 cs) in
                    case py_int digits 10 of
                      None \<Rightarrow> Some (Inl ValueError)
                    | Some v \<Rightarrow>
                        if 255 < v then Some (Inl (LuaSyntaxError ''decimal escape too large'' lno))
                        else read_string_loop q (buf @ [char_of v]) (drop (length digits) cs) lno)
                 else
                   Some (Inl (LuaSyntaxError
                                (''invalid escape sequence '' @ quoted [BACKSLASH, esc]) lno)))
          else read_string_loop q (buf @ [ch]) cs lno)"
  by pat_completeness auto
termination
proof (relation "measure (\<lambda>(q, buf, rest, lno). length rest)", goal_cases)
  case 1
  show ?case by simp
next
  case (18 q buf rest lno ch cs esc r)
  then show ?case
    using length_dropWhile_le [of is_zspace r] by simp
next
  case (19 q buf rest lno ch cs esc r digits v)
  then show ?case by (auto simp: py_isdigit_def takeWhile_eq_Nil_iff)
qed (auto dest: dropWhile_Cons_shorter)

declare read_string_loop.simps [simp del]

definition read_string :: "char \<Rightarrow> string \<Rightarrow> int \<Rightarrow> (exn + (string \<times> string \<times> int)) option" where
  "read_string quote rest lno = read_string_loop quote [] (drop 1 rest) lno"

text \<open>
  \<^verbatim>\<open>_read_number\<close>. \<open>number_value\<close> is its last part: the text between the start and
  the end of the scan, without underscores, is converted; only \<^verbatim>\<open>ValueError\<close> is caught.
\<close>

definition starts_with :: "string \<Rightarrow> string \<Rightarrow> bool" where
  "starts_with s p = (take (length p) s = p)"

definition number_value :: "bool \<Rightarrow> string \<Rightarrow> string \<Rightarrow> int \<Rightarrow> exn + (lval \<times> string)" where
  "number_value is_float rest rest' lno =
     (let text = filter (\<lambda>c. c \<noteq> CHR ''_'') (take (length rest - length rest') rest);
          malformed = Inl (LuaSyntaxError (''malformed number: '' @ text) lno)
      in if is_float then
           (if has_hex_prefix text then
              (case py_float_fromhex text of
                 Inl e \<Rightarrow> if e = ValueError then malformed else Inl e
               | Inr f \<Rightarrow> Inr (VFloat f, rest'))
            else
              (case py_float_str text of
                 None \<Rightarrow> malformed
               | Some f \<Rightarrow> Inr (VFloat f, rest')))
         else
           (case py_int text (if has_hex_prefix text then 16 else 10) of
              None \<Rightarrow> malformed
            | Some i \<Rightarrow> Inr (VInt i, rest')))"

definition is_hex_or_us :: "char \<Rightarrow> bool" where
  "is_hex_or_us c = (is_hexdigit c \<or> c = CHR ''_'')"

definition is_dec_or_us :: "char \<Rightarrow> bool" where
  "is_dec_or_us c = (py_isdigit c \<or> c = CHR ''_'')"

text \<open>The exponent part, after \<^verbatim>\<open>p\<close> or \<^verbatim>\<open>e\<close>: an optional sign and at least one digit.\<close>

definition read_exponent :: "string \<Rightarrow> string \<Rightarrow> int \<Rightarrow> exn + (lval \<times> string)" where
  "read_exponent rest r lno =
     (let r1 = (if starts_with r ''+'' \<or> starts_with r ''-'' then drop 1 r else r) in
      if \<not> (r1 \<noteq> [] \<and> py_isdigit (hd r1)) then Inl (LuaSyntaxError ''malformed number'' lno)
      else number_value True rest (dropWhile py_isdigit r1) lno)"

definition read_number :: "string \<Rightarrow> int \<Rightarrow> exn + (lval \<times> string)" where
  "read_number rest lno =
     (if starts_with rest ''0'' \<and> (starts_with (drop 1 rest) ''x'' \<or> starts_with (drop 1 rest) ''X'')
      then
        (let r0 = drop 2 rest in
         if \<not> (r0 \<noteq> [] \<and> is_hexdigit (hd r0)) then Inl (LuaSyntaxError ''malformed number'' lno)
         else
           (let r1 = dropWhile is_hex_or_us r0;
                is_float = starts_with r1 ''.'';
                r2 = (if is_float then dropWhile is_hex_or_us (drop 1 r1) else r1)
            in if starts_with r2 ''p'' \<or> starts_with r2 ''P''
               then read_exponent rest (drop 1 r2) lno
               else number_value is_float rest r2 lno))
      else
        (let r1 = dropWhile is_dec_or_us rest;
             is_float = (starts_with r1 ''.'' \<and> \<not> starts_with (drop 1 r1) ''.'');
             r2 = (if is_float then dropWhile is_dec_or_us (drop 1 r1) else r1)
         in if starts_with r2 ''e'' \<or> starts_with r2 ''E''
            then read_exponent rest (drop 1 r2) lno
            else number_value is_float rest r2 lno))"

text \<open>The symbols: the rest starts with \<open>ch\<close>, which \<^verbatim>\<open>_tokenize\<close> has passed.\<close>

definition read_symbol :: "char \<Rightarrow> string \<Rightarrow> int \<Rightarrow> exn + (token \<times> string \<times> int)" where
  "read_symbol ch cs lno =
     (let one = (\<lambda>k. Inr (Token k (VStr [ch]) lno, cs, lno));
          two = (\<lambda>k d. Inr (Token k (VStr [ch, d]) lno, drop 1 cs, lno))
      in if ch = CHR ''+'' then one TK_PLUS
         else if ch = CHR ''*'' then one TK_STAR
         else if ch = CHR ''%'' then one TK_PERCENT
         else if ch = CHR ''^'' then one TK_CARET
         else if ch = CHR ''#'' then one TK_HASH
         else if ch = CHR ''&'' then one TK_AMP
         else if ch = CHR ''|'' then one TK_PIPE
         else if ch = CHR ''('' then one TK_LPAREN
         else if ch = CHR '')'' then one TK_RPAREN
         else if ch = CHR ''{'' then one TK_LBRACE
         else if ch = CHR ''}'' then one TK_RBRACE
         else if ch = CHR ''['' then one TK_LBRACKET
         else if ch = CHR '']'' then one TK_RBRACKET
         else if ch = CHR '';'' then one TK_SEMICOLON
         else if ch = CHR '','' then one TK_COMMA
         else if ch = CHR ''-'' then one TK_MINUS
         else if ch = CHR ''/'' then
           (if starts_with cs ''/'' then two TK_IDIV (CHR ''/'') else one TK_SLASH)
         else if ch = CHR ''<'' then
           (if starts_with cs ''='' then two TK_LE (CHR ''='')
            else if starts_with cs ''<'' then two TK_LSHIFT (CHR ''<'')
            else one TK_LT)
         else if ch = CHR ''>'' then
           (if starts_with cs ''='' then two TK_GE (CHR ''='')
            else if starts_with cs ''>'' then two TK_RSHIFT (CHR ''>'')
            else one TK_GT)
         else if ch = CHR ''='' then
           (if starts_with cs ''='' then two TK_EQ (CHR ''='') else one TK_ASSIGN)
         else if ch = CHR ''~'' then
           (if starts_with cs ''='' then two TK_NEQ (CHR ''='') else one TK_TILDE)
         else if ch = CHR '':'' then
           (if starts_with cs '':'' then two TK_DCOLON (CHR '':'') else one TK_COLON)
         else if ch = CHR ''.'' then
           (if starts_with cs ''.'' then
              (if starts_with (drop 1 cs) ''.''
               then Inr (Token TK_DOTS (VStr ''...'') lno, drop 2 cs, lno)
               else two TK_DOTDOT (CHR ''.''))
            else one TK_DOT)
         else Inl (LuaSyntaxError (''unexpected character '' @ quoted [ch]) (if ch = LF then lno + 1 else lno)))"

text \<open>
  One round of the loop of \<^verbatim>\<open>_tokenize\<close>, after the white space: the next token and the
  position behind it.
\<close>

definition is_word_char :: "char \<Rightarrow> bool" where
  "is_word_char c = (py_isalnum c \<or> c = CHR ''_'')"

definition next_token :: "string \<Rightarrow> int \<Rightarrow> (exn + (token \<times> string \<times> int)) option" where
  "next_token rest lno =
     (case rest of
        [] \<Rightarrow> None
      | ch # cs \<Rightarrow>
          if ch = CHR ''['' \<and> 0 \<le> count_long_bracket rest then
            (case read_long_string (nat (count_long_bracket rest)) rest lno of
               Inl e \<Rightarrow> Some (Inl e)
             | Inr (str, r', lno') \<Rightarrow> Some (Inr (Token TK_STRING (VStr str) lno, r', lno')))
          else if ch = CHR 0x22 \<or> ch = CHR 0x27 then
            (case read_string ch rest lno of
               None \<Rightarrow> None
             | Some (Inl e) \<Rightarrow> Some (Inl e)
             | Some (Inr (str, r', lno')) \<Rightarrow> Some (Inr (Token TK_STRING (VStr str) lno, r', lno')))
          else if py_isdigit ch \<or> (ch = CHR ''.'' \<and> cs \<noteq> [] \<and> py_isdigit (hd cs)) then
            (case read_number rest lno of
               Inl e \<Rightarrow> Some (Inl e)
             | Inr (v, r') \<Rightarrow> Some (Inr (Token TK_NUMBER v lno, r', lno)))
          else if py_isalpha ch \<or> ch = CHR ''_'' then
            (let word = takeWhile is_word_char rest in
             Some (Inr (Token (case KEYWORDS word of None \<Rightarrow> TK_NAME | Some k \<Rightarrow> k)
                          (VStr word) lno,
                        dropWhile is_word_char rest, lno)))
          else Some (read_symbol ch cs lno))"

text \<open>
  \<^verbatim>\<open>_tokenize\<close>. Every round consumes at least one character; the test on the lengths
  makes that evident, so that the loop is a total function.
\<close>

function tokenize :: "string \<Rightarrow> int \<Rightarrow> token list \<Rightarrow> (exn + token list) option" where
  "tokenize rest lno tokens =
     (case skip_whitespace_and_comments rest lno of
        Inl e \<Rightarrow> Some (Inl e)
      | Inr (r, l) \<Rightarrow>
          if r = [] then Some (Inr (tokens @ [Token TK_EOF VNil l]))
          else
            (case next_token r l of
               None \<Rightarrow> None
             | Some (Inl e) \<Rightarrow> Some (Inl e)
             | Some (Inr (tok, r', l')) \<Rightarrow>
                 if length r' < length rest then tokenize r' l' (tokens @ [tok]) else None))"
  by pat_completeness auto
termination
  by (relation "measure (\<lambda>(rest, lno, tokens). length rest)") auto

declare tokenize.simps [simp del]

text \<open>\<^verbatim>\<open>Lexer(source).tokens\<close>.\<close>

definition Lexer :: "string \<Rightarrow> (exn + token list) option" where
  "Lexer source = tokenize source 1 []"

section \<open>The parser (\<^verbatim>\<open>parser.py\<close>)\<close>

text \<open>
  A parsing method reads the token list at the position \<^verbatim>\<open>self.pos\<close> and returns its
  result with the new position, or raises. \<open>None\<close> means that the fuel (below) did not
  suffice, or that an error message would print a float.
\<close>

type_synonym 'a parser = "token list \<Rightarrow> nat \<Rightarrow> (exn + ('a \<times> nat)) option"

definition p_ok :: "'a \<Rightarrow> 'a parser" where
  "p_ok x toks pos = Some (Inr (x, pos))"

definition p_raise :: "exn \<Rightarrow> 'a parser" where
  "p_raise e toks pos = Some (Inl e)"

definition p_bind :: "'a parser \<Rightarrow> ('a \<Rightarrow> 'b parser) \<Rightarrow> 'b parser" where
  "p_bind m f toks pos =
     (case m toks pos of
        None \<Rightarrow> None
      | Some (Inl e) \<Rightarrow> Some (Inl e)
      | Some (Inr (x, pos')) \<Rightarrow> f x toks pos')"

text \<open>
  \<^verbatim>\<open>_cur\<close> indexes the token list (\<^verbatim>\<open>IndexError\<close> past its end), \<open>advance\<close> is
  \<^verbatim>\<open>self.pos += 1\<close>.
\<close>

definition cur :: "token parser" where
  "cur toks pos = (if pos < length toks then Some (Inr (toks ! pos, pos)) else Some (Inl IndexError))"

definition advance :: "unit parser" where
  "advance toks pos = Some (Inr ((), Suc pos))"

definition peek_kind :: "TK parser" where
  "peek_kind = p_bind cur (\<lambda>tok. p_ok (kind tok))"

definition cur_line :: "int parser" where
  "cur_line = p_bind cur (\<lambda>tok. p_ok (tline tok))"

definition check :: "TK \<Rightarrow> bool parser" where
  "check k = p_bind peek_kind (\<lambda>k'. p_ok (k' = k))"

definition match_tok :: "TK \<Rightarrow> token option parser" where
  "match_tok k =
     p_bind (check k)
       (\<lambda>c. if c then p_bind cur (\<lambda>tok. p_bind advance (\<lambda>u. p_ok (Some tok))) else p_ok None)"

definition error :: "string \<Rightarrow> 'a parser" where
  "error msg = p_bind cur_line (\<lambda>l. p_raise (LuaSyntaxError msg l))"

definition TK_name :: "TK \<Rightarrow> string" where
  "TK_name k =
     (case k of
        TK_NUMBER \<Rightarrow> ''NUMBER'' | TK_STRING \<Rightarrow> ''STRING'' | TK_NAME \<Rightarrow> ''NAME''
      | TK_AND \<Rightarrow> ''AND'' | TK_BREAK \<Rightarrow> ''BREAK'' | TK_DO \<Rightarrow> ''DO'' | TK_ELSE \<Rightarrow> ''ELSE''
      | TK_ELSEIF \<Rightarrow> ''ELSEIF'' | TK_END \<Rightarrow> ''END'' | TK_FALSE \<Rightarrow> ''FALSE''
      | TK_FOR \<Rightarrow> ''FOR'' | TK_FUNCTION \<Rightarrow> ''FUNCTION'' | TK_GOTO \<Rightarrow> ''GOTO''
      | TK_IF \<Rightarrow> ''IF'' | TK_IN \<Rightarrow> ''IN'' | TK_LOCAL \<Rightarrow> ''LOCAL'' | TK_NIL \<Rightarrow> ''NIL''
      | TK_NOT \<Rightarrow> ''NOT'' | TK_OR \<Rightarrow> ''OR'' | TK_REPEAT \<Rightarrow> ''REPEAT''
      | TK_RETURN \<Rightarrow> ''RETURN'' | TK_THEN \<Rightarrow> ''THEN'' | TK_TRUE \<Rightarrow> ''TRUE''
      | TK_UNTIL \<Rightarrow> ''UNTIL'' | TK_WHILE \<Rightarrow> ''WHILE''
      | TK_PLUS \<Rightarrow> ''PLUS'' | TK_MINUS \<Rightarrow> ''MINUS'' | TK_STAR \<Rightarrow> ''STAR''
      | TK_SLASH \<Rightarrow> ''SLASH'' | TK_IDIV \<Rightarrow> ''IDIV'' | TK_PERCENT \<Rightarrow> ''PERCENT''
      | TK_CARET \<Rightarrow> ''CARET'' | TK_HASH \<Rightarrow> ''HASH'' | TK_AMP \<Rightarrow> ''AMP''
      | TK_TILDE \<Rightarrow> ''TILDE'' | TK_PIPE \<Rightarrow> ''PIPE'' | TK_LSHIFT \<Rightarrow> ''LSHIFT''
      | TK_RSHIFT \<Rightarrow> ''RSHIFT'' | TK_EQ \<Rightarrow> ''EQ'' | TK_NEQ \<Rightarrow> ''NEQ'' | TK_LT \<Rightarrow> ''LT''
      | TK_LE \<Rightarrow> ''LE'' | TK_GT \<Rightarrow> ''GT'' | TK_GE \<Rightarrow> ''GE'' | TK_ASSIGN \<Rightarrow> ''ASSIGN''
      | TK_LPAREN \<Rightarrow> ''LPAREN'' | TK_RPAREN \<Rightarrow> ''RPAREN'' | TK_LBRACE \<Rightarrow> ''LBRACE''
      | TK_RBRACE \<Rightarrow> ''RBRACE'' | TK_LBRACKET \<Rightarrow> ''LBRACKET''
      | TK_RBRACKET \<Rightarrow> ''RBRACKET'' | TK_DCOLON \<Rightarrow> ''DCOLON''
      | TK_SEMICOLON \<Rightarrow> ''SEMICOLON'' | TK_COLON \<Rightarrow> ''COLON'' | TK_COMMA \<Rightarrow> ''COMMA''
      | TK_DOT \<Rightarrow> ''DOT'' | TK_DOTDOT \<Rightarrow> ''DOTDOT'' | TK_DOTS \<Rightarrow> ''DOTS''
      | TK_EOF \<Rightarrow> ''EOF'')"

text \<open>An error message that quotes the value of the current token.\<close>

definition error_at_value :: "string \<Rightarrow> 'a parser" where
  "error_at_value prefix =
     p_bind cur
       (\<lambda>tok toks pos.
          case py_str (tvalue tok) of
            None \<Rightarrow> None
          | Some v \<Rightarrow> error (prefix @ quoted v) toks pos)"

definition expect :: "TK \<Rightarrow> string \<Rightarrow> token parser" where
  "expect k msg =
     p_bind (match_tok k)
       (\<lambda>r. case r of
               Some tok \<Rightarrow> p_ok tok
             | None \<Rightarrow>
                 error_at_value (''expected '' @ (if msg \<noteq> [] then msg else quoted (TK_name k)) @
                                 '', got ''))"

definition tok_str :: "token \<Rightarrow> string" where
  "tok_str tok = (case tvalue tok of VStr s \<Rightarrow> s | _ \<Rightarrow> [])"

definition is_block_end :: "bool parser" where
  "is_block_end =
     p_bind peek_kind
       (\<lambda>k. p_ok (k = TK_EOF \<or> k = TK_END \<or> k = TK_ELSE \<or> k = TK_ELSEIF \<or> k = TK_UNTIL))"

text \<open>\<^verbatim>\<open>_skip_semicolons\<close>: \<^verbatim>\<open>while self._match(TK.SEMICOLON): pass\<close>.\<close>

function skip_semicolons :: "unit parser" where
  "skip_semicolons toks pos =
     (if pos < length toks then
        (if kind (toks ! pos) = TK_SEMICOLON then skip_semicolons toks (Suc pos)
         else Some (Inr ((), pos)))
      else Some (Inl IndexError))"
  by pat_completeness auto
termination
  by (relation "measure (\<lambda>(toks, pos). length toks - pos)") auto

declare skip_semicolons.simps [simp del]

text \<open>The tables \<^verbatim>\<open>_BINARY_OPS\<close> (precedence, and whether left associative) and
  \<^verbatim>\<open>_BINOP_NAMES\<close>.\<close>

definition BINARY_OPS :: "TK \<Rightarrow> (int \<times> bool) option" where
  "BINARY_OPS = map_of
     [(TK_OR, (1, True)), (TK_AND, (2, True)),
      (TK_LT, (3, True)), (TK_GT, (3, True)), (TK_LE, (3, True)), (TK_GE, (3, True)),
      (TK_NEQ, (3, True)), (TK_EQ, (3, True)),
      (TK_PIPE, (4, True)), (TK_TILDE, (5, True)), (TK_AMP, (6, True)),
      (TK_LSHIFT, (7, True)), (TK_RSHIFT, (7, True)),
      (TK_DOTDOT, (8, False)),
      (TK_PLUS, (9, True)), (TK_MINUS, (9, True)),
      (TK_STAR, (10, True)), (TK_SLASH, (10, True)), (TK_IDIV, (10, True)),
      (TK_PERCENT, (10, True)),
      (TK_CARET, (12, False))]"

definition BINOP_NAMES :: "TK \<Rightarrow> string" where
  "BINOP_NAMES k =
     (case map_of
        [(TK_PLUS, ''+''), (TK_MINUS, ''-''), (TK_STAR, ''*''), (TK_SLASH, ''/''),
         (TK_IDIV, ''//''), (TK_PERCENT, ''%''), (TK_CARET, ''^''),
         (TK_AMP, ''&''), (TK_TILDE, ''~''), (TK_PIPE, ''|''),
         (TK_LSHIFT, ''<<''), (TK_RSHIFT, ''>>''),
         (TK_EQ, ''==''), (TK_NEQ, ''~=''), (TK_LT, ''<''), (TK_LE, ''<=''),
         (TK_GT, ''>''), (TK_GE, ''>=''),
         (TK_AND, ''and''), (TK_OR, ''or''), (TK_DOTDOT, ''..'')] k of
        Some s \<Rightarrow> s
      | None \<Rightarrow> [])"

text \<open>The methods without recursion.\<close>

definition parse_attrib :: "string option parser" where
  "parse_attrib =
     p_bind (match_tok TK_LT)
       (\<lambda>r. case r of
               Some t \<Rightarrow>
                 p_bind (expect TK_NAME ''attribute name'')
                   (\<lambda>attr. p_bind (expect TK_GT (quoted ''>'')) (\<lambda>g. p_ok (Some (tok_str attr))))
             | None \<Rightarrow> p_ok None)"

definition parse_break :: "stmt parser" where
  "parse_break = p_bind (expect TK_BREAK []) (\<lambda>t. p_ok BreakStatement)"

definition parse_goto :: "stmt parser" where
  "parse_goto =
     p_bind (expect TK_GOTO [])
       (\<lambda>t. p_bind (expect TK_NAME ''label name'') (\<lambda>name. p_ok (GotoStatement (tok_str name))))"

definition parse_label :: "stmt parser" where
  "parse_label =
     p_bind (expect TK_DCOLON [])
       (\<lambda>t. p_bind (expect TK_NAME ''label name'')
          (\<lambda>name. p_bind (expect TK_DCOLON (quoted ''::''))
             (\<lambda>t2. p_ok (LabelStatement (tok_str name)))))"

definition tokens_ahead_is_assign :: "bool parser" where
  "tokens_ahead_is_assign toks pos =
     Some (Inr (pos + 1 < length toks \<and> kind (toks ! (pos + 1)) = TK_ASSIGN, pos))"

definition is_assign_target :: "expr \<Rightarrow> bool" where
  "is_assign_target t =
     (case t of NameRef n \<Rightarrow> True | IndexExpr a b \<Rightarrow> True | FieldExpr a f \<Rightarrow> True | _ \<Rightarrow> False)"

definition is_call_expr :: "expr \<Rightarrow> bool" where
  "is_call_expr t =
     (case t of FunctionCallExpr f a \<Rightarrow> True | MethodCallExpr ob m a \<Rightarrow> True | _ \<Rightarrow> False)"

text \<open>
  The recursive methods, with the record \<open>P\<close> of the methods they call, as for the
  evaluator. The loops of the methods are \<open>block_loop\<close>, \<open>elseif_loop\<close>,
  \<open>name_list_loop\<close>, \<open>funcname_loop\<close>, \<open>local_names_loop\<close>, \<open>targets_loop\<close>,
  \<open>expression_loop\<close>, \<open>suffix_loop\<close>, \<open>params_loop\<close>, \<open>fields_loop\<close> and
  \<open>explist_loop\<close>.
\<close>

record pmethods =
  p_parse_block :: "block parser"
  p_block_loop :: "stmt list \<Rightarrow> stmt list parser"
  p_parse_statement :: "stmt parser"
  p_parse_if :: "stmt parser"
  p_elseif_loop :: "(expr option \<times> block) list \<Rightarrow> (expr option \<times> block) list parser"
  p_parse_while :: "stmt parser"
  p_parse_do :: "stmt parser"
  p_parse_for :: "stmt parser"
  p_name_list_loop :: "string list \<Rightarrow> string list parser"
  p_parse_repeat :: "stmt parser"
  p_parse_function_stat :: "stmt parser"
  p_funcname_loop :: "expr \<Rightarrow> expr parser"
  p_parse_local :: "stmt parser"
  p_local_names_loop :: "string list \<Rightarrow> string option list \<Rightarrow> (string list \<times> string option list) parser"
  p_parse_return :: "stmt parser"
  p_parse_expr_stat :: "stmt parser"
  p_targets_loop :: "expr list \<Rightarrow> expr list parser"
  p_parse_expression :: "int \<Rightarrow> expr parser"
  p_expression_loop :: "int \<Rightarrow> expr \<Rightarrow> expr parser"
  p_parse_unary :: "expr parser"
  p_parse_suffixed_expr :: "expr parser"
  p_suffix_loop :: "expr \<Rightarrow> expr parser"
  p_parse_call_args :: "expr list parser"
  p_parse_primary :: "expr parser"
  p_parse_simple_expr :: "expr parser"
  p_parse_function_expr :: "expr parser"
  p_parse_funcbody :: "bool \<Rightarrow> expr parser"
  p_params_loop :: "string list \<Rightarrow> (string list \<times> bool) parser"
  p_parse_table_constructor :: "expr parser"
  p_fields_loop :: "(expr option \<times> expr) list \<Rightarrow> (expr option \<times> expr) list parser"
  p_parse_expression_list :: "expr list parser"
  p_explist_loop :: "expr list \<Rightarrow> expr list parser"

definition parse_block :: "pmethods \<Rightarrow> block parser" where
  "parse_block P = p_bind (p_block_loop P []) (\<lambda>stmts. p_ok (Block stmts))"

definition block_loop :: "pmethods \<Rightarrow> stmt list \<Rightarrow> stmt list parser" where
  "block_loop P stmts =
     p_bind skip_semicolons
       (\<lambda>u. p_bind is_block_end
          (\<lambda>e. if e then p_ok stmts
                else p_bind (p_parse_statement P) (\<lambda>st. p_block_loop P (stmts @ [st]))))"

definition parse_statement :: "pmethods \<Rightarrow> stmt parser" where
  "parse_statement P =
     p_bind peek_kind
       (\<lambda>k. if k = TK_IF then p_parse_if P
             else if k = TK_WHILE then p_parse_while P
             else if k = TK_DO then p_parse_do P
             else if k = TK_FOR then p_parse_for P
             else if k = TK_REPEAT then p_parse_repeat P
             else if k = TK_FUNCTION then p_parse_function_stat P
             else if k = TK_LOCAL then p_parse_local P
             else if k = TK_RETURN then p_parse_return P
             else if k = TK_BREAK then parse_break
             else if k = TK_GOTO then parse_goto
             else if k = TK_DCOLON then parse_label
             else p_parse_expr_stat P)"

definition parse_if :: "pmethods \<Rightarrow> stmt parser" where
  "parse_if P =
     p_bind (expect TK_IF [])
       (\<lambda>t. p_bind (p_parse_expression P 0)
          (\<lambda>cond. p_bind (expect TK_THEN (quoted ''then''))
             (\<lambda>t2. p_bind (p_parse_block P)
                (\<lambda>blk. p_bind (p_elseif_loop P [(Some cond, blk)])
                   (\<lambda>clauses. p_bind (match_tok TK_ELSE)
                      (\<lambda>e. p_bind (case e of
                                     Some t3 \<Rightarrow>
                                       p_bind (p_parse_block P)
                                         (\<lambda>b. p_ok (clauses @ [(None, b)]))
                                   | None \<Rightarrow> p_ok clauses)
                         (\<lambda>clauses'. p_bind (expect TK_END (quoted ''end''))
                            (\<lambda>t4. p_ok (IfStatement clauses')))))))))"

definition elseif_loop ::
  "pmethods \<Rightarrow> (expr option \<times> block) list \<Rightarrow> (expr option \<times> block) list parser" where
  "elseif_loop P clauses =
     p_bind (match_tok TK_ELSEIF)
       (\<lambda>r. case r of
               None \<Rightarrow> p_ok clauses
             | Some t \<Rightarrow>
                 p_bind (p_parse_expression P 0)
                   (\<lambda>cond. p_bind (expect TK_THEN (quoted ''then''))
                      (\<lambda>t2. p_bind (p_parse_block P)
                         (\<lambda>blk. p_elseif_loop P (clauses @ [(Some cond, blk)])))))"

definition parse_while :: "pmethods \<Rightarrow> stmt parser" where
  "parse_while P =
     p_bind (expect TK_WHILE [])
       (\<lambda>t. p_bind (p_parse_expression P 0)
          (\<lambda>cond. p_bind (expect TK_DO (quoted ''do''))
             (\<lambda>t2. p_bind (p_parse_block P)
                (\<lambda>blk. p_bind (expect TK_END (quoted ''end''))
                   (\<lambda>t3. p_ok (WhileLoop cond blk))))))"

definition parse_do :: "pmethods \<Rightarrow> stmt parser" where
  "parse_do P =
     p_bind (expect TK_DO [])
       (\<lambda>t. p_bind (p_parse_block P)
          (\<lambda>blk. p_bind (expect TK_END (quoted ''end'')) (\<lambda>t2. p_ok (DoBlock blk))))"

definition parse_for :: "pmethods \<Rightarrow> stmt parser" where
  "parse_for P =
     p_bind (expect TK_FOR [])
       (\<lambda>t. p_bind (expect TK_NAME ''variable name'')
          (\<lambda>name_tok. p_bind (match_tok TK_ASSIGN)
             (\<lambda>a. case a of
                     Some t2 \<Rightarrow>
                       p_bind (p_parse_expression P 0)
                         (\<lambda>start. p_bind (expect TK_COMMA (quoted '',''))
                            (\<lambda>t3. p_bind (p_parse_expression P 0)
                               (\<lambda>stop. p_bind (match_tok TK_COMMA)
                                  (\<lambda>c. p_bind (case c of
                                                 Some t4 \<Rightarrow>
                                                   p_bind (p_parse_expression P 0)
                                                     (\<lambda>e. p_ok (Some e))
                                               | None \<Rightarrow> p_ok None)
                                     (\<lambda>step. p_bind (expect TK_DO (quoted ''do''))
                                        (\<lambda>t5. p_bind (p_parse_block P)
                                           (\<lambda>blk. p_bind (expect TK_END (quoted ''end''))
                                              (\<lambda>t6. p_ok (NumericFor (tok_str name_tok)
                                                             start stop step blk)))))))))
                   | None \<Rightarrow>
                       p_bind (p_name_list_loop P [tok_str name_tok])
                         (\<lambda>names. p_bind (expect TK_IN (quoted ''in''))
                            (\<lambda>t3. p_bind (p_parse_expression_list P)
                               (\<lambda>iters. p_bind (expect TK_DO (quoted ''do''))
                                  (\<lambda>t4. p_bind (p_parse_block P)
                                     (\<lambda>blk. p_bind (expect TK_END (quoted ''end''))
                                        (\<lambda>t5. p_ok (GenericFor names iters blk))))))))))"

definition name_list_loop :: "pmethods \<Rightarrow> string list \<Rightarrow> string list parser" where
  "name_list_loop P names =
     p_bind (match_tok TK_COMMA)
       (\<lambda>r. case r of
               None \<Rightarrow> p_ok names
             | Some t \<Rightarrow>
                 p_bind (expect TK_NAME ''variable name'')
                   (\<lambda>n. p_name_list_loop P (names @ [tok_str n])))"

definition parse_repeat :: "pmethods \<Rightarrow> stmt parser" where
  "parse_repeat P =
     p_bind (expect TK_REPEAT [])
       (\<lambda>t. p_bind (p_parse_block P)
          (\<lambda>blk. p_bind (expect TK_UNTIL (quoted ''until''))
             (\<lambda>t2. p_bind (p_parse_expression P 0) (\<lambda>cond. p_ok (RepeatLoop blk cond)))))"

definition parse_function_stat :: "pmethods \<Rightarrow> stmt parser" where
  "parse_function_stat P =
     p_bind (expect TK_FUNCTION [])
       (\<lambda>t. p_bind (expect TK_NAME ''function name'')
          (\<lambda>name_tok. p_bind (p_funcname_loop P (NameRef (tok_str name_tok)))
             (\<lambda>target. p_bind (match_tok TK_COLON)
                (\<lambda>c. p_bind (case c of
                               Some t2 \<Rightarrow>
                                 p_bind (expect TK_NAME ''method name'')
                                   (\<lambda>m. p_ok (FieldExpr target (tok_str m), True))
                             | None \<Rightarrow> p_ok (target, False))
                   (\<lambda>(target', is_method).
                      p_bind (p_parse_funcbody P is_method)
                        (\<lambda>func_body. p_ok (AssignStatement [target'] [func_body])))))))"

definition funcname_loop :: "pmethods \<Rightarrow> expr \<Rightarrow> expr parser" where
  "funcname_loop P target =
     p_bind (match_tok TK_DOT)
       (\<lambda>r. case r of
               None \<Rightarrow> p_ok target
             | Some t \<Rightarrow>
                 p_bind (expect TK_NAME ''field name'')
                   (\<lambda>field. p_funcname_loop P (FieldExpr target (tok_str field))))"

definition parse_local :: "pmethods \<Rightarrow> stmt parser" where
  "parse_local P =
     p_bind (expect TK_LOCAL [])
       (\<lambda>t. p_bind (match_tok TK_FUNCTION)
          (\<lambda>f. case f of
                  Some t2 \<Rightarrow>
                    p_bind (expect TK_NAME ''function name'')
                      (\<lambda>name. p_bind (p_parse_funcbody P False)
                         (\<lambda>func_body. p_ok (LocalStatement [tok_str name] [None] [func_body])))
                | None \<Rightarrow>
                    p_bind (expect TK_NAME ''variable name'')
                      (\<lambda>name. p_bind parse_attrib
                         (\<lambda>attr. p_bind (p_local_names_loop P [tok_str name] [attr])
                            (\<lambda>(names, attribs).
                               p_bind (match_tok TK_ASSIGN)
                                 (\<lambda>a. p_bind (case a of
                                                Some t3 \<Rightarrow> p_parse_expression_list P
                                              | None \<Rightarrow> p_ok [])
                                    (\<lambda>values. p_ok (LocalStatement names attribs values))))))))"

definition local_names_loop ::
  "pmethods \<Rightarrow> string list \<Rightarrow> string option list \<Rightarrow> (string list \<times> string option list) parser" where
  "local_names_loop P names attribs =
     p_bind (match_tok TK_COMMA)
       (\<lambda>r. case r of
               None \<Rightarrow> p_ok (names, attribs)
             | Some t \<Rightarrow>
                 p_bind (expect TK_NAME ''variable name'')
                   (\<lambda>n. p_bind parse_attrib
                      (\<lambda>attr. p_local_names_loop P (names @ [tok_str n]) (attribs @ [attr]))))"

definition parse_return :: "pmethods \<Rightarrow> stmt parser" where
  "parse_return P =
     p_bind (expect TK_RETURN [])
       (\<lambda>t. p_bind is_block_end
          (\<lambda>e. p_bind (check TK_SEMICOLON)
             (\<lambda>sc. p_bind (if \<not> e \<and> \<not> sc then p_parse_expression_list P else p_ok [])
                (\<lambda>values. p_bind (match_tok TK_SEMICOLON)
                   (\<lambda>m. p_ok (ReturnStatement values))))))"

definition parse_expr_stat :: "pmethods \<Rightarrow> stmt parser" where
  "parse_expr_stat P =
     p_bind (p_parse_suffixed_expr P)
       (\<lambda>e. p_bind (check TK_COMMA)
          (\<lambda>c. p_bind (check TK_ASSIGN)
             (\<lambda>a. if c \<or> a then
                     p_bind (p_targets_loop P [e])
                       (\<lambda>targets. p_bind (expect TK_ASSIGN (quoted ''=''))
                          (\<lambda>t. p_bind (p_parse_expression_list P)
                             (\<lambda>values. if \<not> list_all is_assign_target targets
                                        then error ''invalid assignment target''
                                        else p_ok (AssignStatement targets values))))
                   else if is_call_expr e then p_ok (FunctionCallStatement e)
                   else error ''unexpected expression statement'')))"

definition targets_loop :: "pmethods \<Rightarrow> expr list \<Rightarrow> expr list parser" where
  "targets_loop P targets =
     p_bind (match_tok TK_COMMA)
       (\<lambda>r. case r of
               None \<Rightarrow> p_ok targets
             | Some t \<Rightarrow>
                 p_bind (p_parse_suffixed_expr P) (\<lambda>e. p_targets_loop P (targets @ [e])))"

definition parse_expression :: "pmethods \<Rightarrow> int \<Rightarrow> expr parser" where
  "parse_expression P min_prec =
     p_bind (p_parse_unary P) (\<lambda>left. p_expression_loop P min_prec left)"

definition expression_loop :: "pmethods \<Rightarrow> int \<Rightarrow> expr \<Rightarrow> expr parser" where
  "expression_loop P min_prec left =
     p_bind peek_kind
       (\<lambda>k. case BINARY_OPS k of
               None \<Rightarrow> p_ok left
             | Some (prec, left_assoc) \<Rightarrow>
                 if prec < min_prec then p_ok left
                 else
                   p_bind advance
                     (\<lambda>u. p_bind (p_parse_expression P (if left_assoc then prec + 1 else prec))
                        (\<lambda>right. p_expression_loop P min_prec
                                    (BinOp (BINOP_NAMES k) left right))))"

definition parse_unary :: "pmethods \<Rightarrow> expr parser" where
  "parse_unary P =
     p_bind peek_kind
       (\<lambda>k. if k = TK_NOT then
               p_bind advance
                 (\<lambda>u. p_bind (p_parse_expression P 11) (\<lambda>e. p_ok (UnaryOp ''not'' e)))
             else if k = TK_HASH then
               p_bind advance
                 (\<lambda>u. p_bind (p_parse_expression P 11) (\<lambda>e. p_ok (UnaryOp ''#'' e)))
             else if k = TK_MINUS then
               p_bind advance
                 (\<lambda>u. p_bind (p_parse_expression P 11) (\<lambda>e. p_ok (UnaryOp ''-'' e)))
             else if k = TK_TILDE then
               p_bind advance
                 (\<lambda>u. p_bind (p_parse_expression P 11) (\<lambda>e. p_ok (UnaryOp ''~'' e)))
             else p_parse_suffixed_expr P)"

definition parse_suffixed_expr :: "pmethods \<Rightarrow> expr parser" where
  "parse_suffixed_expr P = p_bind (p_parse_primary P) (\<lambda>e. p_suffix_loop P e)"

definition suffix_loop :: "pmethods \<Rightarrow> expr \<Rightarrow> expr parser" where
  "suffix_loop P e =
     p_bind peek_kind
       (\<lambda>k. if k = TK_DOT then
               p_bind advance
                 (\<lambda>u. p_bind (expect TK_NAME ''field name'')
                    (\<lambda>field. p_suffix_loop P (FieldExpr e (tok_str field))))
             else if k = TK_LBRACKET then
               p_bind advance
                 (\<lambda>u. p_bind (p_parse_expression P 0)
                    (\<lambda>key. p_bind (expect TK_RBRACKET (quoted '']''))
                       (\<lambda>t. p_suffix_loop P (IndexExpr e key))))
             else if k = TK_COLON then
               p_bind advance
                 (\<lambda>u. p_bind (expect TK_NAME ''method name'')
                    (\<lambda>m. p_bind (p_parse_call_args P)
                       (\<lambda>args. p_suffix_loop P (MethodCallExpr e (tok_str m) args))))
             else if k = TK_LPAREN \<or> k = TK_LBRACE \<or> k = TK_STRING then
               p_bind (p_parse_call_args P) (\<lambda>args. p_suffix_loop P (FunctionCallExpr e args))
             else p_ok e)"

definition parse_call_args :: "pmethods \<Rightarrow> expr list parser" where
  "parse_call_args P =
     p_bind (match_tok TK_LPAREN)
       (\<lambda>l. case l of
               Some t \<Rightarrow>
                 p_bind (check TK_RPAREN)
                   (\<lambda>c. p_bind (if \<not> c then p_parse_expression_list P else p_ok [])
                      (\<lambda>args. p_bind (expect TK_RPAREN (quoted '')'')) (\<lambda>t2. p_ok args)))
             | None \<Rightarrow>
                 p_bind (check TK_LBRACE)
                   (\<lambda>b. if b then p_bind (p_parse_table_constructor P) (\<lambda>tc. p_ok [tc])
                         else
                           p_bind (check TK_STRING)
                             (\<lambda>s. if s then
                                     p_bind cur
                                       (\<lambda>tok. p_bind advance
                                          (\<lambda>u. p_ok [StringLiteral (tok_str tok)]))
                                   else error ''function arguments expected'')))"

text \<open>
  \<^verbatim>\<open>_parse_primary\<close>: for a parenthesised expression the method returns the inner
  expression itself; the syntax tree has no node for the parentheses.
\<close>

definition parse_primary :: "pmethods \<Rightarrow> expr parser" where
  "parse_primary P =
     p_bind peek_kind
       (\<lambda>k. if k = TK_NAME then
               p_bind cur (\<lambda>tok. p_bind advance (\<lambda>u. p_ok (NameRef (tok_str tok))))
             else if k = TK_LPAREN then
               p_bind advance
                 (\<lambda>u. p_bind (p_parse_expression P 0)
                    (\<lambda>e. p_bind (expect TK_RPAREN (quoted '')'')) (\<lambda>t. p_ok e)))
             else p_parse_simple_expr P)"

definition parse_simple_expr :: "pmethods \<Rightarrow> expr parser" where
  "parse_simple_expr P =
     p_bind peek_kind
       (\<lambda>k. p_bind cur
          (\<lambda>tok. if k = TK_NUMBER then p_bind advance (\<lambda>u. p_ok (NumberLiteral (tvalue tok)))
                  else if k = TK_STRING then
                    p_bind advance (\<lambda>u. p_ok (StringLiteral (tok_str tok)))
                  else if k = TK_NIL then p_bind advance (\<lambda>u. p_ok NilLiteral)
                  else if k = TK_TRUE then p_bind advance (\<lambda>u. p_ok TrueLiteral)
                  else if k = TK_FALSE then p_bind advance (\<lambda>u. p_ok FalseLiteral)
                  else if k = TK_DOTS then p_bind advance (\<lambda>u. p_ok VarArg)
                  else if k = TK_FUNCTION then p_parse_function_expr P
                  else if k = TK_LBRACE then p_parse_table_constructor P
                  else error_at_value ''unexpected symbol ''))"

definition parse_function_expr :: "pmethods \<Rightarrow> expr parser" where
  "parse_function_expr P = p_bind (expect TK_FUNCTION []) (\<lambda>t. p_parse_funcbody P False)"

definition parse_funcbody :: "pmethods \<Rightarrow> bool \<Rightarrow> expr parser" where
  "parse_funcbody P is_method =
     p_bind (expect TK_LPAREN (quoted ''(''))
       (\<lambda>t. p_bind (check TK_RPAREN)
          (\<lambda>c. p_bind
                  (if \<not> c then
                     p_bind (check TK_DOTS)
                       (\<lambda>d. if d then
                               p_bind advance
                                 (\<lambda>u. p_ok (if is_method then [''self''] else [], True))
                             else
                               p_bind (expect TK_NAME ''parameter name'')
                                 (\<lambda>n. p_params_loop P
                                        ((if is_method then [''self''] else []) @ [tok_str n])))
                   else p_ok (if is_method then [''self''] else [], False))
                  (\<lambda>(ps, va).
                     p_bind (expect TK_RPAREN (quoted '')''))
                       (\<lambda>t2. p_bind (p_parse_block P)
                          (\<lambda>blk. p_bind (expect TK_END (quoted ''end''))
                             (\<lambda>t3. p_ok (FunctionBody ps va blk)))))))"

definition params_loop :: "pmethods \<Rightarrow> string list \<Rightarrow> (string list \<times> bool) parser" where
  "params_loop P ps =
     p_bind (match_tok TK_COMMA)
       (\<lambda>r. case r of
               None \<Rightarrow> p_ok (ps, False)
             | Some t \<Rightarrow>
                 p_bind (check TK_DOTS)
                   (\<lambda>d. if d then p_bind advance (\<lambda>u. p_ok (ps, True))
                         else
                           p_bind (expect TK_NAME ''parameter name'')
                             (\<lambda>n. p_params_loop P (ps @ [tok_str n]))))"

definition parse_table_constructor :: "pmethods \<Rightarrow> expr parser" where
  "parse_table_constructor P =
     p_bind (expect TK_LBRACE (quoted ''{''))
       (\<lambda>t. p_bind (p_fields_loop P [])
          (\<lambda>flds. p_bind (expect TK_RBRACE (quoted ''}'')) (\<lambda>t2. p_ok (TableConstructor flds))))"

definition fields_loop ::
  "pmethods \<Rightarrow> (expr option \<times> expr) list \<Rightarrow> (expr option \<times> expr) list parser" where
  "fields_loop P flds =
     p_bind (check TK_RBRACE)
       (\<lambda>e. if e then p_ok flds
             else
               p_bind (check TK_LBRACKET)
                 (\<lambda>b. p_bind
                         (if b then
                            p_bind advance
                              (\<lambda>u. p_bind (p_parse_expression P 0)
                                 (\<lambda>key. p_bind (expect TK_RBRACKET (quoted '']''))
                                    (\<lambda>t. p_bind (expect TK_ASSIGN (quoted ''=''))
                                       (\<lambda>t2. p_bind (p_parse_expression P 0)
                                          (\<lambda>v. p_ok (Some key, v))))))
                          else
                            p_bind (check TK_NAME)
                              (\<lambda>n. p_bind tokens_ahead_is_assign
                                 (\<lambda>a. if n \<and> a then
                                         p_bind cur
                                           (\<lambda>name_tok. p_bind advance
                                              (\<lambda>u. p_bind (expect TK_ASSIGN (quoted ''=''))
                                                 (\<lambda>t. p_bind (p_parse_expression P 0)
                                                    (\<lambda>v. p_ok (Some (StringLiteral
                                                                    (tok_str name_tok)), v)))))
                                       else
                                         p_bind (p_parse_expression P 0)
                                           (\<lambda>v. p_ok (None, v)))))
                         (\<lambda>fld. p_bind (match_tok TK_COMMA)
                            (\<lambda>c. case c of
                                    Some t \<Rightarrow> p_fields_loop P (flds @ [fld])
                                  | None \<Rightarrow>
                                      p_bind (match_tok TK_SEMICOLON)
                                        (\<lambda>sc. case sc of
                                                 Some t \<Rightarrow> p_fields_loop P (flds @ [fld])
                                               | None \<Rightarrow> p_ok (flds @ [fld]))))))"

definition parse_expression_list :: "pmethods \<Rightarrow> expr list parser" where
  "parse_expression_list P = p_bind (p_parse_expression P 0) (\<lambda>e. p_explist_loop P [e])"

definition explist_loop :: "pmethods \<Rightarrow> expr list \<Rightarrow> expr list parser" where
  "explist_loop P exprs =
     p_bind (match_tok TK_COMMA)
       (\<lambda>r. case r of
               None \<Rightarrow> p_ok exprs
             | Some t \<Rightarrow>
                 p_bind (p_parse_expression P 0) (\<lambda>e. p_explist_loop P (exprs @ [e])))"

text \<open>The methods at each fuel, and \<^verbatim>\<open>Parser(source).parse()\<close>.\<close>

definition no_pmethods :: pmethods where
  "no_pmethods =
     \<lparr> p_parse_block = (\<lambda>x1 x2. None),
       p_block_loop = (\<lambda>x1 x2 x3. None),
       p_parse_statement = (\<lambda>x1 x2. None),
       p_parse_if = (\<lambda>x1 x2. None),
       p_elseif_loop = (\<lambda>x1 x2 x3. None),
       p_parse_while = (\<lambda>x1 x2. None),
       p_parse_do = (\<lambda>x1 x2. None),
       p_parse_for = (\<lambda>x1 x2. None),
       p_name_list_loop = (\<lambda>x1 x2 x3. None),
       p_parse_repeat = (\<lambda>x1 x2. None),
       p_parse_function_stat = (\<lambda>x1 x2. None),
       p_funcname_loop = (\<lambda>x1 x2 x3. None),
       p_parse_local = (\<lambda>x1 x2. None),
       p_local_names_loop = (\<lambda>x1 x2 x3 x4. None),
       p_parse_return = (\<lambda>x1 x2. None),
       p_parse_expr_stat = (\<lambda>x1 x2. None),
       p_targets_loop = (\<lambda>x1 x2 x3. None),
       p_parse_expression = (\<lambda>x1 x2 x3. None),
       p_expression_loop = (\<lambda>x1 x2 x3 x4. None),
       p_parse_unary = (\<lambda>x1 x2. None),
       p_parse_suffixed_expr = (\<lambda>x1 x2. None),
       p_suffix_loop = (\<lambda>x1 x2 x3. None),
       p_parse_call_args = (\<lambda>x1 x2. None),
       p_parse_primary = (\<lambda>x1 x2. None),
       p_parse_simple_expr = (\<lambda>x1 x2. None),
       p_parse_function_expr = (\<lambda>x1 x2. None),
       p_parse_funcbody = (\<lambda>x1 x2 x3. None),
       p_params_loop = (\<lambda>x1 x2 x3. None),
       p_parse_table_constructor = (\<lambda>x1 x2. None),
       p_fields_loop = (\<lambda>x1 x2 x3. None),
       p_parse_expression_list = (\<lambda>x1 x2. None),
       p_explist_loop = (\<lambda>x1 x2 x3. None) \<rparr>"

definition pmethods_step :: "pmethods \<Rightarrow> pmethods" where
  "pmethods_step M =
     \<lparr> p_parse_block = parse_block M,
       p_block_loop = block_loop M,
       p_parse_statement = parse_statement M,
       p_parse_if = parse_if M,
       p_elseif_loop = elseif_loop M,
       p_parse_while = parse_while M,
       p_parse_do = parse_do M,
       p_parse_for = parse_for M,
       p_name_list_loop = name_list_loop M,
       p_parse_repeat = parse_repeat M,
       p_parse_function_stat = parse_function_stat M,
       p_funcname_loop = funcname_loop M,
       p_parse_local = parse_local M,
       p_local_names_loop = local_names_loop M,
       p_parse_return = parse_return M,
       p_parse_expr_stat = parse_expr_stat M,
       p_targets_loop = targets_loop M,
       p_parse_expression = parse_expression M,
       p_expression_loop = expression_loop M,
       p_parse_unary = parse_unary M,
       p_parse_suffixed_expr = parse_suffixed_expr M,
       p_suffix_loop = suffix_loop M,
       p_parse_call_args = parse_call_args M,
       p_parse_primary = parse_primary M,
       p_parse_simple_expr = parse_simple_expr M,
       p_parse_function_expr = parse_function_expr M,
       p_parse_funcbody = parse_funcbody M,
       p_params_loop = params_loop M,
       p_parse_table_constructor = parse_table_constructor M,
       p_fields_loop = fields_loop M,
       p_parse_expression_list = parse_expression_list M,
       p_explist_loop = explist_loop M \<rparr>"

primrec pmethods_at :: "nat \<Rightarrow> pmethods" where
  "pmethods_at 0 = no_pmethods"
| "pmethods_at (Suc n) = pmethods_step (pmethods_at n)"

definition parse :: "nat \<Rightarrow> block parser" where
  "parse n =
     p_bind (p_parse_block (pmethods_at n))
       (\<lambda>blk. p_bind (expect TK_EOF ''end of input'') (\<lambda>t. p_ok blk))"

text \<open>
  \<^verbatim>\<open>Parser(source).parse()\<close>: the constructor runs the lexer, \<^verbatim>\<open>parse\<close> starts at
  position 0.
\<close>

definition Parser_parse :: "nat \<Rightarrow> string \<Rightarrow> (exn + block) option" where
  "Parser_parse n source =
     (case Lexer source of
        None \<Rightarrow> None
      | Some (Inl e) \<Rightarrow> Some (Inl e)
      | Some (Inr toks) \<Rightarrow>
          (case parse n toks 0 of
             None \<Rightarrow> None
           | Some (Inl e) \<Rightarrow> Some (Inl e)
           | Some (Inr (blk, pos)) \<Rightarrow> Some (Inr blk)))"

section \<open>The standard library and the session (\<^verbatim>\<open>stdlib.py\<close>, \<^verbatim>\<open>session.py\<close>)\<close>

text \<open>
  \<^verbatim>\<open>Interpreter.__init__\<close> with a fresh globals table. The store is empty but for that
  table, at address 0.
\<close>

definition Interpreter_init :: "int \<Rightarrow> int \<Rightarrow> int \<Rightarrow> interp" where
  "Interpreter_init max_instr max_depth max_out =
     \<lparr> tables = (\<lambda>a. LuaTable_init),
       envs = (\<lambda>a. \<lparr>vars = Map.empty, varargs = None, parent = None\<rparr>),
       lfunctions = (\<lambda>a. \<lparr>params = [], has_varargs = False, body = Block [], closure = 0\<rparr>),
       bfunctions = (\<lambda>a. ([], Bother)),
       counters = (\<lambda>a. 0),
       next_addr = 1,
       globals = 0,
       call_depth = 0,
       max_call_depth = max_depth,
       max_instructions = max_instr,
       max_output_bytes = max_out,
       instructions = 0,
       output_buf = [],
       output_bytes = 0 \<rparr>"

text \<open>
  \<^verbatim>\<open>Interpreter.execute\<close>: \<^verbatim>\<open>env = env or Environment()\<close>, then the block is run with
  the methods \<open>M\<close>.
\<close>

definition execute :: "methods \<Rightarrow> block \<Rightarrow> nat option \<Rightarrow> interp \<Rightarrow> unit outcome" where
  "execute M blk env s =
     (case env of
        Some e \<Rightarrow> exec_block M blk e s
      | None \<Rightarrow> (case new_env None s of (e, s1) \<Rightarrow> exec_block M blk e s1))"

text \<open>
  \<^verbatim>\<open>install_stdlib\<close>. \<open>bf\<close> is \<^verbatim>\<open>_bf\<close>; \<open>lib_set\<close> is
  \<^verbatim>\<open>lib.rawset(key, BuiltinFunction(name, fn))\<close>; the functions that are not modelled
  are registered as \<open>Bother\<close>.
\<close>

definition bf :: "string \<Rightarrow> builtin \<Rightarrow> interp \<Rightarrow> unit outcome" where
  "bf name fn s =
     (case new_builtin name fn s of (b, s1) \<Rightarrow> tbl_rawset (globals s1) (VStr name) (VBuiltin b) s1)"

definition lib_set :: "nat \<Rightarrow> string \<Rightarrow> string \<Rightarrow> builtin \<Rightarrow> interp \<Rightarrow> unit outcome" where
  "lib_set lib key name fn s =
     (case new_builtin name fn s of (b, s1) \<Rightarrow> tbl_rawset lib (VStr key) (VBuiltin b) s1)"

fun bf_all :: "(string \<times> builtin) list \<Rightarrow> interp \<Rightarrow> unit outcome" where
  "bf_all [] s = ok () s"
| "bf_all ((name, fn) # rest) s = bind (bf name fn s) (\<lambda>u s1. bf_all rest s1)"

fun lib_set_all :: "nat \<Rightarrow> string \<Rightarrow> (string \<times> builtin) list \<Rightarrow> interp \<Rightarrow> unit outcome" where
  "lib_set_all lib prefix [] s = ok () s"
| "lib_set_all lib prefix ((key, fn) # rest) s =
     bind (lib_set lib key (prefix @ key) fn s) (\<lambda>u s1. lib_set_all lib prefix rest s1)"

definition basic_functions :: "(string \<times> builtin) list" where
  "basic_functions =
     [(''print'', Bprint), (''type'', Btype), (''tostring'', Btostring), (''tonumber'', Bother),
      (''assert'', Bassert), (''error'', Berror), (''pcall'', Bpcall), (''xpcall'', Bother),
      (''ipairs'', Bipairs), (''pairs'', Bother), (''next'', Bother), (''select'', Bselect),
      (''rawget'', Brawget), (''rawset'', Brawset), (''rawlen'', Brawlen),
      (''rawequal'', Brawequal), (''setmetatable'', Bsetmetatable),
      (''getmetatable'', Bgetmetatable), (''unpack'', Bunpack)]"

definition table_functions :: "(string \<times> builtin) list" where
  "table_functions =
     [(''insert'', Btbl_insert), (''remove'', Bother), (''sort'', Bother), (''concat'', Bother),
      (''move'', Bother), (''unpack'', Btbl_unpack), (''pack'', Btbl_pack)]"

definition string_functions :: "(string \<times> builtin) list" where
  "string_functions =
     map (\<lambda>k. (k, Bother))
       [''byte'', ''char'', ''len'', ''sub'', ''rep'', ''reverse'', ''upper'', ''lower'',
        ''find'', ''match'', ''gmatch'', ''gsub'', ''format'']"

definition math_functions :: "(string \<times> builtin) list" where
  "math_functions =
     map (\<lambda>k. (k, Bother))
       [''abs'', ''ceil'', ''floor'', ''sqrt'', ''sin'', ''cos'', ''tan'', ''asin'', ''acos'',
        ''exp'', ''log'', ''atan'', ''random'', ''randomseed'', ''max'', ''min'',
        ''tointeger'', ''type'']"

definition os_functions :: "(string \<times> builtin) list" where
  "os_functions = map (\<lambda>k. (k, Bother)) [''clock'', ''time'', ''difftime'']"

definition math_pi :: pyfloat where
  "math_pi = FFin (884279719003555 / 281474976710656)"

definition install_stdlib :: "interp \<Rightarrow> unit outcome" where
  "install_stdlib s0 =
     (let g = globals s0 in
      bind (bf_all basic_functions s0)
        (\<lambda>u s1.
           case new_table s1 of
             (table_lib, s2) \<Rightarrow>
               bind (lib_set_all table_lib ''table.'' table_functions s2)
                 (\<lambda>u s3.
                    bind (tbl_rawset g (VStr ''table'') (VTable table_lib) s3)
                      (\<lambda>u s4.
                         case new_table s4 of
                           (string_lib, s5) \<Rightarrow>
     bind (lib_set_all string_lib ''string.'' string_functions s5)
       (\<lambda>u s6.
          bind (tbl_rawset g (VStr ''string'') (VTable string_lib) s6)
            (\<lambda>u s7.
               case new_table s7 of
                 (string_mt, s8) \<Rightarrow>
                   bind (tbl_rawset string_mt (VStr ''__index'') (VTable string_lib) s8)
                     (\<lambda>u s9.
                        bind (tbl_rawset g (VStr ''__string_mt'') (VTable string_mt) s9)
                          (\<lambda>u s10.
                             case new_table s10 of
                               (math_lib, s11) \<Rightarrow>
     bind (lib_set_all math_lib ''math.'' math_functions s11)
       (\<lambda>u s12.
          bind (tbl_rawset math_lib (VStr ''pi'') (VFloat math_pi) s12)
            (\<lambda>u s13.
               bind (tbl_rawset math_lib (VStr ''huge'') (VFloat (FInf True)) s13)
                 (\<lambda>u s14.
                    bind (tbl_rawset math_lib (VStr ''maxinteger'') (VInt (2 ^ 63 - 1)) s14)
                      (\<lambda>u s15.
                         bind (tbl_rawset math_lib (VStr ''mininteger'') (VInt (- (2 ^ 63))) s15)
                           (\<lambda>u s16.
                              bind (tbl_rawset g (VStr ''math'') (VTable math_lib) s16)
                                (\<lambda>u s17.
                                   case new_table s17 of
                                     (os_lib, s18) \<Rightarrow>
     bind (lib_set_all os_lib ''os.'' os_functions s18)
       (\<lambda>u s19.
          bind (tbl_rawset g (VStr ''os'') (VTable os_lib) s19)
            (\<lambda>u s20. tbl_rawset g (VStr ''_VERSION'') (VStr ''Lua 5.5'') s20))))))))))))))))"

text \<open>
  \<^verbatim>\<open>LuaSession\<close>: the interpreter and the session's environment \<^verbatim>\<open>_env\<close>.
\<close>

record session =
  interpreter :: interp
  session_env :: nat

definition LuaSession :: "int \<Rightarrow> int \<Rightarrow> int \<Rightarrow> ((exn + session)) option" where
  "LuaSession max_instr max_depth max_out =
     (case install_stdlib (Interpreter_init max_instr max_depth max_out) of
        None \<Rightarrow> None
      | Some (Inl e, s) \<Rightarrow> Some (Inl e)
      | Some (Inr u, s) \<Rightarrow>
          (case new_env None s of
             (e, s1) \<Rightarrow> Some (Inr \<lparr>interpreter = s1, session_env = e\<rparr>)))"



text \<open>
  \<^verbatim>\<open>LuaSession._eval_with_return\<close>: the block runs in a new environment under the
  session's one, and the values of a \<^verbatim>\<open>return\<close> that reaches the top are the result.
\<close>

definition eval_with_return ::
  "nat \<Rightarrow> nat \<Rightarrow> session \<Rightarrow> string \<Rightarrow> ((exn + lval list) \<times> session) option" where
  "eval_with_return pn n sess code =
     (let s0 = (interpreter sess)\<lparr>instructions := 0\<rparr> in
      case Parser_parse pn code of
        None \<Rightarrow> None
      | Some (Inl e) \<Rightarrow> Some (Inl e, sess\<lparr>interpreter := s0\<rparr>)
      | Some (Inr blk) \<Rightarrow>
          (case new_env (Some (session_env sess)) s0 of
             (env, s1) \<Rightarrow>
               (case execute (methods_at n) blk (Some env) s1 of
                  None \<Rightarrow> None
                | Some (Inl e, s2) \<Rightarrow>
                    (case e of
                       ReturnSignal vals \<Rightarrow> Some (Inr vals, sess\<lparr>interpreter := s2\<rparr>)
                     | _ \<Rightarrow> Some (Inl e, sess\<lparr>interpreter := s2\<rparr>))
                | Some (Inr u, s2) \<Rightarrow> Some (Inr [], sess\<lparr>interpreter := s2\<rparr>))))"

text \<open>
  \<^verbatim>\<open>LuaSession.eval\<close>: the first value of \<^verbatim>\<open>return <expression>\<close> as a Python value.
  \<^verbatim>\<open>_to_python\<close> leaves nil, booleans, numbers and strings as they are; the conversion
  of a table or a function is outside the model.
\<close>

definition to_python :: "lval \<Rightarrow> lval option" where
  "to_python v =
     (case v of
        VTable a \<Rightarrow> None
      | VFunction f \<Rightarrow> None
      | VBuiltin b \<Rightarrow> None
      | _ \<Rightarrow> Some v)"

definition session_eval ::
  "nat \<Rightarrow> nat \<Rightarrow> session \<Rightarrow> string \<Rightarrow> ((exn + lval) \<times> session) option" where
  "session_eval pn n sess expression =
     (case eval_with_return pn n sess (''return '' @ expression) of
        None \<Rightarrow> None
      | Some (Inl e, sess') \<Rightarrow> Some (Inl e, sess')
      | Some (Inr vals, sess') \<Rightarrow>
          (case vals of
             [] \<Rightarrow> Some (Inr VNil, sess')
           | v # vs \<Rightarrow> map_option (\<lambda>pv. (Inr pv, sess')) (to_python v)))"


text \<open>The same for \<^verbatim>\<open>LuaSession().eval(expression)\<close>, with the default limits.\<close>

definition run_eval :: "nat \<Rightarrow> nat \<Rightarrow> string \<Rightarrow> (exn + lval) option" where
  "run_eval pn n expression =
     (case LuaSession 1000000 200 1000000 of
        None \<Rightarrow> None
      | Some (Inl e) \<Rightarrow> Some (Inl e)
      | Some (Inr sess) \<Rightarrow> map_option fst (session_eval pn n sess expression))"

section \<open>Predicates for the properties of the interpreter\<close>

text \<open>
  \<open>same_limits s s'\<close>: the two states have the same limits, call depth and globals
  table. \<open>keeps m s\<close>: the step with outcome \<open>m\<close>, taken in the state \<open>s\<close>, succeeds and
  leaves them as they are.
\<close>

definition same_limits :: "interp \<Rightarrow> interp \<Rightarrow> bool" where
  "same_limits s s' =
     (max_instructions s' = max_instructions s \<and> max_call_depth s' = max_call_depth s \<and>
      max_output_bytes s' = max_output_bytes s \<and> call_depth s' = call_depth s \<and>
      globals s' = globals s)"

definition keeps :: "unit outcome \<Rightarrow> interp \<Rightarrow> bool" where
  "keeps m s = (\<exists>s'. m = ok () s' \<and> same_limits s s')"

text \<open>
  The syntax tree of the example program
  \<^verbatim>\<open>local acc = 0 for i, v in ipairs({10, 20, 30}) do acc = acc * 1000 + i * 100 + v end return acc\<close>.
\<close>

definition for_ipairs_block :: block where
  "for_ipairs_block = Block
  [LocalStatement [''acc''] [None] [NumberLiteral (VInt 0)],
   GenericFor [''i'', ''v'']
     [FunctionCallExpr (NameRef ''ipairs'')
        [TableConstructor [(None, NumberLiteral (VInt 10)), (None, NumberLiteral (VInt 20)),
                           (None, NumberLiteral (VInt 30))]]]
     (Block [AssignStatement [NameRef ''acc'']
               [BinOp ''+''
                  (BinOp ''+'' (BinOp ''*'' (NameRef ''acc'') (NumberLiteral (VInt 1000)))
                               (BinOp ''*'' (NameRef ''i'') (NumberLiteral (VInt 100))))
                  (NameRef ''v'')]]),
   ReturnStatement [NameRef ''acc'']]"

section \<open>Properties of tables\<close>

subsection \<open>Dictionary lemmas\<close>

lemma py_canon_NaN: "py_canon v = VFloat FNaN \<longleftrightarrow> v = VFloat FNaN"
  by (induction v rule: py_canon.induct) auto

lemma py_eq_sym: "py_eq a b \<Longrightarrow> py_eq b a"
  unfolding py_eq_def using py_canon_NaN by metis

lemma py_eq_trans: "py_eq a b \<Longrightarrow> py_eq b c \<Longrightarrow> py_eq a c"
  unfolding py_eq_def by simp

lemma py_eq_VInt: "py_eq k (VInt i) \<longleftrightarrow> py_canon k = VInt i"
  unfolding py_eq_def by auto

lemma dict_contains_setitem:
  "dict_contains (dict_setitem d k v) k' \<longleftrightarrow> py_eq k k' \<or> dict_contains d k'"
  unfolding dict_contains_def
  by (induction d) (auto dest: py_eq_trans py_eq_sym split: if_splits)

lemma dict_pop_filter: "dict_pop d k = filter (\<lambda>kv. \<not> py_eq (fst kv) k) d"
  by (induction d) auto

lemma dict_contains_pop:
  "dict_contains (dict_pop d k) k' \<longleftrightarrow> dict_contains d k' \<and> \<not> py_eq k' k"
proof
  assume "dict_contains (dict_pop d k) k'"
  then obtain kv where kv: "kv \<in> set d" "\<not> py_eq (fst kv) k" "py_eq (fst kv) k'"
    by (auto simp: dict_contains_set dict_pop_filter)
  have "\<not> py_eq k' k"
    using kv(2,3) py_eq_trans by blast
  with kv show "dict_contains d k' \<and> \<not> py_eq k' k"
    by (auto simp: dict_contains_set)
next
  assume a: "dict_contains d k' \<and> \<not> py_eq k' k"
  then obtain kv where kv: "kv \<in> set d" "py_eq (fst kv) k'"
    by (auto simp: dict_contains_set)
  have "\<not> py_eq (fst kv) k"
    using a kv(2) py_eq_sym py_eq_trans by blast
  with kv show "dict_contains (dict_pop d k) k'"
    unfolding dict_contains_set dict_pop_filter by (intro bexI [of _ kv]) simp_all
qed

lemma dict_setitem_values:
  "kv \<in> set (dict_setitem d k v) \<Longrightarrow> snd kv = v \<or> kv \<in> set d"
  by (induction d) (auto split: if_splits)

lemma dict_pop_values: "kv \<in> set (dict_pop d k) \<Longrightarrow> kv \<in> set d"
  by (simp add: dict_pop_filter)

lemma normalize_key_canon:
  "normalize_key key = Inr k \<Longrightarrow> py_canon k = VInt i \<Longrightarrow> isinstance_int k \<and> int_of k = i"
  unfolding normalize_key_def py_trunc_def
  by (auto split: lval.splits pyfloat.splits if_splits simp: Let_def)

subsection \<open>The invariant is preserved\<close>

lemma present_contains:
  "no_nil_values t \<Longrightarrow> present t i \<longleftrightarrow> dict_contains (data t) (VInt i)"
  unfolding present_def rawget_def normalize_key_def no_nil_values_def dict_contains_def
  by (auto split: option.splits dest!: dict_get_Some_set) force

lemma extend_hint_spec:
  "h \<le> extend_hint d h \<and>
   (\<forall>i. h < i \<and> i \<le> extend_hint d h \<longrightarrow> dict_contains d (VInt i)) \<and>
   \<not> dict_contains d (VInt (extend_hint d h + 1))"
proof (induction d h rule: extend_hint.induct)
  case (1 d h)
  show ?case
  proof (cases "dict_contains d (VInt (h + 1))")
    case True
    then have e: "extend_hint d h = extend_hint d (h + 1)"
      by (subst extend_hint.simps) simp
    have "\<And>i. h < i \<Longrightarrow> i \<le> extend_hint d (h + 1) \<Longrightarrow> dict_contains d (VInt i)"
    proof -
      fix i assume "h < i" "i \<le> extend_hint d (h + 1)"
      then show "dict_contains d (VInt i)"
        using "1.IH" [OF True] True by (cases "i = h + 1") auto
    qed
    with "1.IH" [OF True] show ?thesis unfolding e by auto
  next
    case False
    then have "extend_hint d h = h"
      by (subst extend_hint.simps) simp
    with False show ?thesis by auto
  qed
qed

lemma py_eq_int_of: "isinstance_int k \<Longrightarrow> py_eq k (VInt (int_of k))"
  by (cases k) (auto simp: py_eq_def)

lemma rawset_Inr_key:
  assumes "rawset t key v = Inr t'"
  obtains k where "normalize_key key = Inr k" and "k \<noteq> VNil"
proof (cases "normalize_key key")
  case (Inl e)
  with assms show ?thesis by (simp add: rawset_def)
next
  case (Inr k)
  with assms have "k \<noteq> VNil" by (auto simp: rawset_def)
  with Inr that show ?thesis by blast
qed

lemma rawset_del:
  assumes "normalize_key key = Inr k" and "k \<noteq> VNil"
  shows "rawset t key VNil = Inr
     (if isinstance_int k \<and> 1 \<le> int_of k \<and> int_of k \<le> sequence_hint t
      then t\<lparr>next_keys := None, data := dict_pop (data t) k, sequence_hint := int_of k - 1\<rparr>
      else t\<lparr>next_keys := None, data := dict_pop (data t) k\<rparr>)"
  using assms by (simp add: rawset_def Let_def)

lemma rawset_put:
  assumes "normalize_key key = Inr k" and "k \<noteq> VNil" and "v \<noteq> VNil"
  shows "rawset t key v = Inr
     (if isinstance_int k \<and> 1 \<le> int_of k \<and> int_of k = sequence_hint t + 1
      then t\<lparr>next_keys := None, data := dict_setitem (data t) k v,
             sequence_hint := extend_hint (dict_setitem (data t) k v) (int_of k)\<rparr>
      else t\<lparr>next_keys := None, data := dict_setitem (data t) k v\<rparr>)"
  using assms by (simp add: rawset_def Let_def)

lemma rawset_inv_del:
  assumes inv: "table_inv t" and nk: "normalize_key key = Inr k" and knil: "k \<noteq> VNil"
    and rs: "rawset t key VNil = Inr t'"
  shows "table_inv t'"
proof -
  let ?h = "sequence_hint t"
  let ?d = "dict_pop (data t) k"
  have canon: "\<And>i. py_eq (VInt i) k \<Longrightarrow> isinstance_int k \<and> int_of k = i"
    using normalize_key_canon [OF nk] py_eq_sym py_eq_VInt by blast
  have nn: "VNil \<notin> snd ` set ?d"
    using inv dict_pop_values unfolding table_inv_def no_nil_values_def by blast
  have old: "\<And>i. 1 \<le> i \<Longrightarrow> i \<le> ?h \<Longrightarrow> dict_contains (data t) (VInt i)"
    using inv unfolding table_inv_def by blast
  show ?thesis
  proof (cases "isinstance_int k \<and> 1 \<le> int_of k \<and> int_of k \<le> ?h")
    case True
    with rs have t': "t' = t\<lparr>next_keys := None, data := ?d, sequence_hint := int_of k - 1\<rparr>"
      by (simp add: rawset_del [OF nk knil])
    have "py_eq (VInt (int_of k)) k"
      using True py_eq_int_of py_eq_sym by blast
    then have a: "\<not> dict_contains ?d (VInt (int_of k))"
      by (simp add: dict_contains_pop)
    have b: "dict_contains ?d (VInt i)" if "1 \<le> i" "i \<le> int_of k - 1" for i
    proof -
      have "\<not> py_eq (VInt i) k" using canon [of i] that by auto
      moreover have "dict_contains (data t) (VInt i)" using old that True by simp
      ultimately show ?thesis by (simp add: dict_contains_pop)
    qed
    show ?thesis
      unfolding table_inv_def t' no_nil_values_def using True a b nn by simp
  next
    case False
    with rs have t': "t' = t\<lparr>next_keys := None, data := ?d\<rparr>"
      by (simp add: rawset_del [OF nk knil])
    have b: "dict_contains ?d (VInt i)" if "1 \<le> i" "i \<le> ?h" for i
    proof -
      have "\<not> py_eq (VInt i) k" using canon [of i] that False by auto
      then show ?thesis using old that by (simp add: dict_contains_pop)
    qed
    have "\<not> dict_contains ?d (VInt (?h + 1))"
      using inv unfolding table_inv_def by (simp add: dict_contains_pop)
    then show ?thesis
      unfolding table_inv_def t' no_nil_values_def using inv b nn
      by (simp add: table_inv_def)
  qed
qed

lemma rawset_inv_put:
  assumes inv: "table_inv t" and nk: "normalize_key key = Inr k" and knil: "k \<noteq> VNil"
    and vn: "v \<noteq> VNil" and rs: "rawset t key v = Inr t'"
  shows "table_inv t'"
proof -
  let ?h = "sequence_hint t"
  let ?d = "dict_setitem (data t) k v"
  have canon: "\<And>i. py_eq k (VInt i) \<Longrightarrow> isinstance_int k \<and> int_of k = i"
    using normalize_key_canon [OF nk] py_eq_VInt by blast
  have nn: "VNil \<notin> snd ` set ?d"
  proof
    assume "VNil \<in> snd ` set ?d"
    then obtain kv where "kv \<in> set ?d" "snd kv = VNil" by auto
    with dict_setitem_values [of kv "data t" k v] vn inv show False
      unfolding table_inv_def no_nil_values_def by force
  qed
  have old: "\<And>i. 1 \<le> i \<Longrightarrow> i \<le> ?h \<Longrightarrow> dict_contains ?d (VInt i)"
    using inv unfolding table_inv_def by (simp add: dict_contains_setitem)
  show ?thesis
  proof (cases "isinstance_int k \<and> 1 \<le> int_of k \<and> int_of k = ?h + 1")
    case True
    let ?e = "extend_hint ?d (int_of k)"
    from True rs have t': "t' = t\<lparr>next_keys := None, data := ?d, sequence_hint := ?e\<rparr>"
      by (simp add: rawset_put [OF nk knil vn])
    note spec = extend_hint_spec [of "int_of k" ?d]
    have "py_eq k (VInt (int_of k))"
      using True py_eq_int_of by blast
    then have here: "dict_contains ?d (VInt (int_of k))"
      unfolding dict_contains_setitem by blast
    have b: "dict_contains ?d (VInt i)" if "1 \<le> i" "i \<le> ?e" for i
    proof -
      consider "i \<le> ?h" | "i = int_of k" | "int_of k < i" using True by linarith
      then show ?thesis
      proof cases
        case 1 then show ?thesis using old that by simp
      next
        case 2 then show ?thesis using here by simp
      next
        case 3 then show ?thesis using spec that by blast
      qed
    qed
    have "0 \<le> ?e" using spec True by linarith
    moreover have "\<not> dict_contains ?d (VInt (?e + 1))" using spec by blast
    ultimately show ?thesis
      unfolding table_inv_def t' no_nil_values_def using b nn by simp
  next
    case False
    with rs have t': "t' = t\<lparr>next_keys := None, data := ?d\<rparr>"
      by (simp add: rawset_put [OF nk knil vn])
    have h0: "0 \<le> ?h" using inv unfolding table_inv_def by simp
    have "\<not> py_eq k (VInt (?h + 1))"
      using False canon [of "?h + 1"] h0 by auto
    moreover have "\<not> dict_contains (data t) (VInt (?h + 1))"
      using inv unfolding table_inv_def by simp
    ultimately have "\<not> dict_contains ?d (VInt (?h + 1))"
      by (simp add: dict_contains_setitem)
    then show ?thesis
      unfolding table_inv_def t' no_nil_values_def using h0 old nn by simp
  qed
qed

lemma rawset_inv:
  assumes "table_inv t" and "rawset t key v = Inr t'"
  shows "table_inv t'"
proof -
  from assms(2) obtain k where "normalize_key key = Inr k" "k \<noteq> VNil"
    by (rule rawset_Inr_key)
  then show ?thesis
    using assms rawset_inv_del rawset_inv_put by (cases "v = VNil") blast+
qed

lemma length_table_inv:
  "table_inv t \<Longrightarrow> length_table t = Some (sequence_hint t, t)"
  by (simp add: table_inv_def length_table_def)

lemma reachable_inv: "reachable t \<Longrightarrow> table_inv t"
proof (induction rule: reachable.induct)
  case reach_init
  show ?case
    by (simp add: table_inv_def LuaTable_init_def dict_contains_def no_nil_values_def)
next
  case (reach_rawset t k v t')
  then show ?case using rawset_inv by blast
next
  case (reach_length t n t')
  then show ?case using length_table_inv by fastforce
qed





lemma reachable_wf: "reachable t \<Longrightarrow> no_nil_values t \<and> hint_ok t"
proof -
  assume "reachable t"
  then have inv: "table_inv t" by (rule reachable_inv)
  then have nn: "no_nil_values t" by (simp add: table_inv_def)
  from inv have "sequence_hint t = 0 \<or> dict_contains (data t) (VInt (sequence_hint t))"
    unfolding table_inv_def by (cases "sequence_hint t = 0") auto
  with nn show ?thesis
    by (simp add: hint_ok_def present_contains [OF nn])
qed

section \<open>Claims about tables\<close>



text \<open>
  Claim C8. At all times, that is in every state a table reaches from \<^verbatim>\<open>LuaTable()\<close>
  through \<^verbatim>\<open>rawset\<close> of a non-nil value, \<^verbatim>\<open>rawset\<close> of nil and \<^verbatim>\<open>length\<close>, the hint
  \<open>h\<close> satisfies \<open>h = 0\<close> or \<open>t[h]\<close> is present; it never over-reports: every key of
  \<open>1..h\<close> is present (and \<open>h + 1\<close> is absent).
\<close>

theorem hint_invariant:
  assumes "reachable t"
  shows "(sequence_hint t = 0 \<or> present t (sequence_hint t)) \<and>
         (\<forall>i. 1 \<le> i \<and> i \<le> sequence_hint t \<longrightarrow> present t i) \<and>
         \<not> present t (sequence_hint t + 1)"
proof -
  from assms have inv: "table_inv t" by (rule reachable_inv)
  then have nn: "no_nil_values t" by (simp add: table_inv_def)
  from inv have h: "0 \<le> sequence_hint t"
      and a: "\<forall>i. 1 \<le> i \<and> i \<le> sequence_hint t \<longrightarrow> present t i"
      and b: "\<not> present t (sequence_hint t + 1)"
    unfolding table_inv_def present_contains [OF nn] by auto
  from h a have "sequence_hint t = 0 \<or> present t (sequence_hint t)"
    by (cases "sequence_hint t = 0") auto
  with a b show ?thesis by blast
qed

theorem hint_invariant_witness:
  "rawset LuaTable_init (VInt 1) (VStr ''a'') = Inr one_table \<and> reachable one_table \<and>
   (sequence_hint one_table = 0 \<or> present one_table (sequence_hint one_table)) \<and>
   \<not> present one_table (sequence_hint one_table + 1)"
proof -
  have a: "rawset LuaTable_init (VInt 1) (VStr ''a'') = Inr one_table"
    by (simp add: rawset_def normalize_key_def LuaTable_init_def one_table_def Let_def
        extend_hint.simps dict_contains_def py_eq_def)
  have b: "reachable one_table"
    using reach_rawset [OF reach_init a] .
  from hint_invariant [OF b] a b show ?thesis by blast
qed

text \<open>
  Claim C10. Reads and writes treat invalid keys asymmetrically: \<^verbatim>\<open>rawget\<close> with a nil
  key returns nil, \<^verbatim>\<open>rawset\<close> with a nil key fails with \<^verbatim>\<open>table index is nil\<close>, and a NaN
  key makes both fail with \<^verbatim>\<open>table index is NaN\<close>.
\<close>

theorem invalid_key_asymmetry:
  "rawget t VNil = Inr VNil \<and>
   rawset t VNil v = Inl (LuaRuntimeError ''table index is nil'') \<and>
   rawget t (VFloat FNaN) = Inl (LuaRuntimeError ''table index is NaN'') \<and>
   rawset t (VFloat FNaN) v = Inl (LuaRuntimeError ''table index is NaN'')"
  by (simp add: rawget_def rawset_def normalize_key_def)

section \<open>The lexer and parser pipeline\<close>

lemma py_int_empty: "py_int [] b = None"
  by (simp add: py_int_def py_strip_def split_sign_def parse_digit_string_def has_hex_prefix_def)

lemma read_string_empty_unicode:
  "read_string_loop (CHR 0x22) buf (BACKSLASH # CHR ''u'' # CHR ''{'' # CHR ''}'' # rest) lno
     = Some (Inl ValueError)"
  apply (subst read_string_loop.simps)
  apply (simp add: BACKSLASH_def LF_def CR_def py_int_empty)
  done

lemma Lexer_empty_unicode:
  "Lexer ([CHR 0x22, BACKSLASH, CHR ''u'', CHR ''{'', CHR ''}''] @ rest) = Some (Inl ValueError)"
  unfolding Lexer_def
  apply (subst tokenize.simps)
  apply (simp add: next_token_def read_string_def
        read_string_empty_unicode [unfolded BACKSLASH_def]
        is_blank_def LF_def CR_def BACKSLASH_def count_long_bracket_def)
  done

text \<open>
  C1. The claim is that lexing and parsing a source either returns a block or raises
  \<^verbatim>\<open>LuaSyntaxError\<close>. It fails: in a string literal the escape \<^verbatim>\<open>\u{}\<close> with nothing
  between the braces reaches \<^verbatim>\<open>int('', 16)\<close>, which raises \<^verbatim>\<open>ValueError\<close>, and nothing
  catches it. Every source that starts with a double quote followed by \<^verbatim>\<open>\u{}\<close> makes
  \<^verbatim>\<open>Parser(source).parse()\<close> raise \<^verbatim>\<open>ValueError\<close>, whatever follows and at every fuel.
\<close>

theorem parse_raises_ValueError:
  "Parser_parse n ([CHR 0x22, BACKSLASH, CHR ''u'', CHR ''{'', CHR ''}''] @ rest)
     = Some (Inl ValueError)"
  by (simp only: Parser_parse_def Lexer_empty_unicode option.case sum.case)

section \<open>Unfolding the methods\<close>

text \<open>The method of a record made by one more unit of fuel is the definition over the
  record before.\<close>

lemma methods_step_sel:
  "m_exec_block (methods_step M) = exec_block M"
  "m_exec_stmts (methods_step M) = exec_stmts M"
  "m_exec_stmt (methods_step M) = exec_stmt M"
  "m_exec_assign (methods_step M) = exec_assign M"
  "m_assign_targets (methods_step M) = assign_targets M"
  "m_assign_target (methods_step M) = assign_target M"
  "m_exec_local (methods_step M) = exec_local M"
  "m_exec_while (methods_step M) = exec_while M"
  "m_exec_repeat (methods_step M) = exec_repeat M"
  "m_exec_if (methods_step M) = exec_if M"
  "m_exec_numeric_for (methods_step M) = exec_numeric_for M"
  "m_numeric_for_loop (methods_step M) = numeric_for_loop M"
  "m_exec_generic_for (methods_step M) = exec_generic_for M"
  "m_generic_for_loop (methods_step M) = generic_for_loop M"
  "m_eval (methods_step M) = eval M"
  "m_eval_expr (methods_step M) = eval_expr M"
  "m_eval_binop (methods_step M) = eval_binop M"
  "m_eval_unaryop (methods_step M) = eval_unaryop M"
  "m_eval_table_ctor (methods_step M) = eval_table_ctor M"
  "m_table_ctor_fields (methods_step M) = table_ctor_fields M"
  "m_eval_call (methods_step M) = eval_call M"
  "m_eval_method_call (methods_step M) = eval_method_call M"
  "m_eval_explist (methods_step M) = eval_explist M"
  "m_call_function (methods_step M) = call_function M"
  "m_call_lua_function (methods_step M) = call_lua_function M"
  "m_call_builtin (methods_step M) = call_builtin M"
  "m_table_get (methods_step M) = table_get M"
  "m_table_set (methods_step M) = table_set M"
  "m_arith (methods_step M) = arith M"
  "m_float_arith (methods_step M) = float_arith M"
  "m_bitwise (methods_step M) = bitwise M"
  "m_concat_values (methods_step M) = concat_values M"
  "m_eval_equality (methods_step M) = eval_equality M"
  "m_eval_comparison (methods_step M) = eval_comparison M"
  "m_lua_tostring (methods_step M) = lua_tostring M"
  "m_tostring_all (methods_step M) = tostring_all M"
  by (simp_all add: methods_step_def)

lemma pmethods_step_sel:
  "p_parse_block (pmethods_step M) = parse_block M"
  "p_block_loop (pmethods_step M) = block_loop M"
  "p_parse_statement (pmethods_step M) = parse_statement M"
  "p_parse_if (pmethods_step M) = parse_if M"
  "p_elseif_loop (pmethods_step M) = elseif_loop M"
  "p_parse_while (pmethods_step M) = parse_while M"
  "p_parse_do (pmethods_step M) = parse_do M"
  "p_parse_for (pmethods_step M) = parse_for M"
  "p_name_list_loop (pmethods_step M) = name_list_loop M"
  "p_parse_repeat (pmethods_step M) = parse_repeat M"
  "p_parse_function_stat (pmethods_step M) = parse_function_stat M"
  "p_funcname_loop (pmethods_step M) = funcname_loop M"
  "p_parse_local (pmethods_step M) = parse_local M"
  "p_local_names_loop (pmethods_step M) = local_names_loop M"
  "p_parse_return (pmethods_step M) = parse_return M"
  "p_parse_expr_stat (pmethods_step M) = parse_expr_stat M"
  "p_targets_loop (pmethods_step M) = targets_loop M"
  "p_parse_expression (pmethods_step M) = parse_expression M"
  "p_expression_loop (pmethods_step M) = expression_loop M"
  "p_parse_unary (pmethods_step M) = parse_unary M"
  "p_parse_suffixed_expr (pmethods_step M) = parse_suffixed_expr M"
  "p_suffix_loop (pmethods_step M) = suffix_loop M"
  "p_parse_call_args (pmethods_step M) = parse_call_args M"
  "p_parse_primary (pmethods_step M) = parse_primary M"
  "p_parse_simple_expr (pmethods_step M) = parse_simple_expr M"
  "p_parse_function_expr (pmethods_step M) = parse_function_expr M"
  "p_parse_funcbody (pmethods_step M) = parse_funcbody M"
  "p_params_loop (pmethods_step M) = params_loop M"
  "p_parse_table_constructor (pmethods_step M) = parse_table_constructor M"
  "p_fields_loop (pmethods_step M) = fields_loop M"
  "p_parse_expression_list (pmethods_step M) = parse_expression_list M"
  "p_explist_loop (pmethods_step M) = explist_loop M"
  by (simp_all add: pmethods_step_def)

lemma methods_at_numeral: "methods_at (numeral k) = methods_step (methods_at (pred_numeral k))"
  by (simp add: numeral_eq_Suc)

lemma pmethods_at_numeral: "pmethods_at (numeral k) = pmethods_step (pmethods_at (pred_numeral k))"
  by (simp add: numeral_eq_Suc)

lemma methods_at_add_numeral:
  "methods_at (numeral k + n) = methods_step (methods_at (pred_numeral k + n))"
  by (simp add: numeral_eq_Suc)

lemma pmethods_at_add_numeral:
  "pmethods_at (numeral k + n) = pmethods_step (pmethods_at (pred_numeral k + n))"
  by (simp add: numeral_eq_Suc)

text \<open>The definitions to unfold when a run of the lexer, the parser or the evaluator is
  computed by rewriting.\<close>

lemmas monad_defs = bind_def ok_def throw_def lift_def try_break_def

lemmas char_defs = LF_def CR_def BACKSLASH_def is_blank_def py_isdigit_def py_isalpha_def
  py_isalnum_def is_word_char_def

lemmas lexer_eval = Lexer_def tokenize.simps next_token_def read_symbol_def read_string_def
  read_string_loop.simps read_number_def number_value_def starts_with_def count_long_bracket_def
  KEYWORDS_def Token_def char_defs is_dec_or_us_def is_hex_or_us_def is_hexdigit_def
  read_exponent_def py_int_def py_strip_def py_isspace_def split_sign_def
  parse_digit_string_def digit_val_def has_hex_prefix_def Let_def

lemmas parser_eval = Parser_parse_def parse_def p_ok_def p_raise_def p_bind_def cur_def advance_def
  peek_kind_def cur_line_def check_def match_tok_def error_def expect_def tok_str_def
  is_block_end_def skip_semicolons.simps BINARY_OPS_def BINOP_NAMES_def parse_break_def
  is_assign_target_def is_call_expr_def parse_block_def block_loop_def parse_statement_def
  parse_if_def elseif_loop_def parse_while_def parse_do_def parse_repeat_def
  parse_return_def parse_expr_stat_def targets_loop_def parse_expression_def
  expression_loop_def parse_unary_def parse_suffixed_expr_def suffix_loop_def
  parse_call_args_def parse_primary_def parse_simple_expr_def parse_function_expr_def
  parse_funcbody_def params_loop_def parse_table_constructor_def fields_loop_def
  tokens_ahead_is_assign_def parse_expression_list_def
  explist_loop_def pmethods_step_sel pmethods_at_add_numeral pmethods_at_numeral Token_def





lemmas evaluator_eval = execute_def exec_block_def exec_stmts_def exec_stmt_def eval_def
  eval_expr_def eval_binop_def eval_unaryop_def eval_table_ctor_def table_ctor_fields_def
  eval_call_def eval_explist_def call_function_def call_lua_function_def
  methods_step_sel methods_at_add_numeral methods_at_numeral monad_defs tick_def is_truthy_def Let_def
  new_env_def new_table_def new_function_def define_var_def define_varargs_def
  tbl_rawset_def tbl_rawget_def tbl_length_def first_list_def nth_or_nil_def

section \<open>The session\<close>

lemma keeps_bind:
  assumes "keeps m s" and "\<And>u s1. keeps (f u s1) s1"
  shows "keeps (bind m f) s"
proof -
  obtain s1 where m: "m = ok () s1" and l1: "same_limits s s1"
    using assms(1) by (auto simp: keeps_def)
  obtain s2 where f: "f () s1 = ok () s2" and l2: "same_limits s1 s2"
    using assms(2) [of "()" s1] by (auto simp: keeps_def)
  have "bind m f = ok () s2" by (simp add: m f bind_def ok_def)
  moreover have "same_limits s s2" using l1 l2 by (simp add: same_limits_def)
  ultimately show ?thesis by (auto simp: keeps_def)
qed

lemma keeps_new_table:
  assumes "\<And>t s1. keeps (h t s1) s1"
  shows "keeps (case new_table s of (t, s1) \<Rightarrow> h t s1) s"
proof -
  obtain t s1 where n: "new_table s = (t, s1)" by (cases "new_table s")
  then have l: "same_limits s s1" by (auto simp: new_table_def same_limits_def)
  obtain s2 where h: "h t s1 = ok () s2" and l2: "same_limits s1 s2"
    using assms [of t s1] by (auto simp: keeps_def)
  have "same_limits s s2" using l l2 by (simp add: same_limits_def)
  then show ?thesis by (auto simp: keeps_def n h)
qed

lemma keeps_tbl_rawset: "keeps (tbl_rawset a (VStr k) v s) s"
  by (simp add: keeps_def tbl_rawset_def rawset_def normalize_key_def Let_def ok_def
      same_limits_def)

lemma keeps_bf: "keeps (bf name fn s) s"
proof -
  obtain b s1 where n: "new_builtin name fn s = (b, s1)" by (cases "new_builtin name fn s")
  then have l: "same_limits s s1" by (auto simp: new_builtin_def same_limits_def)
  obtain s2 where h: "tbl_rawset (globals s1) (VStr name) (VBuiltin b) s1 = ok () s2"
    and l2: "same_limits s1 s2"
    using keeps_tbl_rawset [of "globals s1" name "VBuiltin b" s1] by (auto simp: keeps_def)
  have "same_limits s s2" using l l2 by (simp add: same_limits_def)
  then show ?thesis by (auto simp: keeps_def bf_def n h)
qed

lemma keeps_lib_set: "keeps (lib_set lib key name fn s) s"
proof -
  obtain b s1 where n: "new_builtin name fn s = (b, s1)" by (cases "new_builtin name fn s")
  then have l: "same_limits s s1" by (auto simp: new_builtin_def same_limits_def)
  obtain s2 where h: "tbl_rawset lib (VStr key) (VBuiltin b) s1 = ok () s2"
    and l2: "same_limits s1 s2"
    using keeps_tbl_rawset [of lib key "VBuiltin b" s1] by (auto simp: keeps_def)
  have "same_limits s s2" using l l2 by (simp add: same_limits_def)
  then show ?thesis by (auto simp: keeps_def lib_set_def n h)
qed

lemma keeps_ok: "keeps (ok () s) s"
  by (simp add: keeps_def same_limits_def ok_def)

lemma keeps_bf_all: "keeps (bf_all l s) s"
proof (induction l arbitrary: s)
  case Nil
  show ?case by (simp add: keeps_ok)
next
  case (Cons p l)
  obtain name fn where p: "p = (name, fn)" by (cases p)
  show ?case unfolding p bf_all.simps by (intro keeps_bind keeps_bf Cons.IH)
qed

lemma keeps_lib_set_all: "keeps (lib_set_all lib prefix l s) s"
proof (induction l arbitrary: s)
  case Nil
  show ?case by (simp add: keeps_ok)
next
  case (Cons p l)
  obtain key fn where p: "p = (key, fn)" by (cases p)
  show ?case unfolding p lib_set_all.simps by (intro keeps_bind keeps_lib_set Cons.IH)
qed

lemma keeps_install_stdlib: "keeps (install_stdlib s) s"
  unfolding install_stdlib_def Let_def
  by (intro keeps_bind keeps_new_table keeps_bf_all keeps_lib_set_all keeps_tbl_rawset)

lemma LuaSession_limits:
  "\<exists>sess. LuaSession mi md mo = Some (Inr sess) \<and>
          max_instructions (interpreter sess) = mi \<and>
          max_call_depth (interpreter sess) = md \<and>
          max_output_bytes (interpreter sess) = mo \<and>
          call_depth (interpreter sess) = 0"
proof -
  obtain s1 where i: "install_stdlib (Interpreter_init mi md mo) = ok () s1"
    and l: "same_limits (Interpreter_init mi md mo) s1"
    using keeps_install_stdlib [of "Interpreter_init mi md mo"] by (auto simp: keeps_def)
  have "max_instructions s1 = mi" "max_call_depth s1 = md" "max_output_bytes s1 = mo"
    "call_depth s1 = 0"
    using l by (simp_all add: same_limits_def Interpreter_init_def)
  then show ?thesis
    by (simp add: LuaSession_def i [unfolded ok_def] new_env_def)
qed
section \<open>The instruction budget\<close>















section \<open>Evaluating an expression on a new session\<close>

text \<open>
  \<^verbatim>\<open>LuaSession().eval(code)\<close> from the parse of \<^verbatim>\<open>return code\<close> and the run of that block
  in any state with the limits of a new session.
\<close>

lemma run_eval_result:
  assumes parse: "Parser_parse pn src = Some (Inr blk)"
    and exec: "\<And>s env. instructions s = 0 \<Longrightarrow> max_instructions s = 1000000 \<Longrightarrow>
                 call_depth s = 0 \<Longrightarrow> max_call_depth s = 200 \<Longrightarrow>
                 \<exists>s'. execute (methods_at n) blk (Some env) s = throw (ReturnSignal (v # vs)) s'"
    and py: "to_python v = Some pv"
    and src: "src = ''return '' @ code"
  shows "run_eval pn n code = Some (Inr pv)"
proof -
  obtain sess where s: "LuaSession 1000000 200 1000000 = Some (Inr sess)"
    and m: "max_instructions (interpreter sess) = 1000000"
    and d: "max_call_depth (interpreter sess) = 200"
    and c: "call_depth (interpreter sess) = 0"
    using LuaSession_limits [of 1000000 200 1000000] by blast
  define s0 where "s0 = (interpreter sess)\<lparr>instructions := 0\<rparr>"
  obtain env s1 where n: "new_env (Some (session_env sess)) s0 = (env, s1)"
    by (cases "new_env (Some (session_env sess)) s0")
  have "instructions s1 = 0" "max_instructions s1 = 1000000" "call_depth s1 = 0"
    "max_call_depth s1 = 200"
    using n m d c by (auto simp: new_env_def s0_def)
  then obtain s' where
    "execute (methods_at n) blk (Some env) s1 = throw (ReturnSignal (v # vs)) s'"
    using exec by blast
  then have "eval_with_return pn n sess (''return '' @ code)
             = Some (Inr (v # vs), sess\<lparr>interpreter := s'\<rparr>)"
    using parse unfolding src
    by (simp add: eval_with_return_def s0_def [symmetric] n throw_def Let_def)
  then show ?thesis
    by (simp add: run_eval_def s session_eval_def py)
qed

section \<open>Equality\<close>

lemma raw_equal_True_1: "raw_equal (VBool True) (VInt 1) = Inr True"
  by (simp add: raw_equal_def py_float_of_int_def)

lemma raw_equal_False_0: "raw_equal (VBool False) (VInt 0) = Inr True"
  by (simp add: raw_equal_def py_float_of_int_def)

lemma eval_equality_True_1:
  "eval_equality M opr (VBool True) (VInt 1) s = ok (VBool (opr = ''=='')) s"
  by (simp add: eval_equality_def raw_equal_True_1 monad_defs)

lemma Lexer_true_eq_1:
  "Lexer ''return true == 1'' =
     Some (Inr [Token TK_RETURN (VStr ''return'') 1, Token TK_TRUE (VStr ''true'') 1,
                Token TK_EQ (VStr ''=='') 1, Token TK_NUMBER (VInt 1) 1, Token TK_EOF VNil 1])"
  by (simp add: lexer_eval split del: if_split)

lemma parse_true_eq_1:
  "Parser_parse (12 + pn) ''return true == 1''
     = Some (Inr (Block [ReturnStatement [BinOp ''=='' TrueLiteral (NumberLiteral (VInt 1))]]))"
  by (simp add: Lexer_true_eq_1 parser_eval split del: if_split)

lemma execute_true_eq_1:
  assumes "instructions s = 0" and "max_instructions s = 1000000"
    and "call_depth s = 0" and "max_call_depth s = 200"
  shows "\<exists>s'. execute (methods_at (8 + n))
                (Block [ReturnStatement [BinOp ''=='' TrueLiteral (NumberLiteral (VInt 1))]])
                (Some env) s
              = throw (ReturnSignal [VBool True]) s'"
  using assms by (simp add: evaluator_eval eval_equality_True_1 [unfolded ok_def] split del: if_split)

text \<open>
  C4. The claim is that \<^verbatim>\<open>==\<close> between a boolean and a number is false. It fails:
  \<^verbatim>\<open>_raw_equal\<close> tests \<^verbatim>\<open>isinstance(a, (int, float))\<close>, which a Python \<^verbatim>\<open>bool\<close> passes, and
  then compares \<^verbatim>\<open>float(a) == float(b)\<close>; so \<^verbatim>\<open>true == 1\<close> and \<^verbatim>\<open>false == 0\<close> are true and
  \<^verbatim>\<open>true ~= 1\<close> is false, in every state, and \<^verbatim>\<open>LuaSession().eval("true == 1")\<close> returns
  \<^verbatim>\<open>True\<close>.
\<close>

theorem bool_equals_number:
  "raw_equal (VBool True) (VInt 1) = Inr True \<and>
   raw_equal (VBool False) (VInt 0) = Inr True \<and>
   eval_equality M ''=='' (VBool True) (VInt 1) s = ok (VBool True) s \<and>
   eval_equality M ''~='' (VBool True) (VInt 1) s = ok (VBool False) s \<and>
   run_eval (12 + pn) (8 + n) ''true == 1'' = Some (Inr (VBool True))"
proof -
  have "run_eval (12 + pn) (8 + n) ''true == 1'' = Some (Inr (VBool True))"
    by (rule run_eval_result [OF parse_true_eq_1 execute_true_eq_1]) (simp_all add: to_python_def)
  then show ?thesis
    by (simp add: raw_equal_True_1 raw_equal_False_0 eval_equality_True_1)
qed

section \<open>The bitwise operators\<close>










section \<open>Parenthesised expressions\<close>

lemma Lexer_paren_call:
  "Lexer ''return (f())'' =
     Some (Inr [Token TK_RETURN (VStr ''return'') 1, Token TK_LPAREN (VStr ''('') 1,
                Token TK_NAME (VStr ''f'') 1, Token TK_LPAREN (VStr ''('') 1,
                Token TK_RPAREN (VStr '')'') 1, Token TK_RPAREN (VStr '')'') 1,
                Token TK_EOF VNil 1])"
  by (simp add: lexer_eval split del: if_split)

lemma Lexer_call:
  "Lexer ''return f()'' =
     Some (Inr [Token TK_RETURN (VStr ''return'') 1,
                Token TK_NAME (VStr ''f'') 1, Token TK_LPAREN (VStr ''('') 1,
                Token TK_RPAREN (VStr '')'') 1, Token TK_EOF VNil 1])"
  by (simp add: lexer_eval split del: if_split)

lemma parse_paren_call:
  "Parser_parse (16 + pn) ''return (f())''
     = Some (Inr (Block [ReturnStatement [FunctionCallExpr (NameRef ''f'') []]]))"
  by (simp add: Lexer_paren_call parser_eval split del: if_split)

lemma parse_call:
  "Parser_parse (16 + pn) ''return f()''
     = Some (Inr (Block [ReturnStatement [FunctionCallExpr (NameRef ''f'') []]]))"
  by (simp add: Lexer_call parser_eval split del: if_split)

lemma Lexer_len_ctor:
  "Lexer ''return #{((function() return 1, 2 end)())}'' =
     Some (Inr [Token TK_RETURN (VStr ''return'') 1, Token TK_HASH (VStr ''#'') 1,
                Token TK_LBRACE (VStr ''{'') 1, Token TK_LPAREN (VStr ''('') 1,
                Token TK_LPAREN (VStr ''('') 1, Token TK_FUNCTION (VStr ''function'') 1,
                Token TK_LPAREN (VStr ''('') 1, Token TK_RPAREN (VStr '')'') 1,
                Token TK_RETURN (VStr ''return'') 1, Token TK_NUMBER (VInt 1) 1,
                Token TK_COMMA (VStr '','') 1, Token TK_NUMBER (VInt 2) 1,
                Token TK_END (VStr ''end'') 1, Token TK_RPAREN (VStr '')'') 1,
                Token TK_LPAREN (VStr ''('') 1, Token TK_RPAREN (VStr '')'') 1,
                Token TK_RPAREN (VStr '')'') 1, Token TK_RBRACE (VStr ''}'') 1,
                Token TK_EOF VNil 1])"
  by (simp add: lexer_eval split del: if_split)

lemma parse_len_ctor:
  "Parser_parse (40 + pn) ''return #{((function() return 1, 2 end)())}''
     = Some (Inr (Block [ReturnStatement
         [UnaryOp ''#'' (TableConstructor
            [(None, FunctionCallExpr
                      (FunctionBody [] False
                         (Block [ReturnStatement [NumberLiteral (VInt 1), NumberLiteral (VInt 2)]]))
                      [])])]]))"
  by (simp add: Lexer_len_ctor parser_eval split del: if_split)

lemmas table_eval = rawset_def rawget_def normalize_key_def length_table_def LuaTable_init_def
  dict_contains_def py_eq_def extend_hint.simps get_metamethod_def rawget_str_def

lemma execute_len_ctor:
  assumes "instructions s = 0" and "max_instructions s = 1000000"
    and "call_depth s = 0" and "max_call_depth s = 200"
  shows "\<exists>s'. execute (methods_at (20 + n))
           (Block [ReturnStatement
              [UnaryOp ''#'' (TableConstructor
                 [(None, FunctionCallExpr
                           (FunctionBody [] False
                              (Block [ReturnStatement
                                        [NumberLiteral (VInt 1), NumberLiteral (VInt 2)]]))
                           [])])]])
           (Some env) s
         = throw (ReturnSignal [VInt 2]) s'"
  using assms by (simp add: evaluator_eval table_eval split del: if_split)

text \<open>
  C3. The claim is that a parenthesised expression is single-valued. It fails: for
  \<^verbatim>\<open>(e)\<close> the parser returns the node of \<^verbatim>\<open>e\<close> itself, so \<^verbatim>\<open>return (f())\<close> and
  \<^verbatim>\<open>return f()\<close> have the same syntax tree, and \<^verbatim>\<open>_eval_explist\<close> and the table constructor
  expand a call in the last position. \<^verbatim>\<open>LuaSession().eval\<close> of
  \<^verbatim>\<open>#{((function() return 1, 2 end)())}\<close>, a table built from one parenthesised call,
  returns 2: both results of the call went into the table.
\<close>

theorem parentheses_keep_all_values:
  "Parser_parse (16 + pn) ''return (f())'' = Parser_parse (16 + pn) ''return f()'' \<and>
   Parser_parse (16 + pn) ''return (f())''
     = Some (Inr (Block [ReturnStatement [FunctionCallExpr (NameRef ''f'') []]])) \<and>
   run_eval (40 + pn) (20 + n) ''#{((function() return 1, 2 end)())}'' = Some (Inr (VInt 2))"
proof -
  have "run_eval (40 + pn) (20 + n) ''#{((function() return 1, 2 end)())}'' = Some (Inr (VInt 2))"
    by (rule run_eval_result [OF parse_len_ctor execute_len_ctor]) (simp_all add: to_python_def)
  then show ?thesis
    by (simp only: parse_paren_call parse_call simp_thms)
qed
section \<open>\<^verbatim>\<open>table.pack\<close> and \<^verbatim>\<open>table.unpack\<close>\<close>

lemmas builtin_eval = call_builtin_def builtin_tbl_pack_def builtin_unpack_def opt_toint_def
  rawget_int_def nth_or_nil_def new_table_def tbl_rawset_def tbl_length_def monad_defs

lemma pack_unpack_non_nil:
  assumes "a \<noteq> VNil" and "b \<noteq> VNil" and "c \<noteq> VNil"
  shows "\<exists>t s1 s2. call_builtin M Btbl_pack [a, b, c] s = ok [VTable t] s1 \<and>
                    call_builtin M Btbl_unpack [VTable t] s1 = ok [a, b, c] s2"
proof -
  define T where
    "T = \<lparr>data = [(VInt 1, a), (VInt 2, b), (VInt 3, c), (VStr ''n'', VInt 3)],
          metatable = None, sequence_hint = 3, next_keys = None\<rparr>"
  define s1 where "s1 = s\<lparr>tables := (tables s)(next_addr s := T), next_addr := Suc (next_addr s)\<rparr>"
  have p: "call_builtin M Btbl_pack [a, b, c] s = ok [VTable (next_addr s)] s1"
    using assms
    by (simp add: builtin_eval table_eval s1_def T_def split del: if_split)
  have u: "call_builtin M Btbl_unpack [VTable (next_addr s)] s1 = ok [a, b, c] s1"
    using assms
    by (simp add: builtin_eval table_eval s1_def T_def upto.simps split del: if_split)
  show ?thesis using p u by blast
qed

text \<open>
  C6. The claim is that \<^verbatim>\<open>table.unpack(table.pack(a, b, c))\<close> returns \<open>a, b, c\<close> for all
  values, nil included. It fails with a nil: \<^verbatim>\<open>_tbl_pack\<close> stores nothing for a nil
  argument, and \<^verbatim>\<open>_unpack\<close> stops at \<^verbatim>\<open>t.length()\<close>, a border of the table.
  \<^verbatim>\<open>table.unpack(table.pack(nil, 2, 3))\<close> returns no value at all.
\<close>

theorem pack_unpack_nil:
  "\<exists>t s1 s2.
     call_builtin no_methods Btbl_pack [VNil, VInt 2, VInt 3] (Interpreter_init 1000000 200 1000000)
       = ok [VTable t] s1 \<and>
     call_builtin no_methods Btbl_unpack [VTable t] s1 = ok [] s2"
proof -
  define s0 where "s0 = Interpreter_init 1000000 200 1000000"
  define T where
    "T = \<lparr>data = [(VInt 2, VInt 2), (VInt 3, VInt 3), (VStr ''n'', VInt 3)],
          metatable = None, sequence_hint = 0, next_keys = None\<rparr>"
  define s1 where
    "s1 = s0\<lparr>tables := (tables s0)(next_addr s0 := T), next_addr := Suc (next_addr s0)\<rparr>"
  have p: "call_builtin no_methods Btbl_pack [VNil, VInt 2, VInt 3] s0
           = ok [VTable (next_addr s0)] s1"
    by (simp add: builtin_eval table_eval s1_def T_def split del: if_split)
  have u: "call_builtin no_methods Btbl_unpack [VTable (next_addr s0)] s1 = ok [] s1"
    by (simp add: builtin_eval table_eval s1_def T_def split del: if_split)
  show ?thesis using p u unfolding s0_def by blast
qed

text \<open>
  C6, as the code has it: for all values \<open>a\<close>, \<open>b\<close>, \<open>c\<close> other than nil,
  \<^verbatim>\<open>table.pack(a, b, c)\<close> returns a new table and \<^verbatim>\<open>table.unpack\<close> of it returns exactly
  \<open>a, b, c\<close>, in every state. (\<^verbatim>\<open>pack\<close> and \<^verbatim>\<open>unpack\<close> of the \<^verbatim>\<open>table\<close> library are these
  two functions.)
\<close>

theorem pack_unpack:
  "(a \<noteq> VNil \<and> b \<noteq> VNil \<and> c \<noteq> VNil \<longrightarrow>
      (\<exists>t s1 s2. call_builtin M Btbl_pack [a, b, c] s = ok [VTable t] s1 \<and>
                  call_builtin M Btbl_unpack [VTable t] s1 = ok [a, b, c] s2)) \<and>
   map_of table_functions ''pack'' = Some Btbl_pack \<and>
   map_of table_functions ''unpack'' = Some Btbl_unpack"
  using pack_unpack_non_nil [of a b c M s] by (simp add: table_functions_def)

theorem pack_unpack_witness:
  "\<exists>t s1 s2.
     call_builtin no_methods Btbl_pack [VInt 1, VStr ''x'', VBool False]
         (Interpreter_init 1000000 200 1000000) = ok [VTable t] s1 \<and>
     call_builtin no_methods Btbl_unpack [VTable t] s1 = ok [VInt 1, VStr ''x'', VBool False] s2"
  using pack_unpack [of "VInt 1" "VStr ''x''" "VBool False" no_methods
      "Interpreter_init 1000000 200 1000000"]
  by simp

section \<open>\<^verbatim>\<open>ipairs\<close>\<close>

lemma rawget_VInt: "rawget t (VInt i) = Inr (rawget_int t i)"
  by (simp add: rawget_def rawget_int_def normalize_key_def split: option.splits)

lemma present_rawget_int: "present t i = (rawget_int t i \<noteq> VNil)"
  by (simp add: present_def rawget_VInt)

lemma ipairs_iterator_step:
  "call_builtin M (Bipairs_iterator t c) args s
     = ok (if rawget_int (tables s t) (counters s c + 1) = VNil then [VNil]
           else [VInt (counters s c + 1), rawget_int (tables s t) (counters s c + 1)])
         (s\<lparr>counters := (counters s)(c := counters s c + 1)\<rparr>)"
  by (simp add: call_builtin_def builtin_ipairs_iterator_def tbl_rawget_def rawget_VInt
      monad_defs Let_def)

lemma ipairs_result:
  "\<exists>s'. call_builtin M Bipairs [VTable t] s
          = ok [VBuiltin (Suc (next_addr s)), VTable t, VInt 0] s' \<and>
        snd (bfunctions s' (Suc (next_addr s))) = Bipairs_iterator t (next_addr s) \<and>
        counters s' (next_addr s) = 0 \<and> tables s' = tables s"
  by (simp add: call_builtin_def builtin_ipairs_def new_counter_def new_builtin_def nth_or_nil_def
      monad_defs Let_def)

lemmas evaluator_eval2 = evaluator_eval exec_assign_def assign_targets_def assign_target_def
  exec_local_def exec_generic_for_def generic_for_loop_def get_var_def set_global_def
  get_local.simps get_varargs.simps set_existing.simps arith_def tonum_def py_arith_def
  call_builtin_def builtin_ipairs_def builtin_ipairs_iterator_def new_counter_def
  new_builtin_def rawget_VInt rawget_int_def

lemma Lexer_for_ipairs:
  "Lexer ''local acc = 0 for i, v in ipairs({10, 20, 30}) do acc = acc * 1000 + i * 100 + v end return acc'' =
     Some (Inr [Token TK_LOCAL (VStr ''local'') 1, Token TK_NAME (VStr ''acc'') 1,
                Token TK_ASSIGN (VStr ''='') 1, Token TK_NUMBER (VInt 0) 1,
                Token TK_FOR (VStr ''for'') 1, Token TK_NAME (VStr ''i'') 1,
                Token TK_COMMA (VStr '','') 1, Token TK_NAME (VStr ''v'') 1,
                Token TK_IN (VStr ''in'') 1, Token TK_NAME (VStr ''ipairs'') 1,
                Token TK_LPAREN (VStr ''('') 1, Token TK_LBRACE (VStr ''{'') 1,
                Token TK_NUMBER (VInt 10) 1, Token TK_COMMA (VStr '','') 1,
                Token TK_NUMBER (VInt 20) 1, Token TK_COMMA (VStr '','') 1,
                Token TK_NUMBER (VInt 30) 1, Token TK_RBRACE (VStr ''}'') 1,
                Token TK_RPAREN (VStr '')'') 1, Token TK_DO (VStr ''do'') 1,
                Token TK_NAME (VStr ''acc'') 1, Token TK_ASSIGN (VStr ''='') 1,
                Token TK_NAME (VStr ''acc'') 1, Token TK_STAR (VStr ''*'') 1,
                Token TK_NUMBER (VInt 1000) 1, Token TK_PLUS (VStr ''+'') 1,
                Token TK_NAME (VStr ''i'') 1, Token TK_STAR (VStr ''*'') 1,
                Token TK_NUMBER (VInt 100) 1, Token TK_PLUS (VStr ''+'') 1,
                Token TK_NAME (VStr ''v'') 1, Token TK_END (VStr ''end'') 1,
                Token TK_RETURN (VStr ''return'') 1, Token TK_NAME (VStr ''acc'') 1,
                Token TK_EOF VNil 1])"
  by (simp add: lexer_eval split del: if_split)

lemma parse_for_ipairs:
  "Parser_parse (40 + pn) ''local acc = 0 for i, v in ipairs({10, 20, 30}) do acc = acc * 1000 + i * 100 + v end return acc''
     = Some (Inr for_ipairs_block)"
  by (simp add: Lexer_for_ipairs parser_eval for_ipairs_block_def parse_local_def parse_attrib_def
      local_names_loop_def parse_for_def name_list_loop_def split del: if_split)

lemma execute_for_ipairs:
  "\<exists>s1 s'. bf ''ipairs'' Bipairs (Interpreter_init 1000000 200 1000000) = ok () s1 \<and>
     execute (methods_at 40) for_ipairs_block None s1 = throw (ReturnSignal [VInt 110220330]) s'"
  by (simp add: bf_def Interpreter_init_def evaluator_eval2 table_eval for_ipairs_block_def
      split del: if_split)

text \<open>
  C9. The claim is that the iterator of \<^verbatim>\<open>ipairs\<close> is a function of its arguments:
  \<^verbatim>\<open>iter(t, i)\<close> returns \<open>(i + 1, t[i + 1])\<close>. It is not: \<^verbatim>\<open>_iter\<close> counts its own calls
  and does not read its arguments. On the table \<^verbatim>\<open>{10, 20}\<close> the first call
  \<^verbatim>\<open>iter(t, 1)\<close> returns \<open>(1, 10)\<close>, where the claim has \<open>(2, 20)\<close>.
\<close>

theorem ipairs_iterator_ignores_control:
  "\<exists>t s1 it s2 s3.
     call_builtin no_methods Btbl_pack [VInt 10, VInt 20] (Interpreter_init 1000000 200 1000000)
       = ok [VTable t] s1 \<and>
     call_builtin no_methods Bipairs [VTable t] s1 = ok [VBuiltin it, VTable t, VInt 0] s2 \<and>
     call_function (methods_step no_methods) (VBuiltin it) [VTable t, VInt 1] s2
       = ok [VInt 1, VInt 10] s3"
  by (simp add: Interpreter_init_def builtin_eval table_eval evaluator_eval2 split del: if_split)

text \<open>
  C9, as the code has it. \<^verbatim>\<open>ipairs(t)\<close> returns \<open>(iter, t, 0)\<close>, where \<open>iter\<close> is a new
  function with a counter of its own, at 0. Each call of \<open>iter\<close>, with whatever
  arguments, adds one to the counter and returns \<open>(k, t[k])\<close> for the new value \<open>k\<close> of the
  counter if \<open>t[k]\<close> is not nil, and nil otherwise. So on a table whose integer keys are
  exactly \<open>1 .. n\<close> the first \<open>n\<close> calls return \<open>(1, t[1]), ..., (n, t[n])\<close> and the next
  one nil, which is what a generic \<^verbatim>\<open>for\<close> needs: the example program run with \<^verbatim>\<open>ipairs\<close>
  as a global visits \<open>(1, 10)\<close>, \<open>(2, 20)\<close>, \<open>(3, 30)\<close> in this order.
\<close>

theorem ipairs_iterator_counts:
  "(\<exists>s'. call_builtin M Bipairs [VTable t] s
            = ok [VBuiltin (Suc (next_addr s)), VTable t, VInt 0] s' \<and>
          snd (bfunctions s' (Suc (next_addr s))) = Bipairs_iterator t (next_addr s) \<and>
          counters s' (next_addr s) = 0 \<and> tables s' = tables s) \<and>
   call_builtin M (Bipairs_iterator t c) args s
     = ok (if rawget_int (tables s t) (counters s c + 1) = VNil then [VNil]
           else [VInt (counters s c + 1), rawget_int (tables s t) (counters s c + 1)])
         (s\<lparr>counters := (counters s)(c := counters s c + 1)\<rparr>) \<and>
   ((\<forall>i. present (tables s t) i = (1 \<le> i \<and> i \<le> n)) \<longrightarrow>
      (0 \<le> counters s c \<and> counters s c < n \<longrightarrow>
         rawget_int (tables s t) (counters s c + 1) \<noteq> VNil \<and>
         call_builtin M (Bipairs_iterator t c) args s
           = ok [VInt (counters s c + 1), rawget_int (tables s t) (counters s c + 1)]
               (s\<lparr>counters := (counters s)(c := counters s c + 1)\<rparr>)) \<and>
      (counters s c = n \<longrightarrow>
         call_builtin M (Bipairs_iterator t c) args s
           = ok [VNil] (s\<lparr>counters := (counters s)(c := counters s c + 1)\<rparr>))) \<and>
   Parser_parse (40 + pn)
       ''local acc = 0 for i, v in ipairs({10, 20, 30}) do acc = acc * 1000 + i * 100 + v end return acc''
     = Some (Inr for_ipairs_block) \<and>
   (\<exists>s1 s'. bf ''ipairs'' Bipairs (Interpreter_init 1000000 200 1000000) = ok () s1 \<and>
      execute (methods_at 40) for_ipairs_block None s1
        = throw (ReturnSignal [VInt 110220330]) s')"
proof -
  have a: "rawget_int (tables s t) (counters s c + 1) \<noteq> VNil"
    if "\<forall>i. present (tables s t) i = (1 \<le> i \<and> i \<le> n)" "0 \<le> counters s c" "counters s c < n"
    using that by (simp add: present_rawget_int)
  have b: "rawget_int (tables s t) (counters s c + 1) = VNil"
    if "\<forall>i. present (tables s t) i = (1 \<le> i \<and> i \<le> n)" "counters s c = n"
    using that(1) [rule_format, of "n + 1"] that(2) by (simp add: present_rawget_int)
  show ?thesis
    using ipairs_result [of M t s] execute_for_ipairs a b
    by (simp only: ipairs_iterator_step parse_for_ipairs simp_thms) auto
qed

theorem ipairs_iterator_counts_witness:
  "(\<forall>i. present seq_table i = (1 \<le> i \<and> i \<le> 3)) \<and>
   call_builtin no_methods (Bipairs_iterator 5 6) [VNil, VInt 7]
       ((Interpreter_init 1000 200 1000)\<lparr>tables := (\<lambda>a. seq_table)\<rparr>)
     = ok [VInt 1, VStr ''a'']
         ((Interpreter_init 1000 200 1000)\<lparr>tables := (\<lambda>a. seq_table), counters := (\<lambda>a. 0)(6 := 1)\<rparr>)"
proof -
  have p: "\<forall>i. present seq_table i = (1 \<le> i \<and> i \<le> 3)"
    by (auto simp: present_rawget_int rawget_int_def rawget_def normalize_key_def seq_table_def
        py_eq_def)
  show ?thesis
    using p ipairs_iterator_counts [where n = 3 and M = no_methods and t = 5 and c = 6
        and args = "[VNil, VInt 7]" and pn = 0
        and s = "(Interpreter_init 1000 200 1000)\<lparr>tables := (\<lambda>a. seq_table)\<rparr>"]
    by (simp add: Interpreter_init_def rawget_int_def rawget_def normalize_key_def seq_table_def
        py_eq_def)
qed
end
